theory Spec2Isabelle
  imports Main "HOL-Library.AList"
begin

section \<open>The OCI sizing scripts\<close>

text \<open>
  The repository holds two variants of one inventory script: \<^verbatim>\<open>OCI/oci_cs.py\<close>
  (workloads \<^verbatim>\<open>instances\<close> and \<^verbatim>\<open>object_storage\<close>, one summary per region and
  compartment) and \<^verbatim>\<open>OCI/CVOracleCloudSizingScript.py\<close> (workloads \<^verbatim>\<open>instances\<close>,
  \<^verbatim>\<open>object_storage\<close>, \<^verbatim>\<open>db_systems\<close> and \<^verbatim>\<open>oke_clusters\<close>, one summary per region). Both define functions of the same names; the definitions below carry the
  prefix \<open>cs_\<close> for the first file and \<open>cv_\<close> for the second, and no prefix where the
  two files have the same text.

  Conventions of the embedding.
  \<^item> Python integers are \<open>int\<close>. A float that the scripts only ever produce with
    \<^verbatim>\<open>round(x, 2)\<close>, or by adding such values, is a \<open>dec2\<close>: the count of its
    hundredths, so that \<open>59\<close> stands for \<^verbatim>\<open>0.59\<close>. The float itself is the binary64
    number nearest to that decimal, and where a script divides such a float again (the
    TB size of a bucket) the model divides and rounds that binary64 number. Sums of such
    floats are exact in the model; the binary rounding of a float addition is not
    represented.
  \<^item> An exception is a value of \<open>error\<close>; a statement that may raise returns an
    \<open>outcome\<close>, which carries the process state at the raise.
  \<^item> The cloud provider, the \<^verbatim>\<open>oci\<close> command and \<^verbatim>\<open>kubectl\<close> are a record of
    response functions (\<open>cloud\<close>): a request is answered by a list or by an error.
    A client object is built from \<^verbatim>\<open>config\<close>, of which only the \<^verbatim>\<open>"region"\<close> entry
    changes during a run, so responses are indexed by the region.
  \<^item> Log and console output is not part of the state.
\<close>

subsection \<open>Values, errors, the workbook\<close>

datatype error =
  ServiceError | KeyError | ValueError | AttributeError | TypeError | FileNotFoundError
  | CalledProcessError | JSONDecodeError | SystemExit

type_synonym dec2 = int

datatype cell = CNone | CStr string | CInt int | CDec dec2

text \<open>
  A row of a worksheet: the values appended, and the two styles the scripts set (always on
  every cell of a row at once): a bold font and the grey header fill.
\<close>

record row =
  cells :: "cell list"
  bold :: bool
  fill :: bool

type_synonym sheet = "row list"

text \<open>A workbook is its worksheets by title, in the order of their creation.\<close>

type_synonym workbook = "(string \<times> sheet) list"

text \<open>
  The state of the process: the workbooks on disk by file name, the other files on disk
  (the kubeconfig files), the \<^verbatim>\<open>config\<close> dictionary the caller passes in, and the
  module's global counters (\<^verbatim>\<open>oci_cs.py\<close> declares the first six of them). The
  counter \<^verbatim>\<open>total_namespaces\<close>, which no function assigns, is left out.
\<close>

record state =
  files :: "string \<rightharpoonup> workbook"
  tmpfiles :: "string set"
  config :: "string \<rightharpoonup> string"
  total_instances :: int
  total_instance_sizeGB :: int
  total_instance_sizeTB :: dec2
  total_buckets :: int
  total_storageGB :: dec2
  total_storageTB :: dec2
  total_db_systems :: int
  total_db_system_sizeGB :: int
  total_db_system_sizeTB :: dec2
  total_oke_clusters :: int
  total_oke_node_count :: int
  total_oke_pvc_count :: int
  total_oke_pvc_size_gb :: int
  total_oke_pvc_size_tb :: dec2

datatype 'a outcome = Ok 'a state | Raised error state

text \<open>Sequencing: the second statement runs when the first did not raise.\<close>

fun and_then :: "'a outcome \<Rightarrow> ('a \<Rightarrow> state \<Rightarrow> 'b outcome) \<Rightarrow> 'b outcome" where
  "and_then (Ok a st) f = f a st"
| "and_then (Raised e st) f = Raised e st"

text \<open>
  A \<^verbatim>\<open>for\<close> loop whose body may raise: \<open>b\<close> are the local variables the body updates.
\<close>

fun for_each :: "('x \<Rightarrow> 'b \<Rightarrow> state \<Rightarrow> 'b outcome) \<Rightarrow> 'x list \<Rightarrow> 'b \<Rightarrow> state \<Rightarrow> 'b outcome" where
  "for_each body [] b st = Ok b st"
| "for_each body (x # xs) b st =
     (case body x b st of
        Ok b' st' \<Rightarrow> for_each body xs b' st'
      | Raised e st' \<Rightarrow> Raised e st')"

text \<open>
  \<^verbatim>\<open>round(n / d, 2)\<close> for integers \<open>n\<close> and \<open>d > 0\<close>, in hundredths. Python rounds the
  exact value of the float to the nearest hundredth and a tie to the even one; the
  quotient \<^verbatim>\<open>n / d\<close> is exact for the divisors the scripts use (powers of two) and
  \<open>n\<close> below \<open>2^53\<close>.
\<close>

definition round_half_even :: "int \<Rightarrow> int \<Rightarrow> int" where
  "round_half_even n d =
     (let q = n div d; r = n mod d
      in if 2 * r < d then q
         else if 2 * r > d then q + 1
         else if even q then q else q + 1)"

definition round2_quot :: "int \<Rightarrow> int \<Rightarrow> dec2" where
  "round2_quot n d = round_half_even (100 * n) d"

text \<open>
  Python floats are IEEE 754 binary64 numbers. \<open>binary64 n d\<close> is the float nearest to
  the quotient of the integers \<open>n\<close> and \<open>d > 0\<close>, a tie going to the even significand:
  the pair \<open>(m, e)\<close> of its significand of 53 bits and its exponent stands for
  \<open>m * 2 ^ e\<close>. \<open>bit_length n\<close> is the number of binary digits of \<open>n > 0\<close>, and
  \<open>shifted n d e\<close> is the fraction \<open>(n / d) / 2 ^ e\<close>. Subnormal numbers and overflow,
  far from every size the scripts see, are not represented.
\<close>

function bits :: "bool \<Rightarrow> int \<Rightarrow> int" where
  "bits True n = 0"
| "bits False n = 1 + bits (n div 2 \<le> 0) (n div 2)"
  by pat_completeness auto
termination
  by (relation "measure (\<lambda>(b, n). if b then 0 else nat n + 1)") auto

definition bit_length :: "int \<Rightarrow> int" where
  "bit_length n = bits (n \<le> 0) n"

definition shifted :: "int \<Rightarrow> int \<Rightarrow> int \<Rightarrow> int \<times> int" where
  "shifted n d e = (if 0 \<le> e then (n, d * 2 ^ nat e) else (n * 2 ^ nat (- e), d))"

definition binary64 :: "int \<Rightarrow> int \<Rightarrow> int \<times> int" where
  "binary64 n d =
     (if n = 0 then (0, 0)
      else
        (let a = \<bar>n\<bar>;
             k = bit_length a - bit_length d;
             p = (case shifted a d k of (x, y) \<Rightarrow> if y \<le> x then k else k - 1);
             e = p - 52
         in case shifted a d e of (x, y) \<Rightarrow> (sgn n * round_half_even x y, e)))"

text \<open>The float \<open>x / d\<close> for a float \<open>x\<close> and an integer \<open>d > 0\<close>.\<close>

definition float_div :: "int \<times> int \<Rightarrow> int \<Rightarrow> int \<times> int" where
  "float_div x d = (case x of (m, e) \<Rightarrow> case shifted m d (- e) of (a, b) \<Rightarrow> binary64 a b)"

text \<open>
  \<^verbatim>\<open>round(x, 2)\<close> for a float \<open>x\<close>, in hundredths: Python rounds the exact value of the
  float to the nearest hundredth, a tie going to the even one.
\<close>

definition round2_float :: "int \<times> int \<Rightarrow> dec2" where
  "round2_float x =
     (case x of (m, e) \<Rightarrow> case shifted (100 * m) 1 (- e) of (a, b) \<Rightarrow> round_half_even a b)"

text \<open>
  \<^verbatim>\<open>round(g / 1024, 2)\<close> for a float \<open>g\<close> of two decimals (object storage sizes), given
  by its hundredths: the float nearest to the decimal is divided, and the quotient
  rounded. So \<^verbatim>\<open>round(5.12 / 1024, 2)\<close> is \<^verbatim>\<open>0.01\<close> and \<^verbatim>\<open>round(15.36 / 1024, 2)\<close> is
  \<^verbatim>\<open>0.01\<close>, the float nearest to \<^verbatim>\<open>5.12\<close> lying above it and the one nearest to
  \<^verbatim>\<open>15.36\<close> below it.
\<close>

definition round2_dec_quot :: "dec2 \<Rightarrow> int \<Rightarrow> dec2" where
  "round2_dec_quot g d = round2_float (float_div (binary64 g 100) d)"

subsubsection \<open>openpyxl\<close>

definition load_workbook :: "state \<Rightarrow> string \<Rightarrow> error + workbook" where
  "load_workbook st filename =
     (case files st filename of None \<Rightarrow> Inl FileNotFoundError | Some wb \<Rightarrow> Inr wb)"

definition save :: "workbook \<Rightarrow> string \<Rightarrow> state \<Rightarrow> state" where
  "save wb filename st = st\<lparr>files := (files st)(filename \<mapsto> wb)\<rparr>"

definition create_sheet :: "workbook \<Rightarrow> string \<Rightarrow> workbook" where
  "create_sheet wb title = wb @ [(title, [])]"

definition wb_getitem :: "workbook \<Rightarrow> string \<Rightarrow> error + sheet" where
  "wb_getitem wb title =
     (case map_of wb title of None \<Rightarrow> Inl KeyError | Some sh \<Rightarrow> Inr sh)"

definition plain_row :: "cell list \<Rightarrow> row" where
  "plain_row cs = \<lparr>cells = cs, bold = False, fill = False\<rparr>"

definition sheet_append :: "sheet \<Rightarrow> cell list \<Rightarrow> sheet" where
  "sheet_append sh cs = sh @ [plain_row cs]"

definition max_column :: "sheet \<Rightarrow> nat" where
  "max_column sh = foldr (\<lambda>r m. max (length (cells r)) m) sh 1"

text \<open>
  \<^verbatim>\<open>for cell in sheet[n]: cell.font = bold_font\<close>, rows counted from 1. Reading a row
  beyond the last one creates it, with empty cells.
\<close>

definition ensure_row :: "sheet \<Rightarrow> nat \<Rightarrow> sheet" where
  "ensure_row sh n =
     (if length sh < n
      then sh @ replicate (n - length sh) (plain_row (replicate (max_column sh) CNone))
      else sh)"

definition set_row_bold :: "sheet \<Rightarrow> nat \<Rightarrow> sheet" where
  "set_row_bold sh n =
     (let sh' = ensure_row sh n in sh'[n - 1 := (sh' ! (n - 1))\<lparr>bold := True\<rparr>])"

definition set_row_fill :: "sheet \<Rightarrow> nat \<Rightarrow> sheet" where
  "set_row_fill sh n =
     (let sh' = ensure_row sh n in sh'[n - 1 := (sh' ! (n - 1))\<lparr>fill := True\<rparr>])"

definition header_row :: "string list \<Rightarrow> cell list" where
  "header_row hs = map CStr hs"

text \<open>
  \<^verbatim>\<open>format_workbook\<close> (the same in both files): the first row of every sheet gets the
  bold font and the fill. The column widths it also sets are not modelled.
\<close>

definition format_workbook :: "string \<Rightarrow> state \<Rightarrow> unit outcome" where
  "format_workbook filename st =
     (case load_workbook st filename of
        Inl e \<Rightarrow> Raised e st
      | Inr wb \<Rightarrow>
          Ok () (save (map (\<lambda>(title, sh). (title, set_row_fill (set_row_bold sh 1) 1)) wb)
                   filename st))"

subsection \<open>Sheets and headers\<close>

definition cs_get_sheet_info :: "string \<Rightarrow> error + (string \<times> string \<times> string list \<times> string list)" where
  "cs_get_sheet_info workload =
     (if workload = ''instances'' then
        Inr (''InstanceInfo'', ''InstanceSummary'',
             [''Compartment ID'', ''Instance ID'', ''Instance Name'', ''Region'',
              ''Availability Domain'', ''Shape'', ''State'', ''Number of Volumes'',
              ''Size (GB)'', ''Size (TB)'', ''Defined Tags'', ''Freeform Tags''],
             [''Region'', ''Compartment ID'', ''Instance Count'', ''Total Size (GB)'',
              ''Total Size (TB)''])
      else if workload = ''object_storage'' then
        Inr (''ObjectStorageInfo'', ''ObjectStorageSummary'',
             [''Namespace'', ''Compartment ID'', ''Bucket Name'', ''Region'',
              ''Storage Tier'', ''Object Count'', ''Size (GB)'', ''Size (TB)'',
              ''Defined Tags'', ''Freeform Tags''],
             [''Namespace'', ''Region'', ''Compartment ID'', ''Bucket Count'',
              ''Total Size (GB)'', ''Total Size (TB)''])
      else Inl ValueError)"

definition cv_get_sheet_info :: "string \<Rightarrow> error + (string \<times> string \<times> string list \<times> string list)" where
  "cv_get_sheet_info workload =
     (if workload = ''instances'' then
        Inr (''Instance Info'', ''Instance Summary'',
             [''Compartment ID'', ''Instance ID'', ''Instance Name'', ''Region'',
              ''Availability Domain'', ''Shape'', ''State'', ''Number of Volumes'',
              ''Size (GB)'', ''Size (TB)'', ''Boot Volume Name'', ''Block Volume Names'',
              ''Defined Tags'', ''Freeform Tags''],
             [''Region'', ''Instance Count'', ''Total Size (GB)'', ''Total Size (TB)''])
      else if workload = ''object_storage'' then
        Inr (''Object Storage Info'', ''Object Storage Summary'',
             [''Namespace'', ''Compartment ID'', ''Bucket Name'', ''Region'',
              ''Storage Tier'', ''Object Count'', ''Size (GB)'', ''Size (TB)'',
              ''Defined Tags'', ''Freeform Tags''],
             [''Region'', ''Bucket Count'', ''Total Size (GB)'', ''Total Size (TB)''])
      else if workload = ''db_systems'' then
        Inr (''DB System Info'', ''DB System Summary'',
             [''Compartment ID'', ''DB System ID'', ''Display Name'', ''Region'',
              ''Availability Domain'', ''Shape'', ''Lifecycle State'', ''Node Count'',
              ''DB Version'', ''Database Edition'', ''Data Storage Size (GB)'',
              ''Data Storage Size (TB)'', ''Defined Tags'', ''Freeform Tags''],
             [''Region'', ''DB System Count'', ''Total Storage (GB)'', ''Total Storage (TB)''])
      else if workload = ''oke_clusters'' then
        Inr (''OKE Cluster Info'', ''OKE Cluster Summary'',
             [''Region'', ''Cluster ID'', ''Cluster Name'', ''Kubernetes Version'',
              ''Node Count'', ''PVC Count'', ''Total PVC Size (GB)'', ''Total PVC Size (TB)'',
              ''PVC Names'', ''Node Names''],
             [''Region'', ''Cluster Count'', ''Total Node Count'', ''Total PVC Count'',
              ''Total PVC Size (GB)'', ''Total PVC Size (TB)''])
      else Inl ValueError)"

subsection \<open>\<^verbatim>\<open>init_excel\<close>\<close>

text \<open>
  \<^verbatim>\<open>os.path.exists(filename)\<close> is membership in the workbooks on disk. A new
  \<^verbatim>\<open>Workbook()\<close> has one default sheet, which is removed first.
\<close>

definition new_workbook :: "string \<Rightarrow> string \<Rightarrow> string \<Rightarrow> string list \<Rightarrow> string list \<Rightarrow> workbook" where
  "new_workbook first second info_sheet info_headers summary_headers =
     map (\<lambda>(title, sh).
            (title, sheet_append sh
               (header_row (if title = info_sheet then info_headers else summary_headers))))
       (create_sheet (create_sheet [] first) second)"

definition cs_init_excel :: "string \<Rightarrow> string \<Rightarrow> state \<Rightarrow> unit outcome" where
  "cs_init_excel filename workload st =
     (if files st filename = None then
        (case cs_get_sheet_info workload of
           Inl e \<Rightarrow> Raised e st
         | Inr (info_sheet, summary_sheet, info_headers, summary_headers) \<Rightarrow>
             Ok () (save (new_workbook info_sheet summary_sheet info_sheet
                            info_headers summary_headers) filename st))
      else Ok () st)"

definition cv_init_excel :: "string \<Rightarrow> string \<Rightarrow> state \<Rightarrow> unit outcome" where
  "cv_init_excel filename workload st =
     (if files st filename = None then
        (case cv_get_sheet_info workload of
           Inl e \<Rightarrow> Raised e st
         | Inr (info_sheet, summary_sheet, info_headers, summary_headers) \<Rightarrow>
             Ok () (save (new_workbook summary_sheet info_sheet info_sheet
                            info_headers summary_headers) filename st))
      else Ok () st)"

text \<open>The state a process starts in: nothing on disk but \<open>fs\<close>, every counter zero.\<close>

definition initial_state :: "(string \<rightharpoonup> workbook) \<Rightarrow> (string \<rightharpoonup> string) \<Rightarrow> state" where
  "initial_state fs cfg =
     \<lparr>files = fs, tmpfiles = {}, config = cfg,
      total_instances = 0, total_instance_sizeGB = 0, total_instance_sizeTB = 0,
      total_buckets = 0, total_storageGB = 0, total_storageTB = 0,
      total_db_systems = 0, total_db_system_sizeGB = 0, total_db_system_sizeTB = 0,
      total_oke_clusters = 0, total_oke_node_count = 0, total_oke_pvc_count = 0,
      total_oke_pvc_size_gb = 0, total_oke_pvc_size_tb = 0\<rparr>"

subsection \<open>Detail records and summaries\<close>

text \<open>
  The classes of the two files, with the union of their attributes: \<^verbatim>\<open>oci_cs.py\<close> has
  no \<^verbatim>\<open>boot_volume_name\<close> and \<^verbatim>\<open>block_volume_names\<close>, and
  \<^verbatim>\<open>CVOracleCloudSizingScript.py\<close> has no \<^verbatim>\<open>compartment_id\<close> in its summaries; each
  model leaves the attributes its file does not have at their defaults and never reads
  them. Field names carry the initials of their class. Tag dictionaries are carried as
  the text \<^verbatim>\<open>str()\<close> gives for them.
\<close>

record InstanceInfo =
  ii_compartment_id :: string
  ii_instance_id :: string
  ii_instance_name :: string
  ii_region :: string
  ii_availability_domain :: string
  ii_shape :: string
  ii_state :: string
  ii_number_of_volumes :: int
  ii_sizeGB :: int
  ii_sizeTB :: dec2
  ii_defined_tags :: string
  ii_freeform_tags :: string
  ii_boot_volume_name :: "string option"
  ii_block_volume_names :: "string list"

record InstanceSummary =
  is_region :: "string option"
  is_compartment_id :: "string option"
  is_instance_count :: int
  is_total_sizeGB :: int
  is_total_sizeTB :: dec2

record ObjectStorageInfo =
  oi_compartment_id :: string
  oi_namespace :: string
  oi_bucket_name :: string
  oi_region :: string
  oi_storage_tier :: string
  oi_object_count :: "int option"
  oi_sizeGB :: dec2
  oi_sizeTB :: dec2
  oi_defined_tags :: string
  oi_freeform_tags :: string

record ObjectStorageSummary =
  os_region :: "string option"
  os_namespace :: "string option"
  os_compartment_id :: "string option"
  os_bucket_count :: int
  os_total_storage_GB :: dec2
  os_total_storage_TB :: dec2

record DBSystemInfo =
  di_compartment_id :: string
  di_db_system_id :: string
  di_display_name :: string
  di_region :: string
  di_availability_domain :: string
  di_shape :: string
  di_lifecycle_state :: string
  di_node_count :: "int option"
  di_db_version :: "string option"
  di_database_edition :: "string option"
  di_data_storage_size_gb :: int
  di_data_storage_size_tb :: dec2
  di_defined_tags :: string
  di_freeform_tags :: string

record DBSystemSummary =
  ds_region :: "string option"
  ds_db_system_count :: int
  ds_total_storage_gb :: int
  ds_total_storage_tb :: dec2

record OKEClusterInfo =
  ki_region :: string
  ki_cluster_id :: string
  ki_cluster_name :: string
  ki_kubernetes_version :: string
  ki_node_count :: int
  ki_node_names :: "string list"
  ki_pvc_count :: int
  ki_pvc_names :: "string list"
  ki_total_pvc_size_gb :: int
  ki_total_pvc_size_tb :: dec2

record OKEClusterSummary =
  ks_region :: "string option"
  ks_cluster_count :: int
  ks_total_node_count :: int
  ks_total_pvc_count :: int
  ks_total_pvc_size_gb :: int
  ks_total_pvc_size_tb :: dec2

text \<open>What \<^verbatim>\<open>dump_info\<close> and \<^verbatim>\<open>dump_summary\<close> are passed: objects of any class.\<close>

datatype info =
  Instance InstanceInfo | Bucket ObjectStorageInfo | DBSystem DBSystemInfo
  | Cluster OKEClusterInfo

datatype summary =
  InstanceSum InstanceSummary | BucketSum ObjectStorageSummary | DBSum DBSystemSummary
  | ClusterSum OKEClusterSummary

subsection \<open>The provider\<close>

record compute_instance =
  inst_id :: string
  inst_display_name :: string
  inst_availability_domain :: string
  inst_shape :: string
  inst_lifecycle_state :: string
  inst_compartment_id :: string
  inst_defined_tags :: string
  inst_freeform_tags :: string

record volume =
  vol_display_name :: string
  vol_size_in_gbs :: int

record bucket_stats =
  bkt_storage_tier :: string
  bkt_defined_tags :: string
  bkt_freeform_tags :: string
  bkt_approximate_size :: "int option"
  bkt_approximate_count :: "int option"

text \<open>
  A DB system as \<^verbatim>\<open>list_db_systems\<close> returns it. The attributes the script guards
  with \<^verbatim>\<open>hasattr\<close> are properties of the SDK's class, present on every object; the
  value of each may be \<^verbatim>\<open>None\<close>.
\<close>

record db_system =
  db_id :: string
  db_display_name :: string
  db_availability_domain :: string
  db_shape :: string
  db_lifecycle_state :: string
  db_node_count :: "int option"
  db_version :: "string option"
  db_database_edition :: "string option"
  db_data_storage_size_in_gbs :: "int option"
  db_defined_tags :: string
  db_freeform_tags :: string

record cluster =
  cl_id :: string
  cl_name :: string
  cl_kubernetes_version :: string
  cl_lifecycle_state :: string

text \<open>
  One item of \<^verbatim>\<open>kubectl get pvc -A -o json\<close>, as far as the script reads it: whether it
  has a \<^verbatim>\<open>metadata\<close> object, with its \<^verbatim>\<open>namespace\<close> and \<^verbatim>\<open>name\<close> when present;
  and its storage request: \<open>NoSpec\<close> when reading \<^verbatim>\<open>pvc["spec"]["resources"]["requests"]\<close>
  raises, \<open>NoStorage\<close> when the item has no request (the comprehension skips it),
  \<open>Storage n\<close> when \<^verbatim>\<open>int(storage.replace("Gi", ""))\<close> returns \<open>n\<close>, and
  \<open>StorageUnparsed\<close> when it raises.
\<close>

datatype pvc_metadata = NoMetadata | Metadata "string option" "string option"

datatype pvc_storage = NoSpec | NoStorage | Storage int | StorageUnparsed

record pvc =
  pvc_metadata :: pvc_metadata
  pvc_storage :: pvc_storage

text \<open>
  \<^verbatim>\<open>oci ce cluster create-kubeconfig\<close> either writes the file and returns, or fails,
  having written the file or not.
\<close>

datatype kubeconfig_result = Created | Failed bool

text \<open>
  The responses. \<open>kubectl_get_pvc\<close> answers with the \<^verbatim>\<open>items\<close> of the parsed output,
  or with an error when the command fails, its output is not JSON or has no
  \<^verbatim>\<open>items\<close>; \<open>kubectl_get_nodes\<close> answers with the node names
  (\<^verbatim>\<open>n["metadata"]["name"]\<close> of every item), or with an error likewise.
\<close>

record cloud =
  list_region_subscriptions :: "string \<Rightarrow> error + string list"
  list_compartments :: "string \<Rightarrow> error + string list"
  list_instances :: "string \<Rightarrow> string \<Rightarrow> error + compute_instance list"
  list_boot_volume_attachments :: "string \<Rightarrow> string \<Rightarrow> string \<Rightarrow> string \<Rightarrow> error + string list"
  get_boot_volume :: "string \<Rightarrow> string \<Rightarrow> error + volume"
  list_volume_attachments :: "string \<Rightarrow> string \<Rightarrow> string \<Rightarrow> string \<Rightarrow> error + string list"
  get_volume :: "string \<Rightarrow> string \<Rightarrow> error + volume"
  get_namespace :: "string \<Rightarrow> error + string"
  list_buckets :: "string \<Rightarrow> string \<Rightarrow> string \<Rightarrow> error + string list"
  get_bucket :: "string \<Rightarrow> string \<Rightarrow> string \<Rightarrow> error + bucket_stats"
  list_db_systems :: "string \<Rightarrow> string \<Rightarrow> error + db_system list"
  list_clusters :: "string \<Rightarrow> string \<Rightarrow> error + cluster list"
  create_kubeconfig :: "string \<Rightarrow> string \<Rightarrow> string \<Rightarrow> kubeconfig_result"
  kubectl_get_pvc :: "string \<Rightarrow> string \<Rightarrow> error + pvc list"
  kubectl_get_nodes :: "string \<Rightarrow> string \<Rightarrow> error + string list"

subsection \<open>Writing rows\<close>

fun collect :: "(error + 'a) list \<Rightarrow> error + 'a list" where
  "collect [] = Inr []"
| "collect (x # xs) =
     (case x of
        Inl e \<Rightarrow> Inl e
      | Inr a \<Rightarrow> (case collect xs of Inl e \<Rightarrow> Inl e | Inr as \<Rightarrow> Inr (a # as)))"

definition opt_cell :: "string option \<Rightarrow> cell" where
  "opt_cell s = (case s of None \<Rightarrow> CNone | Some t \<Rightarrow> CStr t)"

definition int_opt_cell :: "int option \<Rightarrow> cell" where
  "int_opt_cell n = (case n of None \<Rightarrow> CNone | Some k \<Rightarrow> CInt k)"

text \<open>\<^verbatim>\<open>", ".join(names) if names else ""\<close>\<close>

fun join_names :: "string list \<Rightarrow> string" where
  "join_names [] = []"
| "join_names [n] = n"
| "join_names (n # ns) = n @ '', '' @ join_names ns"

definition bucket_row :: "ObjectStorageInfo \<Rightarrow> cell list" where
  "bucket_row obj =
     [CStr (oi_namespace obj), CStr (oi_compartment_id obj), CStr (oi_bucket_name obj),
      CStr (oi_region obj), CStr (oi_storage_tier obj), int_opt_cell (oi_object_count obj),
      CDec (oi_sizeGB obj), CDec (oi_sizeTB obj),
      CStr (oi_defined_tags obj), CStr (oi_freeform_tags obj)]"

definition cs_instance_row :: "InstanceInfo \<Rightarrow> cell list" where
  "cs_instance_row obj =
     [CStr (ii_compartment_id obj), CStr (ii_instance_id obj), CStr (ii_instance_name obj),
      CStr (ii_region obj), CStr (ii_availability_domain obj), CStr (ii_shape obj),
      CStr (ii_state obj), CInt (ii_number_of_volumes obj),
      CInt (ii_sizeGB obj), CDec (ii_sizeTB obj),
      CStr (ii_defined_tags obj), CStr (ii_freeform_tags obj)]"

definition cv_instance_row :: "InstanceInfo \<Rightarrow> cell list" where
  "cv_instance_row obj =
     [CStr (ii_compartment_id obj), CStr (ii_instance_id obj), CStr (ii_instance_name obj),
      CStr (ii_region obj), CStr (ii_availability_domain obj), CStr (ii_shape obj),
      CStr (ii_state obj), CInt (ii_number_of_volumes obj),
      CInt (ii_sizeGB obj), CDec (ii_sizeTB obj),
      CStr (case ii_boot_volume_name obj of None \<Rightarrow> [] | Some n \<Rightarrow> n),
      CStr (join_names (ii_block_volume_names obj)),
      CStr (ii_defined_tags obj), CStr (ii_freeform_tags obj)]"

definition db_system_row :: "DBSystemInfo \<Rightarrow> cell list" where
  "db_system_row obj =
     [CStr (di_compartment_id obj), CStr (di_db_system_id obj), CStr (di_display_name obj),
      CStr (di_region obj), CStr (di_availability_domain obj), CStr (di_shape obj),
      CStr (di_lifecycle_state obj), int_opt_cell (di_node_count obj),
      opt_cell (di_db_version obj), opt_cell (di_database_edition obj),
      CInt (di_data_storage_size_gb obj), CDec (di_data_storage_size_tb obj),
      CStr (di_defined_tags obj), CStr (di_freeform_tags obj)]"

definition cluster_row :: "OKEClusterInfo \<Rightarrow> cell list" where
  "cluster_row obj =
     [CStr (ki_region obj), CStr (ki_cluster_id obj), CStr (ki_cluster_name obj),
      CStr (ki_kubernetes_version obj), CInt (ki_node_count obj), CInt (ki_pvc_count obj),
      CInt (ki_total_pvc_size_gb obj), CDec (ki_total_pvc_size_tb obj),
      CStr (join_names (ki_pvc_names obj)), CStr (join_names (ki_node_names obj))]"

text \<open>
  The row of one object in \<^verbatim>\<open>dump_info\<close>. Reading an attribute the object's class does
  not have raises \<^verbatim>\<open>AttributeError\<close>.
\<close>

definition cs_info_row :: "string \<Rightarrow> info \<Rightarrow> error + cell list" where
  "cs_info_row workload obj =
     (if workload = ''instances'' then
        (case obj of Instance i \<Rightarrow> Inr (cs_instance_row i) | _ \<Rightarrow> Inl AttributeError)
      else if workload = ''object_storage'' then
        (case obj of Bucket b \<Rightarrow> Inr (bucket_row b) | _ \<Rightarrow> Inl AttributeError)
      else Inl ValueError)"

definition cv_info_row :: "string \<Rightarrow> info \<Rightarrow> error + cell list" where
  "cv_info_row workload obj =
     (if workload = ''instances'' then
        (case obj of Instance i \<Rightarrow> Inr (cv_instance_row i) | _ \<Rightarrow> Inl AttributeError)
      else if workload = ''object_storage'' then
        (case obj of Bucket b \<Rightarrow> Inr (bucket_row b) | _ \<Rightarrow> Inl AttributeError)
      else if workload = ''db_systems'' then
        (case obj of DBSystem d \<Rightarrow> Inr (db_system_row d) | _ \<Rightarrow> Inl AttributeError)
      else if workload = ''oke_clusters'' then
        (case obj of Cluster c \<Rightarrow> Inr (cluster_row c) | _ \<Rightarrow> Inl AttributeError)
      else Inl ValueError)"

definition cs_dump_info :: "string \<Rightarrow> string \<Rightarrow> info list \<Rightarrow> state \<Rightarrow> unit outcome" where
  "cs_dump_info filename workload object_list st =
     (case cs_get_sheet_info workload of
        Inl e \<Rightarrow> Raised e st
      | Inr (info_sheet, summary_sheet, info_headers, summary_headers) \<Rightarrow>
     (case load_workbook st filename of
        Inl e \<Rightarrow> Raised e st
      | Inr wb \<Rightarrow>
     (case wb_getitem wb info_sheet of
        Inl e \<Rightarrow> Raised e st
      | Inr sheet \<Rightarrow>
     (case collect (map (cs_info_row workload) object_list) of
        Inl e \<Rightarrow> Raised e st
      | Inr rows \<Rightarrow>
          Ok () (save (AList.update info_sheet (foldl sheet_append sheet rows) wb)
                   filename st)))))"

definition cv_dump_info :: "string \<Rightarrow> string \<Rightarrow> info list \<Rightarrow> state \<Rightarrow> unit outcome" where
  "cv_dump_info filename workload object_list st =
     (case cv_get_sheet_info workload of
        Inl e \<Rightarrow> Raised e st
      | Inr (info_sheet, summary_sheet, info_headers, summary_headers) \<Rightarrow>
     (case load_workbook st filename of
        Inl e \<Rightarrow> Raised e st
      | Inr wb \<Rightarrow>
     (case wb_getitem wb info_sheet of
        Inl e \<Rightarrow> Raised e st
      | Inr sheet \<Rightarrow>
     (case collect (map (cv_info_row workload) object_list) of
        Inl e \<Rightarrow> Raised e st
      | Inr rows \<Rightarrow>
          Ok () (save (AList.update info_sheet (foldl sheet_append sheet rows) wb)
                   filename st)))))"

definition cs_instance_summary_row :: "InstanceSummary \<Rightarrow> cell list" where
  "cs_instance_summary_row s =
     [opt_cell (is_region s), opt_cell (is_compartment_id s), CInt (is_instance_count s),
      CInt (is_total_sizeGB s), CDec (is_total_sizeTB s)]"

definition cs_bucket_summary_row :: "ObjectStorageSummary \<Rightarrow> cell list" where
  "cs_bucket_summary_row s =
     [opt_cell (os_namespace s), opt_cell (os_region s), opt_cell (os_compartment_id s),
      CInt (os_bucket_count s), CDec (os_total_storage_GB s),
      CDec (os_total_storage_TB s)]"

definition cs_summary_row :: "string \<Rightarrow> summary \<Rightarrow> error + cell list" where
  "cs_summary_row workload obj =
     (if workload = ''instances'' then
        (case obj of InstanceSum s \<Rightarrow> Inr (cs_instance_summary_row s) | _ \<Rightarrow> Inl AttributeError)
      else if workload = ''object_storage'' then
        (case obj of BucketSum s \<Rightarrow> Inr (cs_bucket_summary_row s) | _ \<Rightarrow> Inl AttributeError)
      else Inl ValueError)"

definition cv_instance_summary_row :: "InstanceSummary \<Rightarrow> cell list" where
  "cv_instance_summary_row s =
     [opt_cell (is_region s), CInt (is_instance_count s), CInt (is_total_sizeGB s),
      CDec (is_total_sizeTB s)]"

definition cv_bucket_summary_row :: "ObjectStorageSummary \<Rightarrow> cell list" where
  "cv_bucket_summary_row s =
     [opt_cell (os_region s), CInt (os_bucket_count s), CDec (os_total_storage_GB s),
      CDec (os_total_storage_TB s)]"

definition db_summary_row :: "DBSystemSummary \<Rightarrow> cell list" where
  "db_summary_row s =
     [opt_cell (ds_region s), CInt (ds_db_system_count s), CInt (ds_total_storage_gb s),
      CDec (ds_total_storage_tb s)]"

definition cluster_summary_row :: "OKEClusterSummary \<Rightarrow> cell list" where
  "cluster_summary_row s =
     [opt_cell (ks_region s), CInt (ks_cluster_count s), CInt (ks_total_node_count s),
      CInt (ks_total_pvc_count s), CInt (ks_total_pvc_size_gb s),
      CDec (ks_total_pvc_size_tb s)]"

definition cv_summary_row :: "string \<Rightarrow> summary \<Rightarrow> error + cell list" where
  "cv_summary_row workload obj =
     (if workload = ''instances'' then
        (case obj of InstanceSum s \<Rightarrow> Inr (cv_instance_summary_row s) | _ \<Rightarrow> Inl AttributeError)
      else if workload = ''object_storage'' then
        (case obj of BucketSum s \<Rightarrow> Inr (cv_bucket_summary_row s) | _ \<Rightarrow> Inl AttributeError)
      else if workload = ''db_systems'' then
        (case obj of DBSum s \<Rightarrow> Inr (db_summary_row s) | _ \<Rightarrow> Inl AttributeError)
      else if workload = ''oke_clusters'' then
        (case obj of ClusterSum s \<Rightarrow> Inr (cluster_summary_row s) | _ \<Rightarrow> Inl AttributeError)
      else Inl ValueError)"

text \<open>\<^verbatim>\<open>dump_summary\<close> of \<^verbatim>\<open>oci_cs.py\<close> writes one summary object.\<close>

definition cs_dump_summary :: "string \<Rightarrow> string \<Rightarrow> summary \<Rightarrow> state \<Rightarrow> unit outcome" where
  "cs_dump_summary filename workload summary st =
     (case cs_get_sheet_info workload of
        Inl e \<Rightarrow> Raised e st
      | Inr (info_sheet, summary_sheet, info_headers, summary_headers) \<Rightarrow>
     (case load_workbook st filename of
        Inl e \<Rightarrow> Raised e st
      | Inr wb \<Rightarrow>
     (case wb_getitem wb summary_sheet of
        Inl e \<Rightarrow> Raised e st
      | Inr sheet \<Rightarrow>
     (case cs_summary_row workload summary of
        Inl e \<Rightarrow> Raised e st
      | Inr r \<Rightarrow>
          Ok () (save (AList.update summary_sheet (sheet_append sheet r) wb) filename st)))))"

text \<open>\<^verbatim>\<open>dump_summary\<close> of \<^verbatim>\<open>CVOracleCloudSizingScript.py\<close> writes a list of them.\<close>

definition cv_dump_summary :: "string \<Rightarrow> string \<Rightarrow> summary list \<Rightarrow> state \<Rightarrow> unit outcome" where
  "cv_dump_summary filename workload summary st =
     (case cv_get_sheet_info workload of
        Inl e \<Rightarrow> Raised e st
      | Inr (info_sheet, summary_sheet, info_headers, summary_headers) \<Rightarrow>
     (case load_workbook st filename of
        Inl e \<Rightarrow> Raised e st
      | Inr wb \<Rightarrow>
     (case wb_getitem wb summary_sheet of
        Inl e \<Rightarrow> Raised e st
      | Inr sheet \<Rightarrow>
     (case collect (map (cv_summary_row workload) summary) of
        Inl e \<Rightarrow> Raised e st
      | Inr rows \<Rightarrow>
          Ok () (save (AList.update summary_sheet (foldl sheet_append sheet rows) wb)
                   filename st)))))"

subsection \<open>\<^verbatim>\<open>write_grand_total\<close>\<close>

definition cs_grand_total_row :: "string \<Rightarrow> state \<Rightarrow> error + string \<times> cell list" where
  "cs_grand_total_row workload st =
     (if workload = ''instances'' then
        Inr (''InstanceSummary'',
             [CStr ''Grand Total'', CStr [], CInt (total_instances st),
              CInt (total_instance_sizeGB st), CDec (total_instance_sizeTB st)])
      else if workload = ''object_storage'' then
        Inr (''ObjectStorageSummary'',
             [CStr ''Grand Total'', CStr [], CInt (total_buckets st),
              CDec (total_storageGB st), CDec (total_storageTB st)])
      else Inl ValueError)"

definition cs_write_grand_total :: "string \<Rightarrow> string \<Rightarrow> state \<Rightarrow> unit outcome" where
  "cs_write_grand_total filename workload st =
     (case load_workbook st filename of
        Inl e \<Rightarrow> Raised e st
      | Inr wb \<Rightarrow>
     (case cs_grand_total_row workload st of
        Inl e \<Rightarrow> Raised e st
      | Inr (sheet_name, r) \<Rightarrow>
     (case wb_getitem wb sheet_name of
        Inl e \<Rightarrow> Raised e st
      | Inr sheet \<Rightarrow>
          Ok () (save (AList.update sheet_name (sheet_append sheet r) wb) filename st))))"

definition cv_grand_total_row :: "string \<Rightarrow> state \<Rightarrow> error + string \<times> cell list" where
  "cv_grand_total_row workload st =
     (if workload = ''instances'' then
        Inr (''Instance Summary'',
             [CStr ''Total Instances'', CInt (total_instances st),
              CInt (total_instance_sizeGB st), CDec (total_instance_sizeTB st)])
      else if workload = ''object_storage'' then
        Inr (''Object Storage Summary'',
             [CStr ''Total Buckets'', CInt (total_buckets st),
              CDec (total_storageGB st), CDec (total_storageTB st)])
      else if workload = ''db_systems'' then
        Inr (''DB System Summary'',
             [CStr ''Total DB Systems'', CInt (total_db_systems st),
              CInt (total_db_system_sizeGB st), CDec (total_db_system_sizeTB st)])
      else if workload = ''oke_clusters'' then
        Inr (''OKE Cluster Summary'',
             [CStr ''Total OKE Clusters'', CInt (total_oke_clusters st),
              CInt (total_oke_node_count st), CInt (total_oke_pvc_count st),
              CInt (total_oke_pvc_size_gb st), CDec (total_oke_pvc_size_tb st)])
      else Inl ValueError)"

text \<open>
  In \<^verbatim>\<open>CVOracleCloudSizingScript.py\<close> the function also sets the bold font on the cells
  of row 2 of the sheet (\<^verbatim>\<open>for cell in sheet[2]\<close>).
\<close>

definition cv_write_grand_total :: "string \<Rightarrow> string \<Rightarrow> state \<Rightarrow> unit outcome" where
  "cv_write_grand_total filename workload st =
     (case load_workbook st filename of
        Inl e \<Rightarrow> Raised e st
      | Inr wb \<Rightarrow>
     (case cv_grand_total_row workload st of
        Inl e \<Rightarrow> Raised e st
      | Inr (sheet_name, r) \<Rightarrow>
     (case wb_getitem wb sheet_name of
        Inl e \<Rightarrow> Raised e st
      | Inr sheet \<Rightarrow>
          Ok () (save (AList.update sheet_name (set_row_bold (sheet_append sheet r) 2) wb)
                   filename st))))"

subsection \<open>Regions and compartments\<close>

text \<open>
  \<^verbatim>\<open>if not regions: regions = [... list_region_subscriptions(config["tenancy"]).data]\<close>,
  and the same for the compartments.
\<close>

definition default_regions :: "cloud \<Rightarrow> string list \<Rightarrow> state \<Rightarrow> error + string list" where
  "default_regions env regions st =
     (if regions = [] then
        (case config st ''tenancy'' of
           None \<Rightarrow> Inl KeyError
         | Some tenancy \<Rightarrow> list_region_subscriptions env tenancy)
      else Inr regions)"

definition default_compartments :: "cloud \<Rightarrow> string list \<Rightarrow> state \<Rightarrow> error + string list" where
  "default_compartments env compartments st =
     (if compartments = [] then
        (case config st ''tenancy'' of
           None \<Rightarrow> Inl KeyError
         | Some tenancy \<Rightarrow> list_compartments env tenancy)
      else Inr compartments)"

text \<open>\<^verbatim>\<open>config["region"] = region\<close>\<close>

definition set_region :: "string \<Rightarrow> state \<Rightarrow> state" where
  "set_region region st = st\<lparr>config := (config st)(''region'' \<mapsto> region)\<rparr>"

subsection \<open>The accumulation statements\<close>

text \<open>
  The six statements that follow the construction of a detail record, the same in both
  files up to the name of the summary variable: three on the summary of the scope, three
  on the global counters.
\<close>

definition add_instance :: "InstanceInfo \<Rightarrow> InstanceSummary \<Rightarrow> InstanceSummary" where
  "add_instance instance_info s =
     s\<lparr>is_instance_count := is_instance_count s + 1,
       is_total_sizeGB := is_total_sizeGB s + ii_sizeGB instance_info,
       is_total_sizeTB := is_total_sizeTB s + ii_sizeTB instance_info\<rparr>"

definition count_instance :: "InstanceInfo \<Rightarrow> state \<Rightarrow> state" where
  "count_instance instance_info st =
     st\<lparr>total_instances := total_instances st + 1,
        total_instance_sizeGB := total_instance_sizeGB st + ii_sizeGB instance_info,
        total_instance_sizeTB := total_instance_sizeTB st + ii_sizeTB instance_info\<rparr>"

definition add_bucket :: "ObjectStorageInfo \<Rightarrow> ObjectStorageSummary \<Rightarrow> ObjectStorageSummary" where
  "add_bucket bucket_info s =
     s\<lparr>os_bucket_count := os_bucket_count s + 1,
       os_total_storage_GB := os_total_storage_GB s + oi_sizeGB bucket_info,
       os_total_storage_TB := os_total_storage_TB s + oi_sizeTB bucket_info\<rparr>"

definition count_bucket :: "ObjectStorageInfo \<Rightarrow> state \<Rightarrow> state" where
  "count_bucket bucket_info st =
     st\<lparr>total_buckets := total_buckets st + 1,
        total_storageGB := total_storageGB st + oi_sizeGB bucket_info,
        total_storageTB := total_storageTB st + oi_sizeTB bucket_info\<rparr>"

definition add_db_system :: "DBSystemInfo \<Rightarrow> DBSystemSummary \<Rightarrow> DBSystemSummary" where
  "add_db_system db_info s =
     s\<lparr>ds_db_system_count := ds_db_system_count s + 1,
       ds_total_storage_gb := ds_total_storage_gb s + di_data_storage_size_gb db_info,
       ds_total_storage_tb := ds_total_storage_tb s + di_data_storage_size_tb db_info\<rparr>"

definition count_db_system :: "DBSystemInfo \<Rightarrow> state \<Rightarrow> state" where
  "count_db_system db_info st =
     st\<lparr>total_db_systems := total_db_systems st + 1,
        total_db_system_sizeGB := total_db_system_sizeGB st + di_data_storage_size_gb db_info,
        total_db_system_sizeTB := total_db_system_sizeTB st + di_data_storage_size_tb db_info\<rparr>"

definition add_cluster :: "OKEClusterInfo \<Rightarrow> OKEClusterSummary \<Rightarrow> OKEClusterSummary" where
  "add_cluster cluster_info s =
     s\<lparr>ks_cluster_count := ks_cluster_count s + 1,
       ks_total_node_count := ks_total_node_count s + ki_node_count cluster_info,
       ks_total_pvc_count := ks_total_pvc_count s + ki_pvc_count cluster_info,
       ks_total_pvc_size_gb := ks_total_pvc_size_gb s + ki_total_pvc_size_gb cluster_info,
       ks_total_pvc_size_tb := ks_total_pvc_size_tb s + ki_total_pvc_size_tb cluster_info\<rparr>"

definition count_cluster :: "OKEClusterInfo \<Rightarrow> state \<Rightarrow> state" where
  "count_cluster cluster_info st =
     st\<lparr>total_oke_clusters := total_oke_clusters st + 1,
        total_oke_node_count := total_oke_node_count st + ki_node_count cluster_info,
        total_oke_pvc_count := total_oke_pvc_count st + ki_pvc_count cluster_info,
        total_oke_pvc_size_gb := total_oke_pvc_size_gb st + ki_total_pvc_size_gb cluster_info,
        total_oke_pvc_size_tb := total_oke_pvc_size_tb st + ki_total_pvc_size_tb cluster_info\<rparr>"

subsection \<open>Object storage\<close>

text \<open>
  The body of \<^verbatim>\<open>for bucket in buckets\<close>, the same in both files. The call of
  \<^verbatim>\<open>get_bucket\<close> is the only statement of the \<^verbatim>\<open>try\<close> block that raises; its handler
  ends the iteration with \<^verbatim>\<open>continue\<close>.
\<close>

definition bucket_info_of :: "string \<Rightarrow> string \<Rightarrow> string \<Rightarrow> string \<Rightarrow> bucket_stats \<Rightarrow> ObjectStorageInfo" where
  "bucket_info_of region namespace compartment bucket_name stats =
     (let sizeGB = (case bkt_approximate_size stats of
                      None \<Rightarrow> 0
                    | Some size_in_bytes \<Rightarrow>
                        if size_in_bytes = 0 then 0 else round2_quot size_in_bytes (1024 ^ 3));
          sizeTB = (if sizeGB = 0 then 0 else round2_dec_quot sizeGB 1024)
      in \<lparr>oi_compartment_id = compartment, oi_namespace = namespace,
          oi_bucket_name = bucket_name, oi_region = region,
          oi_storage_tier = bkt_storage_tier stats,
          oi_object_count = bkt_approximate_count stats,
          oi_sizeGB = sizeGB, oi_sizeTB = sizeTB,
          oi_defined_tags = bkt_defined_tags stats,
          oi_freeform_tags = bkt_freeform_tags stats\<rparr>)"

definition bucket_step ::
  "cloud \<Rightarrow> string \<Rightarrow> string \<Rightarrow> string \<Rightarrow>
   ObjectStorageSummary \<times> ObjectStorageInfo list \<times> state \<Rightarrow> string \<Rightarrow>
   ObjectStorageSummary \<times> ObjectStorageInfo list \<times> state" where
  "bucket_step env region namespace compartment acc bucket_name =
     (case acc of (summary, bucket_list, st) \<Rightarrow>
        (case get_bucket env region namespace bucket_name of
           Inl e \<Rightarrow> acc
         | Inr stats \<Rightarrow>
             (let bucket_info = bucket_info_of region namespace compartment bucket_name stats
              in (add_bucket bucket_info summary, bucket_list @ [bucket_info],
                  count_bucket bucket_info st))))"

text \<open>\<^verbatim>\<open>oci_cs.py\<close>: one summary for each compartment of each region.\<close>

definition cs_os_compartment ::
  "cloud \<Rightarrow> string \<Rightarrow> string \<Rightarrow> string \<Rightarrow> string \<Rightarrow> unit \<Rightarrow> state \<Rightarrow> unit outcome" where
  "cs_os_compartment env filename region namespace compartment u st =
     (let compartment_summary =
            \<lparr>os_region = Some region, os_namespace = Some namespace,
             os_compartment_id = Some compartment, os_bucket_count = 0,
             os_total_storage_GB = 0, os_total_storage_TB = 0\<rparr>
      in case list_buckets env region namespace compartment of
           Inl e \<Rightarrow> Ok () st
         | Inr buckets \<Rightarrow>
             if length buckets = 0 then Ok () st
             else
               (case foldl (bucket_step env region namespace compartment)
                       (compartment_summary, [], st) buckets of
                  (summary, compartment_bucket_list, st1) \<Rightarrow>
                    and_then
                      (cs_dump_info filename ''object_storage''
                         (map Bucket compartment_bucket_list) st1)
                      (\<lambda>_. cs_dump_summary filename ''object_storage'' (BucketSum summary))))"

definition cs_os_region ::
  "cloud \<Rightarrow> string \<Rightarrow> string list \<Rightarrow> string \<Rightarrow> unit \<Rightarrow> state \<Rightarrow> unit outcome" where
  "cs_os_region env filename compartments region u st =
     (let st1 = set_region region st
      in case get_namespace env region of
           Inl e \<Rightarrow> Ok () st1
         | Inr namespace \<Rightarrow>
             for_each (cs_os_compartment env filename region namespace) compartments () st1)"

definition cs_get_object_storage_info ::
  "cloud \<Rightarrow> string \<Rightarrow> string list \<Rightarrow> string list \<Rightarrow> state \<Rightarrow> unit outcome" where
  "cs_get_object_storage_info env filename regions compartments st =
     (case default_regions env regions st of
        Inl e \<Rightarrow> Raised e st
      | Inr regions' \<Rightarrow>
     (case default_compartments env compartments st of
        Inl e \<Rightarrow> Raised e st
      | Inr compartments' \<Rightarrow>
          and_then (for_each (cs_os_region env filename compartments') regions' () st)
            (\<lambda>_ st1. and_then (cs_write_grand_total filename ''object_storage'' st1)
               (\<lambda>_. format_workbook filename))))"

text \<open>\<^verbatim>\<open>CVOracleCloudSizingScript.py\<close>: one summary for each region.\<close>

definition cv_os_compartment ::
  "cloud \<Rightarrow> string \<Rightarrow> string \<Rightarrow> string \<Rightarrow> string \<Rightarrow> ObjectStorageSummary \<Rightarrow> state \<Rightarrow>
   ObjectStorageSummary outcome" where
  "cv_os_compartment env filename region namespace compartment region_summary st =
     (case list_buckets env region namespace compartment of
        Inl e \<Rightarrow> Ok region_summary st
      | Inr buckets \<Rightarrow>
          if length buckets = 0 then Ok region_summary st
          else
            (case foldl (bucket_step env region namespace compartment)
                    (region_summary, [], st) buckets of
               (summary, compartment_bucket_list, st1) \<Rightarrow>
                 and_then
                   (cv_dump_info filename ''object_storage''
                      (map Bucket compartment_bucket_list) st1)
                   (\<lambda>_. Ok summary)))"

definition cv_os_region ::
  "cloud \<Rightarrow> string \<Rightarrow> string list \<Rightarrow> string \<Rightarrow> ObjectStorageSummary list \<Rightarrow> state \<Rightarrow>
   ObjectStorageSummary list outcome" where
  "cv_os_region env filename compartments region object_storage_summary_list st =
     (let st1 = set_region region st;
          region_summary =
            \<lparr>os_region = Some region, os_namespace = None, os_compartment_id = None,
             os_bucket_count = 0, os_total_storage_GB = 0, os_total_storage_TB = 0\<rparr>
      in case get_namespace env region of
           Inl e \<Rightarrow> Ok object_storage_summary_list st1
         | Inr namespace \<Rightarrow>
             and_then
               (for_each (cv_os_compartment env filename region namespace) compartments
                  region_summary st1)
               (\<lambda>summary. Ok (object_storage_summary_list @ [summary])))"

definition cv_get_object_storage_info ::
  "cloud \<Rightarrow> string \<Rightarrow> string list \<Rightarrow> string list \<Rightarrow> state \<Rightarrow> unit outcome" where
  "cv_get_object_storage_info env filename regions compartments st =
     (case default_regions env regions st of
        Inl e \<Rightarrow> Raised e st
      | Inr regions' \<Rightarrow>
     (case default_compartments env compartments st of
        Inl e \<Rightarrow> Raised e st
      | Inr compartments' \<Rightarrow>
          and_then (for_each (cv_os_region env filename compartments') regions' [] st)
            (\<lambda>object_storage_summary_list st1.
               and_then (cv_write_grand_total filename ''object_storage'' st1)
                 (\<lambda>_ st2.
                    and_then
                      (cv_dump_summary filename ''object_storage''
                         (map BucketSum object_storage_summary_list) st2)
                      (\<lambda>_. format_workbook filename)))))"

subsection \<open>Compute instances\<close>

text \<open>
  The volume helpers take \<^verbatim>\<open>config\<close> first; the model takes the region it holds. Each
  helper catches every exception of its calls itself, so the handler around the two
  calls in \<^verbatim>\<open>get_instance_info\<close> is never entered and has no branch in the model.
\<close>

definition cs_get_boot_volume_size :: "cloud \<Rightarrow> string \<Rightarrow> string \<Rightarrow> string \<Rightarrow> string \<Rightarrow> int" where
  "cs_get_boot_volume_size env region instance_id availability_domain compartment_id =
     (case list_boot_volume_attachments env region instance_id availability_domain
             compartment_id of
        Inl e \<Rightarrow> 0
      | Inr boot_volumes \<Rightarrow>
          (case boot_volumes of
             [] \<Rightarrow> 0
           | boot_volume_id # _ \<Rightarrow>
               (case get_boot_volume env region boot_volume_id of
                  Inl e \<Rightarrow> 0
                | Inr boot_volume_info \<Rightarrow> vol_size_in_gbs boot_volume_info)))"

definition cs_get_block_volume_count_and_size ::
  "cloud \<Rightarrow> string \<Rightarrow> string \<Rightarrow> string \<Rightarrow> string \<Rightarrow> int \<times> int" where
  "cs_get_block_volume_count_and_size env region instance_id availability_domain compartment_id =
     (case list_volume_attachments env region instance_id availability_domain
             compartment_id of
        Inl e \<Rightarrow> (0, 0)
      | Inr volume_attachments \<Rightarrow>
          if volume_attachments = [] then (0, 0)
          else
            (int (length volume_attachments),
             foldl (\<lambda>total_size volume_id.
                      case get_volume env region volume_id of
                        Inl e \<Rightarrow> total_size
                      | Inr volume_info \<Rightarrow> total_size + vol_size_in_gbs volume_info)
               0 volume_attachments))"

definition cs_instance_info_of :: "cloud \<Rightarrow> string \<Rightarrow> string \<Rightarrow> compute_instance \<Rightarrow> InstanceInfo" where
  "cs_instance_info_of env region compartment instance =
     (let boot_volume_size =
            cs_get_boot_volume_size env region (inst_id instance)
              (inst_availability_domain instance) (inst_compartment_id instance);
          block = cs_get_block_volume_count_and_size env region (inst_id instance)
              (inst_availability_domain instance) (inst_compartment_id instance);
          sizeGB = boot_volume_size + snd block
      in \<lparr>ii_compartment_id = compartment, ii_instance_id = inst_id instance,
          ii_instance_name = inst_display_name instance, ii_region = region,
          ii_availability_domain = inst_availability_domain instance,
          ii_shape = inst_shape instance, ii_state = inst_lifecycle_state instance,
          ii_number_of_volumes = (if boot_volume_size > 0 then 1 else 0) + fst block,
          ii_sizeGB = sizeGB, ii_sizeTB = round2_quot sizeGB 1024,
          ii_defined_tags = inst_defined_tags instance,
          ii_freeform_tags = inst_freeform_tags instance,
          ii_boot_volume_name = None, ii_block_volume_names = []\<rparr>)"

definition cs_instance_step ::
  "cloud \<Rightarrow> string \<Rightarrow> string \<Rightarrow> InstanceSummary \<times> InstanceInfo list \<times> state \<Rightarrow>
   compute_instance \<Rightarrow> InstanceSummary \<times> InstanceInfo list \<times> state" where
  "cs_instance_step env region compartment acc instance =
     (case acc of (summary, instance_list, st) \<Rightarrow>
        if inst_lifecycle_state instance = ''TERMINATED'' then acc
        else
          (let instance_info = cs_instance_info_of env region compartment instance
           in (add_instance instance_info summary, instance_list @ [instance_info],
               count_instance instance_info st)))"

text \<open>
  \<^verbatim>\<open>oci_cs.py\<close>. The call that lists the instances of a compartment stands outside
  every \<^verbatim>\<open>try\<close>: its exception leaves \<^verbatim>\<open>get_instance_info\<close>.
\<close>

definition cs_instance_compartment ::
  "cloud \<Rightarrow> string \<Rightarrow> string \<Rightarrow> string \<Rightarrow> unit \<Rightarrow> state \<Rightarrow> unit outcome" where
  "cs_instance_compartment env filename region compartment u st =
     (let compartment_summary =
            \<lparr>is_region = Some region, is_compartment_id = Some compartment,
             is_instance_count = 0, is_total_sizeGB = 0, is_total_sizeTB = 0\<rparr>
      in case list_instances env region compartment of
           Inl e \<Rightarrow> Raised e st
         | Inr instances \<Rightarrow>
             if length instances = 0 then Ok () st
             else
               (case foldl (cs_instance_step env region compartment)
                       (compartment_summary, [], st) instances of
                  (summary, compartment_instance_list, st1) \<Rightarrow>
                    and_then
                      (cs_dump_info filename ''instances''
                         (map Instance compartment_instance_list) st1)
                      (\<lambda>_. cs_dump_summary filename ''instances'' (InstanceSum summary))))"

definition cs_instance_region ::
  "cloud \<Rightarrow> string \<Rightarrow> string list \<Rightarrow> string \<Rightarrow> unit \<Rightarrow> state \<Rightarrow> unit outcome" where
  "cs_instance_region env filename compartments region u st =
     for_each (cs_instance_compartment env filename region) compartments ()
       (set_region region st)"

definition cs_get_instance_info ::
  "cloud \<Rightarrow> string \<Rightarrow> string list \<Rightarrow> string list \<Rightarrow> state \<Rightarrow> unit outcome" where
  "cs_get_instance_info env filename regions compartments st =
     (case default_regions env regions st of
        Inl e \<Rightarrow> Raised e st
      | Inr regions' \<Rightarrow>
     (case default_compartments env compartments st of
        Inl e \<Rightarrow> Raised e st
      | Inr compartments' \<Rightarrow>
          and_then (for_each (cs_instance_region env filename compartments') regions' () st)
            (\<lambda>_ st1. and_then (cs_write_grand_total filename ''instances'' st1)
               (\<lambda>_. format_workbook filename))))"

text \<open>
  \<^verbatim>\<open>CVOracleCloudSizingScript.py\<close>: the helpers return the names with the sizes.
\<close>

definition cv_get_boot_volume_info ::
  "cloud \<Rightarrow> string \<Rightarrow> string \<Rightarrow> string \<Rightarrow> string \<Rightarrow> string option \<times> int" where
  "cv_get_boot_volume_info env region instance_id availability_domain compartment_id =
     (case list_boot_volume_attachments env region instance_id availability_domain
             compartment_id of
        Inl e \<Rightarrow> (None, 0)
      | Inr boot_volumes \<Rightarrow>
          (case boot_volumes of
             [] \<Rightarrow> (None, 0)
           | boot_volume_id # _ \<Rightarrow>
               (case get_boot_volume env region boot_volume_id of
                  Inl e \<Rightarrow> (None, 0)
                | Inr boot_volume_info \<Rightarrow>
                    (Some (vol_display_name boot_volume_info),
                     vol_size_in_gbs boot_volume_info))))"

definition cv_get_block_volume_info ::
  "cloud \<Rightarrow> string \<Rightarrow> string \<Rightarrow> string \<Rightarrow> string \<Rightarrow> (string \<times> int) list" where
  "cv_get_block_volume_info env region instance_id availability_domain compartment_id =
     (case list_volume_attachments env region instance_id availability_domain
             compartment_id of
        Inl e \<Rightarrow> []
      | Inr volume_attachments \<Rightarrow>
          foldl (\<lambda>result volume_id.
                   case get_volume env region volume_id of
                     Inl e \<Rightarrow> result
                   | Inr volume_info \<Rightarrow>
                       result @ [(vol_display_name volume_info, vol_size_in_gbs volume_info)])
            [] volume_attachments)"

definition cv_instance_info_of :: "cloud \<Rightarrow> string \<Rightarrow> string \<Rightarrow> compute_instance \<Rightarrow> InstanceInfo" where
  "cv_instance_info_of env region compartment instance =
     (let boot_volume_info =
            cv_get_boot_volume_info env region (inst_id instance)
              (inst_availability_domain instance) (inst_compartment_id instance);
          block_volumes_info =
            cv_get_block_volume_info env region (inst_id instance)
              (inst_availability_domain instance) (inst_compartment_id instance);
          sizeGB = snd boot_volume_info + sum_list (map snd block_volumes_info)
      in \<lparr>ii_compartment_id = compartment, ii_instance_id = inst_id instance,
          ii_instance_name = inst_display_name instance, ii_region = region,
          ii_availability_domain = inst_availability_domain instance,
          ii_shape = inst_shape instance, ii_state = inst_lifecycle_state instance,
          ii_number_of_volumes =
            (if snd boot_volume_info > 0 then 1 else 0) + int (length block_volumes_info),
          ii_sizeGB = sizeGB, ii_sizeTB = round2_quot sizeGB 1024,
          ii_defined_tags = inst_defined_tags instance,
          ii_freeform_tags = inst_freeform_tags instance,
          ii_boot_volume_name =
            (case fst boot_volume_info of
               None \<Rightarrow> None
             | Some n \<Rightarrow> if n = [] then None else Some n),
          ii_block_volume_names = map fst block_volumes_info\<rparr>)"

definition cv_instance_step ::
  "cloud \<Rightarrow> string \<Rightarrow> string \<Rightarrow> InstanceSummary \<times> InstanceInfo list \<times> state \<Rightarrow>
   compute_instance \<Rightarrow> InstanceSummary \<times> InstanceInfo list \<times> state" where
  "cv_instance_step env region compartment acc instance =
     (case acc of (summary, instance_list, st) \<Rightarrow>
        if inst_lifecycle_state instance = ''TERMINATED'' then acc
        else
          (let instance_info = cv_instance_info_of env region compartment instance
           in (add_instance instance_info summary, instance_list @ [instance_info],
               count_instance instance_info st)))"

definition cv_instance_compartment ::
  "cloud \<Rightarrow> string \<Rightarrow> string \<Rightarrow> string \<Rightarrow> InstanceSummary \<Rightarrow> state \<Rightarrow> InstanceSummary outcome" where
  "cv_instance_compartment env filename region compartment region_summary st =
     (let region_summary' = region_summary\<lparr>is_region := Some region\<rparr>
      in case list_instances env region compartment of
           Inl e \<Rightarrow> Raised e st
         | Inr instances \<Rightarrow>
             if length instances = 0 then Ok region_summary' st
             else
               (case foldl (cv_instance_step env region compartment)
                       (region_summary', [], st) instances of
                  (summary, compartment_instance_list, st1) \<Rightarrow>
                    and_then
                      (cv_dump_info filename ''instances''
                         (map Instance compartment_instance_list) st1)
                      (\<lambda>_. Ok summary)))"

definition cv_instance_region ::
  "cloud \<Rightarrow> string \<Rightarrow> string list \<Rightarrow> string \<Rightarrow> InstanceSummary list \<Rightarrow> state \<Rightarrow>
   InstanceSummary list outcome" where
  "cv_instance_region env filename compartments region instance_summary_list st =
     and_then
       (for_each (cv_instance_compartment env filename region) compartments
          \<lparr>is_region = None, is_compartment_id = None, is_instance_count = 0,
           is_total_sizeGB = 0, is_total_sizeTB = 0\<rparr>
          (set_region region st))
       (\<lambda>region_summary. Ok (instance_summary_list @ [region_summary]))"

definition cv_get_instance_info ::
  "cloud \<Rightarrow> string \<Rightarrow> string list \<Rightarrow> string list \<Rightarrow> state \<Rightarrow> unit outcome" where
  "cv_get_instance_info env filename regions compartments st =
     (case default_regions env regions st of
        Inl e \<Rightarrow> Raised e st
      | Inr regions' \<Rightarrow>
     (case default_compartments env compartments st of
        Inl e \<Rightarrow> Raised e st
      | Inr compartments' \<Rightarrow>
          and_then (for_each (cv_instance_region env filename compartments') regions' [] st)
            (\<lambda>instance_summary_list st1.
               and_then (cv_write_grand_total filename ''instances'' st1)
                 (\<lambda>_ st2.
                    and_then
                      (cv_dump_summary filename ''instances''
                         (map InstanceSum instance_summary_list) st2)
                      (\<lambda>_. format_workbook filename)))))"

subsection \<open>DB systems\<close>

text \<open>
  \<^verbatim>\<open>get_database_info\<close> of \<^verbatim>\<open>CVOracleCloudSizingScript.py\<close>. The record of a DB
  system; \<open>gb\<close> is its \<^verbatim>\<open>data_storage_size_in_gbs\<close>.
\<close>

definition db_info_of :: "string \<Rightarrow> string \<Rightarrow> db_system \<Rightarrow> int \<Rightarrow> DBSystemInfo" where
  "db_info_of region compartment db gb =
     \<lparr>di_compartment_id = compartment, di_db_system_id = db_id db,
      di_display_name = db_display_name db, di_region = region,
      di_availability_domain = db_availability_domain db, di_shape = db_shape db,
      di_lifecycle_state = db_lifecycle_state db, di_node_count = db_node_count db,
      di_db_version = db_version db, di_database_edition = db_database_edition db,
      di_data_storage_size_gb = gb, di_data_storage_size_tb = round2_quot gb 1024,
      di_defined_tags = db_defined_tags db, di_freeform_tags = db_freeform_tags db\<rparr>"

text \<open>
  The body of \<^verbatim>\<open>for db in db_systems\<close>. No \<^verbatim>\<open>try\<close> encloses it: when the size of the
  DB system is \<^verbatim>\<open>None\<close>, the division \<^verbatim>\<open>data_storage_size_gb / 1024\<close> raises
  \<^verbatim>\<open>TypeError\<close>, before any counter is touched.
\<close>

definition cv_db_step ::
  "string \<Rightarrow> string \<Rightarrow> db_system \<Rightarrow> DBSystemSummary \<times> DBSystemInfo list \<Rightarrow> state \<Rightarrow>
   (DBSystemSummary \<times> DBSystemInfo list) outcome" where
  "cv_db_step region compartment db acc st =
     (case acc of (region_summary, compartment_db_list) \<Rightarrow>
        if db_lifecycle_state db = ''TERMINATED'' then Ok acc st
        else
          (case db_data_storage_size_in_gbs db of
             None \<Rightarrow> Raised TypeError st
           | Some gb \<Rightarrow>
               (let db_info = db_info_of region compartment db gb
                in Ok (add_db_system db_info region_summary, compartment_db_list @ [db_info])
                      (count_db_system db_info st))))"

definition cv_db_compartment ::
  "cloud \<Rightarrow> string \<Rightarrow> string \<Rightarrow> string \<Rightarrow> DBSystemSummary \<Rightarrow> state \<Rightarrow>
   DBSystemSummary outcome" where
  "cv_db_compartment env filename region compartment region_summary st =
     (case list_db_systems env region compartment of
        Inl e \<Rightarrow> Ok region_summary st
      | Inr db_systems \<Rightarrow>
          if length db_systems = 0 then Ok region_summary st
          else
            and_then
              (for_each (cv_db_step region compartment) db_systems (region_summary, []) st)
              (\<lambda>acc st1.
                 and_then
                   (cv_dump_info filename ''db_systems'' (map DBSystem (snd acc)) st1)
                   (\<lambda>_. Ok (fst acc))))"

definition cv_db_region ::
  "cloud \<Rightarrow> string \<Rightarrow> string list \<Rightarrow> string \<Rightarrow> DBSystemSummary list \<Rightarrow> state \<Rightarrow>
   DBSystemSummary list outcome" where
  "cv_db_region env filename compartments region db_summary_list st =
     and_then
       (for_each (cv_db_compartment env filename region) compartments
          \<lparr>ds_region = Some region, ds_db_system_count = 0, ds_total_storage_gb = 0,
           ds_total_storage_tb = 0\<rparr>
          (set_region region st))
       (\<lambda>region_summary. Ok (db_summary_list @ [region_summary]))"

definition cv_get_database_info ::
  "cloud \<Rightarrow> string \<Rightarrow> string list \<Rightarrow> string list \<Rightarrow> state \<Rightarrow> unit outcome" where
  "cv_get_database_info env filename regions compartments st =
     (case default_regions env regions st of
        Inl e \<Rightarrow> Raised e st
      | Inr regions' \<Rightarrow>
     (case default_compartments env compartments st of
        Inl e \<Rightarrow> Raised e st
      | Inr compartments' \<Rightarrow>
          and_then (for_each (cv_db_region env filename compartments') regions' [] st)
            (\<lambda>db_summary_list st1.
               and_then (cv_write_grand_total filename ''db_systems'' st1)
                 (\<lambda>_ st2.
                    and_then
                      (cv_dump_summary filename ''db_systems''
                         (map DBSum db_summary_list) st2)
                      (\<lambda>_. format_workbook filename)))))"

subsection \<open>OKE clusters\<close>

text \<open>
  \<^verbatim>\<open>os.path.join(tempfile.gettempdir(), f"kubeconfig_{cluster.id}")\<close>, with the
  temporary directory fixed.
\<close>

definition kubeconfig_file :: "string \<Rightarrow> string" where
  "kubeconfig_file cluster_id = ''/tmp/kubeconfig_'' @ cluster_id"

text \<open>\<^verbatim>\<open>os.remove\<close> raises \<^verbatim>\<open>FileNotFoundError\<close>, an \<^verbatim>\<open>OSError\<close>, on a missing file.\<close>

definition os_remove :: "string \<Rightarrow> state \<Rightarrow> unit outcome" where
  "os_remove path st =
     (if path \<in> tmpfiles st then Ok () (st\<lparr>tmpfiles := tmpfiles st - {path}\<rparr>)
      else Raised FileNotFoundError st)"

definition write_tmpfile :: "string \<Rightarrow> state \<Rightarrow> state" where
  "write_tmpfile path st = st\<lparr>tmpfiles := insert path (tmpfiles st)\<rparr>"

text \<open>\<^verbatim>\<open>pvc.get("metadata", {}).get("name")\<close> is true\<close>

definition pvc_has_name :: "pvc \<Rightarrow> bool" where
  "pvc_has_name p =
     (case pvc_metadata p of
        NoMetadata \<Rightarrow> False
      | Metadata ns name \<Rightarrow> (case name of None \<Rightarrow> False | Some n \<Rightarrow> n \<noteq> []))"

text \<open>\<^verbatim>\<open>f"{pvc['metadata'].get('namespace','default')}/{pvc['metadata']['name']}"\<close>\<close>

definition pvc_full_name :: "pvc \<Rightarrow> error + string" where
  "pvc_full_name p =
     (case pvc_metadata p of
        NoMetadata \<Rightarrow> Inl KeyError
      | Metadata ns name \<Rightarrow>
          (case name of
             None \<Rightarrow> Inl KeyError
           | Some n \<Rightarrow> Inr ((case ns of None \<Rightarrow> ''default'' | Some s \<Rightarrow> s) @ ''/'' @ n)))"

definition pvc_size :: "pvc \<Rightarrow> error + int option" where
  "pvc_size p =
     (case pvc_storage p of
        NoSpec \<Rightarrow> Inl KeyError
      | NoStorage \<Rightarrow> Inr None
      | Storage n \<Rightarrow> Inr (Some n)
      | StorageUnparsed \<Rightarrow> Inl ValueError)"

text \<open>
  The four assignments from \<^verbatim>\<open>pvc_data\<close>, in their order; an exception leaves the
  attributes assigned before it as they are.
\<close>

definition read_pvcs :: "pvc list \<Rightarrow> OKEClusterInfo \<Rightarrow> OKEClusterInfo \<times> error option" where
  "read_pvcs items cluster_info =
     (let ci1 = cluster_info\<lparr>ki_pvc_count := int (length (filter pvc_has_name items))\<rparr>
      in case collect (map pvc_full_name items) of
           Inl e \<Rightarrow> (ci1, Some e)
         | Inr names \<Rightarrow>
             (let ci2 = ci1\<lparr>ki_pvc_names := names\<rparr>
              in case collect (map pvc_size items) of
                   Inl e \<Rightarrow> (ci2, Some e)
                 | Inr sizes \<Rightarrow>
                     (let gb = sum_list (map (\<lambda>s. case s of None \<Rightarrow> 0 | Some n \<Rightarrow> n) sizes)
                      in (ci2\<lparr>ki_total_pvc_size_gb := gb,
                              ki_total_pvc_size_tb := round2_quot gb 1024\<rparr>, None))))"

text \<open>The inner \<^verbatim>\<open>try\<close> around the node query, with its handler.\<close>

definition read_nodes :: "cloud \<Rightarrow> string \<Rightarrow> string \<Rightarrow> OKEClusterInfo \<Rightarrow> OKEClusterInfo" where
  "read_nodes env region cluster_id cluster_info =
     (case kubectl_get_nodes env region cluster_id of
        Inl e \<Rightarrow> cluster_info\<lparr>ki_node_names := [], ki_node_count := 0\<rparr>
      | Inr names \<Rightarrow>
          cluster_info\<lparr>ki_node_names := names, ki_node_count := int (length names)\<rparr>)"

text \<open>
  The \<^verbatim>\<open>try\<close> block of one cluster (the statements that may raise), then its
  \<^verbatim>\<open>except Exception\<close>, which only logs, then its \<^verbatim>\<open>finally\<close>.
\<close>

definition cluster_try :: "cloud \<Rightarrow> string \<Rightarrow> string \<Rightarrow> cluster \<Rightarrow> OKEClusterInfo \<Rightarrow> state \<Rightarrow> OKEClusterInfo \<times> state" where
  "cluster_try env region profile cluster cluster_info st =
     (case create_kubeconfig env region profile (cl_id cluster) of
        Failed left \<Rightarrow>
          (cluster_info,
           if left then write_tmpfile (kubeconfig_file (cl_id cluster)) st else st)
      | Created \<Rightarrow>
          (let st1 = write_tmpfile (kubeconfig_file (cl_id cluster)) st
           in case kubectl_get_pvc env region (cl_id cluster) of
                Inl e \<Rightarrow> (cluster_info, st1)
              | Inr items \<Rightarrow>
                  (case read_pvcs items cluster_info of
                     (ci, Some e) \<Rightarrow> (ci, st1)
                   | (ci, None) \<Rightarrow> (read_nodes env region (cl_id cluster) ci, st1))))"

definition cluster_finally :: "cluster \<Rightarrow> state \<Rightarrow> state" where
  "cluster_finally cluster st =
     (case os_remove (kubeconfig_file (cl_id cluster)) st of
        Ok u st' \<Rightarrow> st'
      | Raised e st' \<Rightarrow> st')"

definition cv_cluster_inventory :: "cloud \<Rightarrow> string \<Rightarrow> string \<Rightarrow> cluster \<Rightarrow> OKEClusterInfo \<Rightarrow> state \<Rightarrow> OKEClusterInfo \<times> state" where
  "cv_cluster_inventory env region profile cluster cluster_info st =
     (case cluster_try env region profile cluster cluster_info st of
        (ci, st1) \<Rightarrow> (ci, cluster_finally cluster st1))"

definition new_cluster_info :: "string \<Rightarrow> cluster \<Rightarrow> OKEClusterInfo" where
  "new_cluster_info region cluster =
     \<lparr>ki_region = region, ki_cluster_id = cl_id cluster, ki_cluster_name = cl_name cluster,
      ki_kubernetes_version = cl_kubernetes_version cluster,
      ki_node_count = 0, ki_node_names = [], ki_pvc_count = 0, ki_pvc_names = [],
      ki_total_pvc_size_gb = 0, ki_total_pvc_size_tb = 0\<rparr>"

text \<open>\<^verbatim>\<open>config.get("profile", oci.config.DEFAULT_PROFILE)\<close>\<close>

definition profile_of :: "state \<Rightarrow> string" where
  "profile_of st = (case config st ''profile'' of None \<Rightarrow> ''DEFAULT'' | Some p \<Rightarrow> p)"

definition cv_cluster_step ::
  "cloud \<Rightarrow> string \<Rightarrow> OKEClusterSummary \<times> OKEClusterInfo list \<times> state \<Rightarrow> cluster \<Rightarrow>
   OKEClusterSummary \<times> OKEClusterInfo list \<times> state" where
  "cv_cluster_step env region acc cluster =
     (case acc of (summary, cluster_list, st) \<Rightarrow>
        if cl_lifecycle_state cluster = ''DELETED'' then acc
        else
          (case cv_cluster_inventory env region (profile_of st) cluster
                  (new_cluster_info region cluster) st of
             (cluster_info, st1) \<Rightarrow>
               (add_cluster cluster_info summary, cluster_list @ [cluster_info],
                count_cluster cluster_info st1)))"

definition cv_oke_compartment ::
  "cloud \<Rightarrow> string \<Rightarrow> string \<Rightarrow> string \<Rightarrow> OKEClusterSummary \<Rightarrow> state \<Rightarrow>
   OKEClusterSummary outcome" where
  "cv_oke_compartment env filename region compartment region_summary st =
     (case list_clusters env region compartment of
        Inl e \<Rightarrow> Ok region_summary st
      | Inr clusters \<Rightarrow>
          (case foldl (cv_cluster_step env region) (region_summary, [], st) clusters of
             (summary, compartment_oke_list, st1) \<Rightarrow>
               and_then
                 (cv_dump_info filename ''oke_clusters'' (map Cluster compartment_oke_list) st1)
                 (\<lambda>_. Ok summary)))"

definition cv_oke_region ::
  "cloud \<Rightarrow> string \<Rightarrow> string list \<Rightarrow> string \<Rightarrow> OKEClusterSummary list \<Rightarrow> state \<Rightarrow>
   OKEClusterSummary list outcome" where
  "cv_oke_region env filename compartments region oke_summary_list st =
     and_then
       (for_each (cv_oke_compartment env filename region) compartments
          \<lparr>ks_region = Some region, ks_cluster_count = 0, ks_total_node_count = 0,
           ks_total_pvc_count = 0, ks_total_pvc_size_gb = 0, ks_total_pvc_size_tb = 0\<rparr>
          (set_region region st))
       (\<lambda>region_summary. Ok (oke_summary_list @ [region_summary]))"

definition cv_get_oke_cluster_info ::
  "cloud \<Rightarrow> string \<Rightarrow> string list \<Rightarrow> string list \<Rightarrow> state \<Rightarrow> unit outcome" where
  "cv_get_oke_cluster_info env filename regions compartments st =
     (case default_regions env regions st of
        Inl e \<Rightarrow> Raised e st
      | Inr regions' \<Rightarrow>
     (case default_compartments env compartments st of
        Inl e \<Rightarrow> Raised e st
      | Inr compartments' \<Rightarrow>
          and_then (for_each (cv_oke_region env filename compartments') regions' [] st)
            (\<lambda>oke_summary_list st1.
               and_then (cv_write_grand_total filename ''oke_clusters'' st1)
                 (\<lambda>_ st2.
                    and_then
                      (cv_dump_summary filename ''oke_clusters''
                         (map ClusterSum oke_summary_list) st2)
                      (\<lambda>_. format_workbook filename)))))"

subsection \<open>Reading the result\<close>

text \<open>The rows of one sheet of one workbook on disk.\<close>

definition sheet_of :: "state \<Rightarrow> string \<Rightarrow> string \<Rightarrow> sheet option" where
  "sheet_of st filename title =
     (case files st filename of None \<Rightarrow> None | Some wb \<Rightarrow> map_of wb title)"

text \<open>The state a statement leaves, whether it returned or raised.\<close>

fun final_state :: "'a outcome \<Rightarrow> state" where
  "final_state (Ok a st) = st"
| "final_state (Raised e st) = st"

subsection \<open>The specification's rounding\<close>

text \<open>
  \<^verbatim>\<open>GB / 1024\<close> rounded half-up to two decimals, as the specification words it, in
  hundredths: the definition is not taken from the code.
\<close>

definition spec_round2_half_up :: "int \<Rightarrow> int \<Rightarrow> dec2" where
  "spec_round2_half_up n d = (200 * n + d) div (2 * d)"

subsection \<open>A small tenancy\<close>

text \<open>
  A provider to run the scripts on: one region \<open>r1\<close>; compartment \<open>c1\<close> holds
  two live instances with a boot volume of 600 GB each and a terminated one, five
  buckets of which the third cannot be read, two DB systems of 256 GB, one of them
  terminated, and two clusters, one of them deleted; the instances, DB systems and
  clusters of compartment \<open>c2\<close> cannot be listed. Instance \<open>i2\<close>
  has one block volume whose size cannot be read. Compartment \<open>c3\<close>, outside the
  tenancy's listing, holds one instance with a boot volume of 128 GB.
\<close>

definition demo_instance :: "string \<Rightarrow> string \<Rightarrow> compute_instance" where
  "demo_instance name st =
     \<lparr>inst_id = name, inst_display_name = name, inst_availability_domain = ''AD-1'',
      inst_shape = ''VM.Standard2.1'', inst_lifecycle_state = st,
      inst_compartment_id = ''c1'', inst_defined_tags = ''{}'',
      inst_freeform_tags = ''{}''\<rparr>"

definition demo_stats :: "int \<Rightarrow> bucket_stats" where
  "demo_stats n =
     \<lparr>bkt_storage_tier = ''Standard'', bkt_defined_tags = ''{}'', bkt_freeform_tags = ''{}'',
      bkt_approximate_size = Some n, bkt_approximate_count = Some 7\<rparr>"

definition demo_db_system :: "string \<Rightarrow> string \<Rightarrow> db_system" where
  "demo_db_system name st =
     \<lparr>db_id = name, db_display_name = name, db_availability_domain = ''AD-1'',
      db_shape = ''VM.Standard2.2'', db_lifecycle_state = st, db_node_count = Some 1,
      db_version = Some ''19.0.0.0'', db_database_edition = Some ''ENTERPRISE_EDITION'',
      db_data_storage_size_in_gbs = Some 256, db_defined_tags = ''{}'',
      db_freeform_tags = ''{}''\<rparr>"

definition demo_cloud :: cloud where
  "demo_cloud =
     \<lparr>list_region_subscriptions = (\<lambda>tenancy. Inr [''r1'']),
      list_compartments = (\<lambda>tenancy. Inr [''c1'', ''c2'']),
      list_instances =
        (\<lambda>region compartment.
           if compartment = ''c1''
           then Inr [demo_instance ''i1'' ''RUNNING'', demo_instance ''i0'' ''TERMINATED'',
                     demo_instance ''i2'' ''STOPPED'']
           else if compartment = ''c3'' then Inr [demo_instance ''i3'' ''RUNNING'']
           else Inl ServiceError),
      list_boot_volume_attachments = (\<lambda>region i ad c. Inr [''boot-'' @ i]),
      get_boot_volume =
        (\<lambda>region v.
           Inr \<lparr>vol_display_name = v,
                vol_size_in_gbs = (if v = ''boot-i3'' then 128 else 600)\<rparr>),
      list_volume_attachments =
        (\<lambda>region i ad c. if i = ''i2'' then Inr [''vol-1''] else Inr []),
      get_volume = (\<lambda>region v. Inl ServiceError),
      get_namespace = (\<lambda>region. Inr ''ns''),
      list_buckets =
        (\<lambda>region namespace compartment.
           if compartment = ''c1'' then Inr [''b1'', ''b2'', ''b3'', ''b4'', ''b5'']
           else Inr []),
      get_bucket =
        (\<lambda>region namespace bucket.
           if bucket = ''b3'' then Inl ServiceError else Inr (demo_stats 644245094400)),
      list_db_systems =
        (\<lambda>region compartment.
           if compartment = ''c1''
           then Inr [demo_db_system ''d1'' ''AVAILABLE'', demo_db_system ''d0'' ''TERMINATED'']
           else Inl ServiceError),
      list_clusters =
        (\<lambda>region compartment.
           if compartment = ''c1''
           then Inr [\<lparr>cl_id = ''k1'', cl_name = ''prod'', cl_kubernetes_version = ''v1.29'',
                      cl_lifecycle_state = ''ACTIVE''\<rparr>,
                     \<lparr>cl_id = ''k2'', cl_name = ''old'', cl_kubernetes_version = ''v1.25'',
                      cl_lifecycle_state = ''DELETED''\<rparr>]
           else Inl ServiceError),
      create_kubeconfig = (\<lambda>region profile cluster_id. Created),
      kubectl_get_pvc =
        (\<lambda>region cluster_id.
           Inr [\<lparr>pvc_metadata = Metadata (Some ''db'') (Some ''data''),
                 pvc_storage = Storage 600\<rparr>,
                \<lparr>pvc_metadata = Metadata None (Some ''logs''), pvc_storage = Storage 600\<rparr>]),
      kubectl_get_nodes = (\<lambda>region cluster_id. Inr [''node-1'', ''node-2''])\<rparr>"

definition demo_config :: "string \<rightharpoonup> string" where
  "demo_config = [''tenancy'' \<mapsto> ''t1'', ''region'' \<mapsto> ''home'']"

text \<open>The start of a run: the workbook just initialised, every counter zero.\<close>

definition cs_start :: "string \<Rightarrow> state" where
  "cs_start workload =
     final_state (cs_init_excel ''report.xlsx'' workload (initial_state Map.empty demo_config))"

definition cv_start :: "string \<Rightarrow> state" where
  "cv_start workload =
     final_state (cv_init_excel ''report.xlsx'' workload (initial_state Map.empty demo_config))"

subsection \<open>What the loops over the resources compute\<close>

text \<open>
  The detail records a loop over the resources of one scope appends, as a function of the
  provider's answers, for the statements of the properties below.
\<close>

definition bucket_records :: "cloud \<Rightarrow> string \<Rightarrow> string \<Rightarrow> string \<Rightarrow> string list \<Rightarrow> ObjectStorageInfo list" where
  "bucket_records env region namespace compartment buckets =
     concat (map (\<lambda>bucket_name.
                    case get_bucket env region namespace bucket_name of
                      Inl e \<Rightarrow> []
                    | Inr stats \<Rightarrow>
                        [bucket_info_of region namespace compartment bucket_name stats])
               buckets)"

definition live_instance :: "compute_instance \<Rightarrow> bool" where
  "live_instance instance = (inst_lifecycle_state instance \<noteq> ''TERMINATED'')"

definition live_db_system :: "db_system \<Rightarrow> bool" where
  "live_db_system db = (db_lifecycle_state db \<noteq> ''TERMINATED'')"

definition live_cluster :: "cluster \<Rightarrow> bool" where
  "live_cluster c = (cl_lifecycle_state c \<noteq> ''DELETED'')"

text \<open>
  The records of the DB systems of one listing: one for every DB system that is not
  terminated and has a size.
\<close>

definition db_records :: "string \<Rightarrow> string \<Rightarrow> db_system list \<Rightarrow> DBSystemInfo list" where
  "db_records region compartment db_systems =
     concat (map (\<lambda>db. case db_data_storage_size_in_gbs db of
                          None \<Rightarrow> []
                        | Some gb \<Rightarrow> [db_info_of region compartment db gb])
               (filter live_db_system db_systems))"

text \<open>The attributes of a cluster's record after the \<^verbatim>\<open>try\<close> block.\<close>

definition cluster_info_of :: "cloud \<Rightarrow> string \<Rightarrow> string \<Rightarrow> cluster \<Rightarrow> OKEClusterInfo" where
  "cluster_info_of env region profile cluster =
     (case create_kubeconfig env region profile (cl_id cluster) of
        Failed left \<Rightarrow> new_cluster_info region cluster
      | Created \<Rightarrow>
          (case kubectl_get_pvc env region (cl_id cluster) of
             Inl e \<Rightarrow> new_cluster_info region cluster
           | Inr items \<Rightarrow>
               (case read_pvcs items (new_cluster_info region cluster) of
                  (ci, Some e) \<Rightarrow> ci
                | (ci, None) \<Rightarrow> read_nodes env region (cl_id cluster) ci)))"

subsection \<open>Changes of the state\<close>

text \<open>
  The changes a run makes to the state, named for the statements of the properties:
  rows appended to one sheet of one workbook, counters advanced by a list of detail
  records, files removed from the disk, and the region left in \<^verbatim>\<open>config\<close>.
\<close>

definition append_rows :: "string \<Rightarrow> string \<Rightarrow> row list \<Rightarrow> state \<Rightarrow> state" where
  "append_rows filename title rows st =
     (case files st filename of
        None \<Rightarrow> st
      | Some wb \<Rightarrow>
          (case map_of wb title of
             None \<Rightarrow> st
           | Some sh \<Rightarrow> save (AList.update title (sh @ rows) wb) filename st))"

definition update_sheet :: "string \<Rightarrow> string \<Rightarrow> (sheet \<Rightarrow> sheet) \<Rightarrow> state \<Rightarrow> state" where
  "update_sheet filename title f st =
     (case files st filename of
        None \<Rightarrow> st
      | Some wb \<Rightarrow>
          (case map_of wb title of
             None \<Rightarrow> st
           | Some sh \<Rightarrow> save (AList.update title (f sh) wb) filename st))"

definition formatted :: "string \<Rightarrow> state \<Rightarrow> state" where
  "formatted filename st =
     (case files st filename of
        None \<Rightarrow> st
      | Some wb \<Rightarrow>
          save (map (\<lambda>(title, sh). (title, set_row_fill (set_row_bold sh 1) 1)) wb)
            filename st)"

definition remove_tmpfiles :: "string set \<Rightarrow> state \<Rightarrow> state" where
  "remove_tmpfiles paths st = st\<lparr>tmpfiles := tmpfiles st - paths\<rparr>"

definition after_regions :: "string list \<Rightarrow> state \<Rightarrow> state" where
  "after_regions regions st = (if regions = [] then st else set_region (last regions) st)"

definition add_instances :: "InstanceInfo list \<Rightarrow> InstanceSummary \<Rightarrow> InstanceSummary" where
  "add_instances recs s =
     s\<lparr>is_instance_count := is_instance_count s + int (length recs),
       is_total_sizeGB := is_total_sizeGB s + sum_list (map ii_sizeGB recs),
       is_total_sizeTB := is_total_sizeTB s + sum_list (map ii_sizeTB recs)\<rparr>"

definition count_instances :: "InstanceInfo list \<Rightarrow> state \<Rightarrow> state" where
  "count_instances recs st =
     st\<lparr>total_instances := total_instances st + int (length recs),
        total_instance_sizeGB := total_instance_sizeGB st + sum_list (map ii_sizeGB recs),
        total_instance_sizeTB := total_instance_sizeTB st + sum_list (map ii_sizeTB recs)\<rparr>"

definition add_buckets :: "ObjectStorageInfo list \<Rightarrow> ObjectStorageSummary \<Rightarrow> ObjectStorageSummary" where
  "add_buckets recs s =
     s\<lparr>os_bucket_count := os_bucket_count s + int (length recs),
       os_total_storage_GB := os_total_storage_GB s + sum_list (map oi_sizeGB recs),
       os_total_storage_TB := os_total_storage_TB s + sum_list (map oi_sizeTB recs)\<rparr>"

definition count_buckets :: "ObjectStorageInfo list \<Rightarrow> state \<Rightarrow> state" where
  "count_buckets recs st =
     st\<lparr>total_buckets := total_buckets st + int (length recs),
        total_storageGB := total_storageGB st + sum_list (map oi_sizeGB recs),
        total_storageTB := total_storageTB st + sum_list (map oi_sizeTB recs)\<rparr>"

definition add_db_systems :: "DBSystemInfo list \<Rightarrow> DBSystemSummary \<Rightarrow> DBSystemSummary" where
  "add_db_systems recs s =
     s\<lparr>ds_db_system_count := ds_db_system_count s + int (length recs),
       ds_total_storage_gb := ds_total_storage_gb s + sum_list (map di_data_storage_size_gb recs),
       ds_total_storage_tb := ds_total_storage_tb s + sum_list (map di_data_storage_size_tb recs)\<rparr>"

definition count_db_systems :: "DBSystemInfo list \<Rightarrow> state \<Rightarrow> state" where
  "count_db_systems recs st =
     st\<lparr>total_db_systems := total_db_systems st + int (length recs),
        total_db_system_sizeGB :=
          total_db_system_sizeGB st + sum_list (map di_data_storage_size_gb recs),
        total_db_system_sizeTB :=
          total_db_system_sizeTB st + sum_list (map di_data_storage_size_tb recs)\<rparr>"

definition add_clusters :: "OKEClusterInfo list \<Rightarrow> OKEClusterSummary \<Rightarrow> OKEClusterSummary" where
  "add_clusters recs s =
     s\<lparr>ks_cluster_count := ks_cluster_count s + int (length recs),
       ks_total_node_count := ks_total_node_count s + sum_list (map ki_node_count recs),
       ks_total_pvc_count := ks_total_pvc_count s + sum_list (map ki_pvc_count recs),
       ks_total_pvc_size_gb :=
         ks_total_pvc_size_gb s + sum_list (map ki_total_pvc_size_gb recs),
       ks_total_pvc_size_tb :=
         ks_total_pvc_size_tb s + sum_list (map ki_total_pvc_size_tb recs)\<rparr>"

definition count_clusters :: "OKEClusterInfo list \<Rightarrow> state \<Rightarrow> state" where
  "count_clusters recs st =
     st\<lparr>total_oke_clusters := total_oke_clusters st + int (length recs),
        total_oke_node_count := total_oke_node_count st + sum_list (map ki_node_count recs),
        total_oke_pvc_count := total_oke_pvc_count st + sum_list (map ki_pvc_count recs),
        total_oke_pvc_size_gb :=
          total_oke_pvc_size_gb st + sum_list (map ki_total_pvc_size_gb recs),
        total_oke_pvc_size_tb :=
          total_oke_pvc_size_tb st + sum_list (map ki_total_pvc_size_tb recs)\<rparr>"

text \<open>A summary as \<^verbatim>\<open>InstanceSummary()\<close> and its siblings construct it.\<close>

definition new_instance_summary :: "string option \<Rightarrow> string option \<Rightarrow> InstanceSummary" where
  "new_instance_summary region compartment =
     \<lparr>is_region = region, is_compartment_id = compartment, is_instance_count = 0,
      is_total_sizeGB = 0, is_total_sizeTB = 0\<rparr>"

definition new_bucket_summary :: "string option \<Rightarrow> string option \<Rightarrow> string option \<Rightarrow> ObjectStorageSummary" where
  "new_bucket_summary region namespace compartment =
     \<lparr>os_region = region, os_namespace = namespace, os_compartment_id = compartment,
      os_bucket_count = 0, os_total_storage_GB = 0, os_total_storage_TB = 0\<rparr>"

definition new_db_summary :: "string option \<Rightarrow> DBSystemSummary" where
  "new_db_summary region =
     \<lparr>ds_region = region, ds_db_system_count = 0, ds_total_storage_gb = 0,
      ds_total_storage_tb = 0\<rparr>"

definition new_cluster_summary :: "string option \<Rightarrow> OKEClusterSummary" where
  "new_cluster_summary region =
     \<lparr>ks_region = region, ks_cluster_count = 0, ks_total_node_count = 0,
      ks_total_pvc_count = 0, ks_total_pvc_size_gb = 0, ks_total_pvc_size_tb = 0\<rparr>"

subsection \<open>Scopes and reports\<close>

text \<open>
  A summary agrees with a list of detail records when its count is their number and each
  of its sums is the sum of their fields.
\<close>

definition instance_scope :: "InstanceSummary \<Rightarrow> InstanceInfo list \<Rightarrow> bool" where
  "instance_scope s recs =
     (is_instance_count s = int (length recs) \<and>
      is_total_sizeGB s = sum_list (map ii_sizeGB recs) \<and>
      is_total_sizeTB s = sum_list (map ii_sizeTB recs))"

definition bucket_scope :: "ObjectStorageSummary \<Rightarrow> ObjectStorageInfo list \<Rightarrow> bool" where
  "bucket_scope s recs =
     (os_bucket_count s = int (length recs) \<and>
      os_total_storage_GB s = sum_list (map oi_sizeGB recs) \<and>
      os_total_storage_TB s = sum_list (map oi_sizeTB recs))"

definition db_scope :: "DBSystemSummary \<Rightarrow> DBSystemInfo list \<Rightarrow> bool" where
  "db_scope s recs =
     (ds_db_system_count s = int (length recs) \<and>
      ds_total_storage_gb s = sum_list (map di_data_storage_size_gb recs) \<and>
      ds_total_storage_tb s = sum_list (map di_data_storage_size_tb recs))"

definition cluster_scope :: "OKEClusterSummary \<Rightarrow> OKEClusterInfo list \<Rightarrow> bool" where
  "cluster_scope s recs =
     (ks_cluster_count s = int (length recs) \<and>
      ks_total_node_count s = sum_list (map ki_node_count recs) \<and>
      ks_total_pvc_count s = sum_list (map ki_pvc_count recs) \<and>
      ks_total_pvc_size_gb s = sum_list (map ki_total_pvc_size_gb recs) \<and>
      ks_total_pvc_size_tb s = sum_list (map ki_total_pvc_size_tb recs))"

text \<open>
  What the loops of \<^verbatim>\<open>oci_cs.py\<close> leave for a list of scopes, each a summary with its
  detail records: the rows of both sheets, and the counters.
\<close>

definition cs_instance_report :: "string \<Rightarrow> (InstanceSummary \<times> InstanceInfo list) list \<Rightarrow> state \<Rightarrow> state" where
  "cs_instance_report filename scopes st =
     append_rows filename ''InstanceSummary''
       (map (\<lambda>scope. plain_row (cs_instance_summary_row (fst scope))) scopes)
       (append_rows filename ''InstanceInfo''
          (map (\<lambda>r. plain_row (cs_instance_row r)) (concat (map snd scopes)))
          (count_instances (concat (map snd scopes)) st))"

definition cs_bucket_report :: "string \<Rightarrow> (ObjectStorageSummary \<times> ObjectStorageInfo list) list \<Rightarrow> state \<Rightarrow> state" where
  "cs_bucket_report filename scopes st =
     append_rows filename ''ObjectStorageSummary''
       (map (\<lambda>scope. plain_row (cs_bucket_summary_row (fst scope))) scopes)
       (append_rows filename ''ObjectStorageInfo''
          (map (\<lambda>r. plain_row (bucket_row r)) (concat (map snd scopes)))
          (count_buckets (concat (map snd scopes)) st))"

text \<open>
  What the loops of \<^verbatim>\<open>CVOracleCloudSizingScript.py\<close> leave for a list of detail
  records: the rows of the detail sheet, the counters and, for clusters, the kubeconfig
  files removed.
\<close>

definition cv_instance_detail :: "string \<Rightarrow> InstanceInfo list \<Rightarrow> state \<Rightarrow> state" where
  "cv_instance_detail filename recs st =
     append_rows filename ''Instance Info'' (map (\<lambda>r. plain_row (cv_instance_row r)) recs)
       (count_instances recs st)"

definition cv_bucket_detail :: "string \<Rightarrow> ObjectStorageInfo list \<Rightarrow> state \<Rightarrow> state" where
  "cv_bucket_detail filename recs st =
     append_rows filename ''Object Storage Info'' (map (\<lambda>r. plain_row (bucket_row r)) recs)
       (count_buckets recs st)"

definition cv_db_detail :: "string \<Rightarrow> DBSystemInfo list \<Rightarrow> state \<Rightarrow> state" where
  "cv_db_detail filename recs st =
     append_rows filename ''DB System Info'' (map (\<lambda>r. plain_row (db_system_row r)) recs)
       (count_db_systems recs st)"

definition cv_cluster_detail :: "string \<Rightarrow> OKEClusterInfo list \<Rightarrow> string set \<Rightarrow> state \<Rightarrow> state" where
  "cv_cluster_detail filename recs paths st =
     append_rows filename ''OKE Cluster Info'' (map (\<lambda>r. plain_row (cluster_row r)) recs)
       (count_clusters recs (remove_tmpfiles paths st))"

subsection \<open>The provider without its terminal resources\<close>

text \<open>
  The same provider, with the terminated instances, the terminated DB systems and the
  deleted clusters taken out of every listing it answers.
\<close>

definition live_listing :: "cloud \<Rightarrow> cloud" where
  "live_listing env =
     env\<lparr>list_instances :=
           (\<lambda>region compartment.
              case list_instances env region compartment of
                Inl e \<Rightarrow> Inl e
              | Inr instances \<Rightarrow> Inr (filter live_instance instances)),
         list_db_systems :=
           (\<lambda>region compartment.
              case list_db_systems env region compartment of
                Inl e \<Rightarrow> Inl e
              | Inr db_systems \<Rightarrow> Inr (filter live_db_system db_systems)),
         list_clusters :=
           (\<lambda>region compartment.
              case list_clusters env region compartment of
                Inl e \<Rightarrow> Inl e
              | Inr clusters \<Rightarrow> Inr (filter live_cluster clusters))\<rparr>"

section \<open>Properties\<close>

subsection \<open>Initialising the workbook\<close>

lemma cs_init_excel_existing:
  "files st filename \<noteq> None \<Longrightarrow> cs_init_excel filename workload st = Ok () st"
  by (auto simp: cs_init_excel_def)

lemma cv_init_excel_existing:
  "files st filename \<noteq> None \<Longrightarrow> cv_init_excel filename workload st = Ok () st"
  by (auto simp: cv_init_excel_def)

lemma cs_init_excel_creates:
  "cs_init_excel filename workload st = Ok u st' \<Longrightarrow> files st' filename \<noteq> None"
  by (auto simp: cs_init_excel_def save_def split: if_splits sum.splits)

lemma cv_init_excel_creates:
  "cv_init_excel filename workload st = Ok u st' \<Longrightarrow> files st' filename \<noteq> None"
  by (auto simp: cv_init_excel_def save_def split: if_splits sum.splits)

subsection \<open>Sequencing and loops\<close>

lemma foldl_sheet_append: "foldl sheet_append sh rows = sh @ map plain_row rows"
  by (induction rows arbitrary: sh) (simp_all add: sheet_append_def)

lemma and_then_Ok:
  "and_then x f = Ok b st' \<longleftrightarrow> (\<exists>a st. x = Ok a st \<and> f a st = Ok b st')"
  by (cases x) auto

lemma for_each_invariant:
  assumes "for_each body xs b st = Ok b' st'"
    and "I b st"
    and "\<And>x b st b' st'. x \<in> set xs \<Longrightarrow> I b st \<Longrightarrow> body x b st = Ok b' st' \<Longrightarrow> I b' st'"
  shows "I b' st'"
  using assms
proof (induction xs arbitrary: b st)
  case Nil
  then show ?case by simp
next
  case (Cons x xs)
  from Cons.prems(1) obtain b1 st1 where
    step: "body x b st = Ok b1 st1" and rest: "for_each body xs b1 st1 = Ok b' st'"
    by (auto split: outcome.splits)
  have i1: "I b1 st1"
    by (rule Cons.prems(3) [OF _ Cons.prems(2) step]) simp
  show ?case
  proof (rule Cons.IH [OF rest i1])
    fix y c s c' s'
    assume "y \<in> set xs" "I c s" "body y c s = Ok c' s'"
    then show "I c' s'" using Cons.prems(3) [of y c s c' s'] by simp
  qed
qed

lemma for_each_final:
  assumes "P st"
    and "\<And>x b st. x \<in> set xs \<Longrightarrow> P st \<Longrightarrow> P (final_state (body x b st))"
  shows "P (final_state (for_each body xs b st))"
  using assms
proof (induction xs arbitrary: b st)
  case Nil
  then show ?case by simp
next
  case (Cons x xs)
  have p1: "P (final_state (body x b st))"
    by (rule Cons.prems(2) [OF _ Cons.prems(1)]) simp
  show ?case
  proof (cases "body x b st")
    case (Ok b1 st1)
    have "P (final_state (for_each body xs b1 st1))"
    proof (rule Cons.IH)
      show "P st1" using p1 Ok by simp
    next
      fix y c s
      assume "y \<in> set xs" "P s"
      then show "P (final_state (body y c s))" using Cons.prems(2) [of y s c] by simp
    qed
    then show ?thesis using Ok by simp
  next
    case (Raised e st1)
    then show ?thesis using p1 by simp
  qed
qed

subsection \<open>The loops over the resources\<close>

lemma bucket_step_eq:
  "bucket_step env region namespace compartment (s, l, st) b =
     (case get_bucket env region namespace b of
        Inl e \<Rightarrow> (s, l, st)
      | Inr stats \<Rightarrow>
          (add_bucket (bucket_info_of region namespace compartment b stats) s,
           l @ [bucket_info_of region namespace compartment b stats],
           count_bucket (bucket_info_of region namespace compartment b stats) st))"
  by (simp add: bucket_step_def Let_def split: sum.splits)

lemma cs_instance_step_eq:
  "cs_instance_step env region compartment (s, l, st) i =
     (if live_instance i
      then (add_instance (cs_instance_info_of env region compartment i) s,
            l @ [cs_instance_info_of env region compartment i],
            count_instance (cs_instance_info_of env region compartment i) st)
      else (s, l, st))"
  by (simp add: cs_instance_step_def live_instance_def Let_def)

lemma cv_instance_step_eq:
  "cv_instance_step env region compartment (s, l, st) i =
     (if live_instance i
      then (add_instance (cv_instance_info_of env region compartment i) s,
            l @ [cv_instance_info_of env region compartment i],
            count_instance (cv_instance_info_of env region compartment i) st)
      else (s, l, st))"
  by (simp add: cv_instance_step_def live_instance_def Let_def)

lemma bucket_loop:
  "foldl (bucket_step env region namespace compartment) (s, l, st) buckets =
     (let recs = bucket_records env region namespace compartment buckets
      in (s\<lparr>os_bucket_count := os_bucket_count s + int (length recs),
            os_total_storage_GB := os_total_storage_GB s + sum_list (map oi_sizeGB recs),
            os_total_storage_TB := os_total_storage_TB s + sum_list (map oi_sizeTB recs)\<rparr>,
          l @ recs,
          st\<lparr>total_buckets := total_buckets st + int (length recs),
             total_storageGB := total_storageGB st + sum_list (map oi_sizeGB recs),
             total_storageTB := total_storageTB st + sum_list (map oi_sizeTB recs)\<rparr>))"
proof (induction buckets arbitrary: s l st)
  case Nil
  then show ?case by (simp add: bucket_records_def)
next
  case (Cons b bs)
  show ?case
    by (cases "get_bucket env region namespace b")
      (simp_all add: Cons.IH bucket_step_eq bucket_records_def add_bucket_def
        count_bucket_def Let_def algebra_simps)
qed

lemma cs_instance_loop:
  "foldl (cs_instance_step env region compartment) (s, l, st) instances =
     (let recs = map (cs_instance_info_of env region compartment) (filter live_instance instances)
      in (s\<lparr>is_instance_count := is_instance_count s + int (length recs),
            is_total_sizeGB := is_total_sizeGB s + sum_list (map ii_sizeGB recs),
            is_total_sizeTB := is_total_sizeTB s + sum_list (map ii_sizeTB recs)\<rparr>,
          l @ recs,
          st\<lparr>total_instances := total_instances st + int (length recs),
             total_instance_sizeGB := total_instance_sizeGB st + sum_list (map ii_sizeGB recs),
             total_instance_sizeTB := total_instance_sizeTB st + sum_list (map ii_sizeTB recs)\<rparr>))"
proof (induction instances arbitrary: s l st)
  case Nil
  then show ?case by simp
next
  case (Cons i rest)
  show ?case
    by (simp add: Cons.IH cs_instance_step_eq add_instance_def
        count_instance_def Let_def algebra_simps)
qed

lemma cv_instance_loop:
  "foldl (cv_instance_step env region compartment) (s, l, st) instances =
     (let recs = map (cv_instance_info_of env region compartment) (filter live_instance instances)
      in (s\<lparr>is_instance_count := is_instance_count s + int (length recs),
            is_total_sizeGB := is_total_sizeGB s + sum_list (map ii_sizeGB recs),
            is_total_sizeTB := is_total_sizeTB s + sum_list (map ii_sizeTB recs)\<rparr>,
          l @ recs,
          st\<lparr>total_instances := total_instances st + int (length recs),
             total_instance_sizeGB := total_instance_sizeGB st + sum_list (map ii_sizeGB recs),
             total_instance_sizeTB := total_instance_sizeTB st + sum_list (map ii_sizeTB recs)\<rparr>))"
proof (induction instances arbitrary: s l st)
  case Nil
  then show ?case by simp
next
  case (Cons i rest)
  show ?case
    by (simp add: Cons.IH cv_instance_step_eq add_instance_def
        count_instance_def Let_def algebra_simps)
qed

lemma cluster_try_info:
  "fst (cluster_try env region profile cluster (new_cluster_info region cluster) st) =
     cluster_info_of env region profile cluster"
  by (simp add: cluster_try_def cluster_info_of_def Let_def
      split: kubeconfig_result.splits sum.splits prod.splits option.splits)

lemma cluster_try_state:
  "snd (cluster_try env region profile cluster ci st) = st
   \<or> snd (cluster_try env region profile cluster ci st) =
       write_tmpfile (kubeconfig_file (cl_id cluster)) st"
  by (simp add: cluster_try_def Let_def
      split: kubeconfig_result.splits sum.splits prod.splits option.splits)

lemma cluster_finally_eq:
  "cluster_finally cluster st = st\<lparr>tmpfiles := tmpfiles st - {kubeconfig_file (cl_id cluster)}\<rparr>"
  by (simp add: cluster_finally_def os_remove_def)

lemma cv_cluster_inventory_eq:
  "cv_cluster_inventory env region profile cluster (new_cluster_info region cluster) st =
     (cluster_info_of env region profile cluster,
      st\<lparr>tmpfiles := tmpfiles st - {kubeconfig_file (cl_id cluster)}\<rparr>)"
proof -
  obtain ci st1 where t: "cluster_try env region profile cluster (new_cluster_info region cluster) st = (ci, st1)"
    by (cases "cluster_try env region profile cluster (new_cluster_info region cluster) st")
  have ci: "ci = cluster_info_of env region profile cluster"
    using cluster_try_info [of env region profile cluster st] t by simp
  have "st1 = st \<or> st1 = write_tmpfile (kubeconfig_file (cl_id cluster)) st"
    using cluster_try_state [of env region profile cluster "new_cluster_info region cluster" st] t
    by simp
  then have "cluster_finally cluster st1 =
      st\<lparr>tmpfiles := tmpfiles st - {kubeconfig_file (cl_id cluster)}\<rparr>"
    by (auto simp: cluster_finally_eq write_tmpfile_def)
  then show ?thesis by (simp add: cv_cluster_inventory_def t ci)
qed

lemma cv_cluster_step_eq:
  "cv_cluster_step env region (s, l, st) c =
     (if live_cluster c
      then (add_cluster (cluster_info_of env region (profile_of st) c) s,
            l @ [cluster_info_of env region (profile_of st) c],
            count_cluster (cluster_info_of env region (profile_of st) c)
              (st\<lparr>tmpfiles := tmpfiles st - {kubeconfig_file (cl_id c)}\<rparr>))
      else (s, l, st))"
  by (simp add: cv_cluster_step_def live_cluster_def cv_cluster_inventory_eq)

lemma cluster_loop:
  "foldl (cv_cluster_step env region) (s, l, st) clusters =
     (let recs = map (cluster_info_of env region (profile_of st)) (filter live_cluster clusters)
      in (s\<lparr>ks_cluster_count := ks_cluster_count s + int (length recs),
            ks_total_node_count := ks_total_node_count s + sum_list (map ki_node_count recs),
            ks_total_pvc_count := ks_total_pvc_count s + sum_list (map ki_pvc_count recs),
            ks_total_pvc_size_gb := ks_total_pvc_size_gb s + sum_list (map ki_total_pvc_size_gb recs),
            ks_total_pvc_size_tb := ks_total_pvc_size_tb s + sum_list (map ki_total_pvc_size_tb recs)\<rparr>,
          l @ recs,
          st\<lparr>tmpfiles := tmpfiles st - kubeconfig_file ` cl_id ` set (filter live_cluster clusters),
             total_oke_clusters := total_oke_clusters st + int (length recs),
             total_oke_node_count := total_oke_node_count st + sum_list (map ki_node_count recs),
             total_oke_pvc_count := total_oke_pvc_count st + sum_list (map ki_pvc_count recs),
             total_oke_pvc_size_gb := total_oke_pvc_size_gb st + sum_list (map ki_total_pvc_size_gb recs),
             total_oke_pvc_size_tb := total_oke_pvc_size_tb st + sum_list (map ki_total_pvc_size_tb recs)\<rparr>))"
proof (induction clusters arbitrary: s l st)
  case Nil
  then show ?case by simp
next
  case (Cons c cs)
  have d: "\<And>A x B. A - {x} - B = A - insert x B" by auto
  show ?case
    by (simp add: Cons.IH cv_cluster_step_eq add_cluster_def
        count_cluster_def profile_of_def Let_def algebra_simps d)
qed

subsection \<open>Changes of the state\<close>

lemma update_both_present:
  "k \<noteq> k' \<Longrightarrow> map_of al k \<noteq> None \<Longrightarrow> map_of al k' \<noteq> None \<Longrightarrow>
   AList.update k v (AList.update k' v' al) = AList.update k' v' (AList.update k v al)"
  by (induction al) auto

lemma append_rows_Nil [simp]: "append_rows filename title [] st = st"
  by (simp add: append_rows_def save_def AList.update_triv map_upd_triv
      split: option.splits)

lemma append_rows_append [simp]:
  "append_rows filename title r2 (append_rows filename title r1 st) =
     append_rows filename title (r1 @ r2) st"
  by (simp add: append_rows_def save_def AList.update_conv' split: option.splits)

lemma append_rows_swap:
  "t \<noteq> t' \<Longrightarrow>
   append_rows filename t r (append_rows filename t' r' st) =
     append_rows filename t' r' (append_rows filename t r st)"
  by (auto simp: append_rows_def save_def AList.update_conv' update_both_present
      split: option.splits)

lemma sheet_of_append_rows:
  "sheet_of (append_rows filename title rows st) f t =
     (if f = filename \<and> t = title then map_option (\<lambda>sh. sh @ rows) (sheet_of st f t)
      else sheet_of st f t)"
  by (auto simp: append_rows_def sheet_of_def save_def AList.update_conv'
      split: option.splits)

lemma append_rows_fields [simp]:
  "config (append_rows filename title rows st) = config st"
  "tmpfiles (append_rows filename title rows st) = tmpfiles st"
  "total_instances (append_rows filename title rows st) = total_instances st"
  "total_instance_sizeGB (append_rows filename title rows st) = total_instance_sizeGB st"
  "total_instance_sizeTB (append_rows filename title rows st) = total_instance_sizeTB st"
  "total_buckets (append_rows filename title rows st) = total_buckets st"
  "total_storageGB (append_rows filename title rows st) = total_storageGB st"
  "total_storageTB (append_rows filename title rows st) = total_storageTB st"
  "total_oke_clusters (append_rows filename title rows st) = total_oke_clusters st"
  "total_oke_node_count (append_rows filename title rows st) = total_oke_node_count st"
  "total_oke_pvc_count (append_rows filename title rows st) = total_oke_pvc_count st"
  "total_oke_pvc_size_gb (append_rows filename title rows st) = total_oke_pvc_size_gb st"
  "total_oke_pvc_size_tb (append_rows filename title rows st) = total_oke_pvc_size_tb st"
  by (simp_all add: append_rows_def save_def split: option.splits)

text \<open>Changes of other fields move inside \<open>append_rows\<close>.\<close>

lemma count_instances_append_rows [simp]:
  "count_instances recs (append_rows filename title rows st) =
     append_rows filename title rows (count_instances recs st)"
  by (simp add: append_rows_def save_def count_instances_def split: option.splits)

lemma count_buckets_append_rows [simp]:
  "count_buckets recs (append_rows filename title rows st) =
     append_rows filename title rows (count_buckets recs st)"
  by (simp add: append_rows_def save_def count_buckets_def split: option.splits)

lemma count_clusters_append_rows [simp]:
  "count_clusters recs (append_rows filename title rows st) =
     append_rows filename title rows (count_clusters recs st)"
  by (simp add: append_rows_def save_def count_clusters_def split: option.splits)

lemma remove_tmpfiles_append_rows [simp]:
  "remove_tmpfiles K (append_rows filename title rows st) =
     append_rows filename title rows (remove_tmpfiles K st)"
  by (simp add: append_rows_def save_def remove_tmpfiles_def split: option.splits)

lemma set_region_append_rows [simp]:
  "set_region r (append_rows filename title rows st) =
     append_rows filename title rows (set_region r st)"
  by (simp add: append_rows_def save_def set_region_def split: option.splits)

lemma count_instances_append [simp]:
  "count_instances r2 (count_instances r1 st) = count_instances (r1 @ r2) st"
  by (simp add: count_instances_def)

lemma count_buckets_append [simp]:
  "count_buckets r2 (count_buckets r1 st) = count_buckets (r1 @ r2) st"
  by (simp add: count_buckets_def)

lemma count_clusters_append [simp]:
  "count_clusters r2 (count_clusters r1 st) = count_clusters (r1 @ r2) st"
  by (simp add: count_clusters_def)

lemma count_Nil [simp]:
  "count_instances [] st = st" "count_buckets [] st = st" "count_clusters [] st = st"
  by (simp_all add: count_instances_def count_buckets_def count_clusters_def)

lemma add_append [simp]:
  "add_instances r2 (add_instances r1 s) = add_instances (r1 @ r2) s"
  "add_buckets b2 (add_buckets b1 t) = add_buckets (b1 @ b2) t"
  "add_clusters c2 (add_clusters c1 u) = add_clusters (c1 @ c2) u"
  by (simp_all add: add_instances_def add_buckets_def add_clusters_def)

lemma add_Nil [simp]:
  "add_instances [] s = s" "add_buckets [] t = t" "add_clusters [] u = u"
  by (simp_all add: add_instances_def add_buckets_def add_clusters_def)

lemma remove_tmpfiles_twice [simp]:
  "remove_tmpfiles K2 (remove_tmpfiles K1 st) = remove_tmpfiles (K1 \<union> K2) st"
  by (simp add: remove_tmpfiles_def Diff_eq Int_assoc)

lemma remove_tmpfiles_empty [simp]: "remove_tmpfiles {} st = st"
  by (simp add: remove_tmpfiles_def)

lemma remove_tmpfiles_count_clusters [simp]:
  "remove_tmpfiles K (count_clusters recs st) = count_clusters recs (remove_tmpfiles K st)"
  by (simp add: remove_tmpfiles_def count_clusters_def)

lemma set_region_inside [simp]:
  "set_region r (count_instances recs st) = count_instances recs (set_region r st)"
  "set_region r (count_buckets brecs st) = count_buckets brecs (set_region r st)"
  "set_region r (count_clusters crecs st) = count_clusters crecs (set_region r st)"
  "set_region r (remove_tmpfiles K st) = remove_tmpfiles K (set_region r st)"
  by (simp_all add: set_region_def count_instances_def count_buckets_def count_clusters_def
      remove_tmpfiles_def)

lemma set_region_twice [simp]: "set_region r2 (set_region r1 st) = set_region r2 st"
  by (simp add: set_region_def)

lemma after_regions_snoc [simp]: "set_region r (after_regions rs st) = after_regions (rs @ [r]) st"
  by (simp add: after_regions_def)

lemma after_regions_Nil [simp]: "after_regions [] st = st"
  by (simp add: after_regions_def)

lemma profile_of_fields [simp]:
  "profile_of (set_region r st) = profile_of st"
  "profile_of (count_clusters recs st) = profile_of st"
  "profile_of (remove_tmpfiles K st) = profile_of st"
  "profile_of (append_rows filename title rows st) = profile_of st"
  by (simp_all add: profile_of_def set_region_def count_clusters_def remove_tmpfiles_def)

subsection \<open>The writers\<close>

lemma collect_map_Inr: "collect (map (\<lambda>x. Inr (f x)) xs) = Inr (map f xs)"
  by (induction xs) simp_all

lemma cs_rows_of_instances:
  "collect (map (cs_info_row ''instances'' \<circ> Instance) l) = Inr (map cs_instance_row l)"
  by (induction l) (simp_all add: cs_info_row_def)

lemma cs_rows_of_buckets:
  "collect (map (cs_info_row ''object_storage'' \<circ> Bucket) l) = Inr (map bucket_row l)"
  by (induction l) (simp_all add: cs_info_row_def)

lemma cv_rows_of_instances:
  "collect (map (cv_info_row ''instances'' \<circ> Instance) l) = Inr (map cv_instance_row l)"
  by (induction l) (simp_all add: cv_info_row_def)

lemma cv_rows_of_buckets:
  "collect (map (cv_info_row ''object_storage'' \<circ> Bucket) l) = Inr (map bucket_row l)"
  by (induction l) (simp_all add: cv_info_row_def)

lemma cv_rows_of_clusters:
  "collect (map (cv_info_row ''oke_clusters'' \<circ> Cluster) l) = Inr (map cluster_row l)"
  by (induction l) (simp_all add: cv_info_row_def)

lemma cs_dump_info_instances:
  "cs_dump_info filename ''instances'' (map Instance l) st = Ok u st' \<Longrightarrow>
   st' = append_rows filename ''InstanceInfo'' (map (plain_row \<circ> cs_instance_row) l) st"
  by (auto simp: cs_dump_info_def cs_get_sheet_info_def load_workbook_def wb_getitem_def
      cs_rows_of_instances append_rows_def foldl_sheet_append split: option.splits)

lemma cs_dump_info_buckets:
  "cs_dump_info filename ''object_storage'' (map Bucket l) st = Ok u st' \<Longrightarrow>
   st' = append_rows filename ''ObjectStorageInfo'' (map (plain_row \<circ> bucket_row) l) st"
  by (auto simp: cs_dump_info_def cs_get_sheet_info_def load_workbook_def wb_getitem_def
      cs_rows_of_buckets append_rows_def foldl_sheet_append split: option.splits)

lemma cv_dump_info_instances:
  "cv_dump_info filename ''instances'' (map Instance l) st = Ok u st' \<Longrightarrow>
   st' = append_rows filename ''Instance Info'' (map (plain_row \<circ> cv_instance_row) l) st"
  by (auto simp: cv_dump_info_def cv_get_sheet_info_def load_workbook_def wb_getitem_def
      cv_rows_of_instances append_rows_def foldl_sheet_append split: option.splits)

lemma cv_dump_info_buckets:
  "cv_dump_info filename ''object_storage'' (map Bucket l) st = Ok u st' \<Longrightarrow>
   st' = append_rows filename ''Object Storage Info'' (map (plain_row \<circ> bucket_row) l) st"
  by (auto simp: cv_dump_info_def cv_get_sheet_info_def load_workbook_def wb_getitem_def
      cv_rows_of_buckets append_rows_def foldl_sheet_append split: option.splits)

lemma cv_dump_info_clusters:
  "cv_dump_info filename ''oke_clusters'' (map Cluster l) st = Ok u st' \<Longrightarrow>
   st' = append_rows filename ''OKE Cluster Info'' (map (plain_row \<circ> cluster_row) l) st"
  by (auto simp: cv_dump_info_def cv_get_sheet_info_def load_workbook_def wb_getitem_def
      cv_rows_of_clusters append_rows_def foldl_sheet_append split: option.splits)

subsection \<open>Loops that change the state by an accumulated amount\<close>

text \<open>
  When every iteration changes the local variables by \<open>F d\<close> and the state by \<open>G d\<close>
  for some amount \<open>d\<close>, and amounts add up, so does the loop.
\<close>

lemma for_each_delta:
  fixes F :: "'d \<Rightarrow> 'b \<Rightarrow> 'b" and G :: "'d \<Rightarrow> state \<Rightarrow> state"
  assumes run: "for_each body xs b st = Ok b' st'"
    and step: "\<And>x b st b' st'. x \<in> set xs \<Longrightarrow> body x b st = Ok b' st' \<Longrightarrow>
                 \<exists>d. P d \<and> b' = F d b \<and> st' = G d st"
    and d0: "P d0" "\<And>b. F d0 b = b" "\<And>st. G d0 st = st"
    and join: "\<And>d1 d2. P d1 \<Longrightarrow> P d2 \<Longrightarrow> P (join d1 d2)"
      "\<And>d1 d2 b. F d2 (F d1 b) = F (join d1 d2) b"
      "\<And>d1 d2 st. G d2 (G d1 st) = G (join d1 d2) st"
  shows "\<exists>d. P d \<and> b' = F d b \<and> st' = G d st"
  using run step
proof (induction xs arbitrary: b st)
  case Nil
  then show ?case using d0 by auto
next
  case (Cons x xs)
  from Cons.prems(1) obtain b1 st1 where
    first: "body x b st = Ok b1 st1" and rest: "for_each body xs b1 st1 = Ok b' st'"
    by (auto split: outcome.splits)
  from Cons.prems(2) [OF _ first] obtain d1 where
    d1: "P d1" "b1 = F d1 b" "st1 = G d1 st" by auto
  have "\<exists>d. P d \<and> b' = F d b1 \<and> st' = G d st1"
  proof (rule Cons.IH [OF rest])
    fix y c s c' s'
    assume "y \<in> set xs" "body y c s = Ok c' s'"
    then show "\<exists>d. P d \<and> c' = F d c \<and> s' = G d s"
      using Cons.prems(2) [of y c s c' s'] by simp
  qed
  then obtain d2 where d2: "P d2" "b' = F d2 b1" "st' = G d2 st1" by auto
  have "P (join d1 d2) \<and> b' = F (join d1 d2) b \<and> st' = G (join d1 d2) st"
    using d1 d2 join by simp
  then show ?case by blast
qed

lemma after_regions_Cons: "after_regions rs (set_region r st) = after_regions (r # rs) st"
  by (simp add: after_regions_def)

lemma for_each_region_delta:
  fixes F :: "'d \<Rightarrow> 'b \<Rightarrow> 'b" and G :: "'d \<Rightarrow> state \<Rightarrow> state"
  assumes run: "for_each body rs b st = Ok b' st'"
    and step: "\<And>r b st b' st'. r \<in> set rs \<Longrightarrow> body r b st = Ok b' st' \<Longrightarrow>
                 \<exists>d. P d \<and> b' = F d b \<and> st' = G d (set_region r st)"
    and d0: "P d0" "\<And>b. F d0 b = b" "\<And>st. G d0 st = st"
    and join: "\<And>d1 d2. P d1 \<Longrightarrow> P d2 \<Longrightarrow> P (join d1 d2)"
      "\<And>d1 d2 b. F d2 (F d1 b) = F (join d1 d2) b"
      "\<And>d1 d2 st. G d2 (G d1 st) = G (join d1 d2) st"
    and comm: "\<And>d r st. set_region r (G d st) = G d (set_region r st)"
  shows "\<exists>d. P d \<and> b' = F d b \<and> st' = G d (after_regions rs st)"
  using run step
proof (induction rs arbitrary: b st)
  case Nil
  then show ?case using d0 by auto
next
  case (Cons r rs)
  from Cons.prems(1) obtain b1 st1 where
    first: "body r b st = Ok b1 st1" and rest: "for_each body rs b1 st1 = Ok b' st'"
    by (auto split: outcome.splits)
  from Cons.prems(2) [OF _ first] obtain d1 where
    d1: "P d1" "b1 = F d1 b" "st1 = G d1 (set_region r st)" by auto
  have "\<exists>d. P d \<and> b' = F d b1 \<and> st' = G d (after_regions rs st1)"
  proof (rule Cons.IH [OF rest])
    fix y c s c' s'
    assume "y \<in> set rs" "body y c s = Ok c' s'"
    then show "\<exists>d. P d \<and> c' = F d c \<and> s' = G d (set_region y s)"
      using Cons.prems(2) [of y c s c' s'] by simp
  qed
  then obtain d2 where d2: "P d2" "b' = F d2 b1" "st' = G d2 (after_regions rs st1)" by auto
  have move: "after_regions rs (G d1 (set_region r st)) = G d1 (after_regions (r # rs) st)"
    using comm [of "last rs" d1 "set_region r st"]
    by (simp add: after_regions_def)
  have "P (join d1 d2) \<and> b' = F (join d1 d2) b \<and> st' = G (join d1 d2) (after_regions (r # rs) st)"
    using d1 d2 join move by simp
  then show ?case by blast
qed

subsection \<open>The loops over the resources, by their amounts\<close>

lemma bucket_loop_eq:
  "foldl (bucket_step env region namespace compartment) (s, l, st) buckets =
     (add_buckets (bucket_records env region namespace compartment buckets) s,
      l @ bucket_records env region namespace compartment buckets,
      count_buckets (bucket_records env region namespace compartment buckets) st)"
  by (simp add: bucket_loop add_buckets_def count_buckets_def Let_def)

lemma cs_instance_loop_eq:
  "foldl (cs_instance_step env region compartment) (s, l, st) instances =
     (add_instances (map (cs_instance_info_of env region compartment) (filter live_instance instances)) s,
      l @ map (cs_instance_info_of env region compartment) (filter live_instance instances),
      count_instances (map (cs_instance_info_of env region compartment) (filter live_instance instances)) st)"
  by (simp add: cs_instance_loop add_instances_def count_instances_def Let_def)

lemma cv_instance_loop_eq:
  "foldl (cv_instance_step env region compartment) (s, l, st) instances =
     (add_instances (map (cv_instance_info_of env region compartment) (filter live_instance instances)) s,
      l @ map (cv_instance_info_of env region compartment) (filter live_instance instances),
      count_instances (map (cv_instance_info_of env region compartment) (filter live_instance instances)) st)"
  by (simp add: cv_instance_loop add_instances_def count_instances_def Let_def)

lemma cluster_loop_eq:
  "foldl (cv_cluster_step env region) (s, l, st) clusters =
     (add_clusters (map (cluster_info_of env region (profile_of st)) (filter live_cluster clusters)) s,
      l @ map (cluster_info_of env region (profile_of st)) (filter live_cluster clusters),
      count_clusters (map (cluster_info_of env region (profile_of st)) (filter live_cluster clusters))
        (remove_tmpfiles (kubeconfig_file ` cl_id ` set (filter live_cluster clusters)) st))"
  by (simp add: cluster_loop add_clusters_def count_clusters_def remove_tmpfiles_def Let_def)

subsection \<open>The writers of the summary sheet\<close>

lemma cs_dump_summary_instances:
  "cs_dump_summary filename ''instances'' (InstanceSum s) st = Ok u st' \<Longrightarrow>
   st' = append_rows filename ''InstanceSummary'' [plain_row (cs_instance_summary_row s)] st"
  by (auto simp: cs_dump_summary_def cs_get_sheet_info_def load_workbook_def wb_getitem_def
      cs_summary_row_def append_rows_def sheet_append_def split: option.splits)

lemma cs_dump_summary_buckets:
  "cs_dump_summary filename ''object_storage'' (BucketSum s) st = Ok u st' \<Longrightarrow>
   st' = append_rows filename ''ObjectStorageSummary'' [plain_row (cs_bucket_summary_row s)] st"
  by (auto simp: cs_dump_summary_def cs_get_sheet_info_def load_workbook_def wb_getitem_def
      cs_summary_row_def append_rows_def sheet_append_def split: option.splits)

lemma cv_summary_rows_of_instances:
  "collect (map (cv_summary_row ''instances'' \<circ> InstanceSum) l) = Inr (map cv_instance_summary_row l)"
  by (induction l) (simp_all add: cv_summary_row_def)

lemma cv_summary_rows_of_buckets:
  "collect (map (cv_summary_row ''object_storage'' \<circ> BucketSum) l) = Inr (map cv_bucket_summary_row l)"
  by (induction l) (simp_all add: cv_summary_row_def)

lemma cv_summary_rows_of_clusters:
  "collect (map (cv_summary_row ''oke_clusters'' \<circ> ClusterSum) l) = Inr (map cluster_summary_row l)"
  by (induction l) (simp_all add: cv_summary_row_def)

lemma cv_dump_summary_instances:
  "cv_dump_summary filename ''instances'' (map InstanceSum l) st = Ok u st' \<Longrightarrow>
   st' = append_rows filename ''Instance Summary'' (map (plain_row \<circ> cv_instance_summary_row) l) st"
  by (auto simp: cv_dump_summary_def cv_get_sheet_info_def load_workbook_def wb_getitem_def
      cv_summary_rows_of_instances append_rows_def foldl_sheet_append split: option.splits)

lemma cv_dump_summary_buckets:
  "cv_dump_summary filename ''object_storage'' (map BucketSum l) st = Ok u st' \<Longrightarrow>
   st' = append_rows filename ''Object Storage Summary'' (map (plain_row \<circ> cv_bucket_summary_row) l) st"
  by (auto simp: cv_dump_summary_def cv_get_sheet_info_def load_workbook_def wb_getitem_def
      cv_summary_rows_of_buckets append_rows_def foldl_sheet_append split: option.splits)

lemma cv_dump_summary_clusters:
  "cv_dump_summary filename ''oke_clusters'' (map ClusterSum l) st = Ok u st' \<Longrightarrow>
   st' = append_rows filename ''OKE Cluster Summary'' (map (plain_row \<circ> cluster_summary_row) l) st"
  by (auto simp: cv_dump_summary_def cv_get_sheet_info_def load_workbook_def wb_getitem_def
      cv_summary_rows_of_clusters append_rows_def foldl_sheet_append split: option.splits)

lemma cs_write_grand_total_Ok:
  "cs_write_grand_total filename workload st = Ok u st' \<Longrightarrow>
   cs_grand_total_row workload st = Inr (title, r) \<Longrightarrow>
   sheet_of st filename title \<noteq> None \<and>
   st' = append_rows filename title [plain_row r] st"
  by (auto simp: cs_write_grand_total_def load_workbook_def wb_getitem_def append_rows_def
      sheet_append_def sheet_of_def split: option.splits)

lemma cv_write_grand_total_Ok:
  "cv_write_grand_total filename workload st = Ok u st' \<Longrightarrow>
   cv_grand_total_row workload st = Inr (title, r) \<Longrightarrow>
   sheet_of st filename title \<noteq> None \<and>
   st' = update_sheet filename title (\<lambda>sh. set_row_bold (sh @ [plain_row r]) 2) st"
  by (auto simp: cv_write_grand_total_def load_workbook_def wb_getitem_def update_sheet_def
      sheet_append_def sheet_of_def split: option.splits)

lemma format_workbook_Ok:
  "format_workbook filename st = Ok u st' \<Longrightarrow> st' = formatted filename st"
  by (auto simp: format_workbook_def load_workbook_def formatted_def split: option.splits)

lemma sheet_of_update_sheet:
  "sheet_of (update_sheet filename title g st) f t =
     (if f = filename \<and> t = title then map_option g (sheet_of st f t) else sheet_of st f t)"
  by (auto simp: update_sheet_def sheet_of_def save_def AList.update_conv'
      split: option.splits)

lemma map_of_map_snd:
  "map_of (map (\<lambda>(k, v). (k, g v)) al) k = map_option g (map_of al k)"
  by (induction al) auto

lemma sheet_of_formatted:
  "sheet_of (formatted filename st) f t =
     (if f = filename
      then map_option (\<lambda>sh. set_row_fill (set_row_bold sh 1) 1) (sheet_of st f t)
      else sheet_of st f t)"
  by (auto simp: formatted_def sheet_of_def save_def map_of_map_snd split: option.splits)

subsection \<open>Outcomes\<close>

lemma final_state_and_then:
  "final_state (and_then x f) =
     (case x of Ok a st \<Rightarrow> final_state (f a st) | Raised e st \<Rightarrow> st)"
  by (cases x) simp_all

lemma final_state_and_then_Ok:
  "final_state (and_then x (\<lambda>a. Ok (g a))) = final_state x"
  by (cases x) simp_all

lemma final_state_and_then_subset:
  "tmpfiles (final_state x) \<subseteq> T \<Longrightarrow>
   (\<And>a s. tmpfiles (final_state (f a s)) = tmpfiles s) \<Longrightarrow>
   tmpfiles (final_state (and_then x f)) \<subseteq> T"
  by (cases x) auto

lemma tmpfiles_writers:
  "tmpfiles (final_state (cv_dump_info filename workload objs st)) = tmpfiles st"
  "tmpfiles (final_state (cv_dump_summary filename workload sums st)) = tmpfiles st"
  "tmpfiles (final_state (cv_write_grand_total filename workload st)) = tmpfiles st"
  "tmpfiles (final_state (format_workbook filename st)) = tmpfiles st"
  by (simp_all add: cv_dump_info_def cv_dump_summary_def cv_write_grand_total_def
      format_workbook_def save_def split: sum.splits prod.splits)

lemma cluster_inventory_tmpfiles:
  "tmpfiles (snd (cv_cluster_inventory env region profile cluster ci st)) =
     tmpfiles st - {kubeconfig_file (cl_id cluster)}"
proof -
  obtain ci' st1 where t: "cluster_try env region profile cluster ci st = (ci', st1)"
    by (cases "cluster_try env region profile cluster ci st")
  have "st1 = st \<or> st1 = write_tmpfile (kubeconfig_file (cl_id cluster)) st"
    using cluster_try_state [of env region profile cluster ci st] t by simp
  then have "tmpfiles (cluster_finally cluster st1) =
      tmpfiles st - {kubeconfig_file (cl_id cluster)}"
    by (auto simp: cluster_finally_eq write_tmpfile_def)
  then show ?thesis by (simp add: cv_cluster_inventory_def t)
qed

lemma dump_info_then_tmpfiles:
  "tmpfiles (final_state (and_then (cv_dump_info filename workload objs s) (\<lambda>_. Ok b))) =
     tmpfiles s"
  using tmpfiles_writers(1) [of filename workload objs s]
  by (cases "cv_dump_info filename workload objs s") simp_all

lemma oke_compartment_tmpfiles:
  "tmpfiles (final_state (cv_oke_compartment env filename region compartment s st)) \<subseteq> tmpfiles st"
  by (auto simp: cv_oke_compartment_def cluster_loop_eq dump_info_then_tmpfiles
      count_clusters_def remove_tmpfiles_def split: sum.splits)

lemma oke_region_tmpfiles:
  "tmpfiles (final_state (cv_oke_region env filename compartments region l st)) \<subseteq> tmpfiles st"
proof -
  have "tmpfiles (final_state (for_each (cv_oke_compartment env filename region) compartments b
          (set_region region st))) \<subseteq> tmpfiles st" for b
  proof (rule for_each_final [where P = "\<lambda>s. tmpfiles s \<subseteq> tmpfiles st"])
    show "tmpfiles (set_region region st) \<subseteq> tmpfiles st" by (simp add: set_region_def)
  next
    fix x b and s :: state
    assume "tmpfiles s \<subseteq> tmpfiles st"
    then show "tmpfiles (final_state (cv_oke_compartment env filename region x b s)) \<subseteq> tmpfiles st"
      using oke_compartment_tmpfiles [of env filename region x b s] by blast
  qed
  then show ?thesis
    by (simp add: cv_oke_region_def final_state_and_then_Ok)
qed

lemma oke_run_tmpfiles:
  "tmpfiles (final_state (cv_get_oke_cluster_info env filename regions compartments st))
     \<subseteq> tmpfiles st"
proof -
  have loop: "tmpfiles (final_state (for_each (cv_oke_region env filename cs) rs l st))
      \<subseteq> tmpfiles st" for cs rs l
  proof (rule for_each_final [where P = "\<lambda>s. tmpfiles s \<subseteq> tmpfiles st"])
    show "tmpfiles st \<subseteq> tmpfiles st" by simp
  next
    fix x b and s :: state
    assume "tmpfiles s \<subseteq> tmpfiles st"
    then show "tmpfiles (final_state (cv_oke_region env filename cs x b s)) \<subseteq> tmpfiles st"
      using oke_region_tmpfiles [of env filename cs x b s] by blast
  qed
  have tail: "tmpfiles (final_state
      (and_then (cv_write_grand_total filename w s)
         (\<lambda>_ st2. and_then (cv_dump_summary filename w sums st2)
            (\<lambda>_. format_workbook filename)))) = tmpfiles s" for w s sums
  proof (cases "cv_write_grand_total filename w s")
    case (Ok u s1)
    have s1: "tmpfiles s1 = tmpfiles s" using tmpfiles_writers(3) [of filename w s] Ok by simp
    show ?thesis
    proof (cases "cv_dump_summary filename w sums s1")
      case (Ok u2 s2)
      have "tmpfiles s2 = tmpfiles s1" using tmpfiles_writers(2) [of filename w sums s1] Ok by simp
      then show ?thesis
        using \<open>cv_write_grand_total filename w s = Ok u s1\<close> Ok s1
          tmpfiles_writers(4) [of filename s2] by simp
    next
      case (Raised e s2)
      then show ?thesis
        using \<open>cv_write_grand_total filename w s = Ok u s1\<close> s1
          tmpfiles_writers(2) [of filename w sums s1] by simp
    qed
  next
    case (Raised e s1)
    then show ?thesis using tmpfiles_writers(3) [of filename w s] by simp
  qed
  have "tmpfiles (final_state
      (and_then (for_each (cv_oke_region env filename cs) rs [] st)
         (\<lambda>oke_summary_list st1.
            and_then (cv_write_grand_total filename ''oke_clusters'' st1)
              (\<lambda>_ st2.
                 and_then
                   (cv_dump_summary filename ''oke_clusters''
                      (map ClusterSum oke_summary_list) st2)
                   (\<lambda>_. format_workbook filename))))) \<subseteq> tmpfiles st" for cs rs
    by (rule final_state_and_then_subset [OF loop]) (rule tail)
  then show ?thesis
    by (simp add: cv_get_oke_cluster_info_def split: sum.splits)
qed

subsection \<open>C8: initialising twice\<close>

text \<open>
  C8. Store initialization is idempotent: \<^verbatim>\<open>init_excel\<close> on a workbook file that already
  exists returns without touching the state, in both files: no header is written again
  and no row of the workbook is lost. In particular a second call after a first one leaves
  what the first one left.
\<close>

theorem init_excel_idempotent:
  "(files st filename \<noteq> None \<longrightarrow>
      cs_init_excel filename workload st = Ok () st \<and>
      cv_init_excel filename workload st = Ok () st) \<and>
   final_state (cs_init_excel filename workload (final_state (cs_init_excel filename workload st)))
     = final_state (cs_init_excel filename workload st) \<and>
   final_state (cv_init_excel filename workload (final_state (cv_init_excel filename workload st)))
     = final_state (cv_init_excel filename workload st)"
proof -
  have cs: "final_state (cs_init_excel filename workload (final_state (cs_init_excel filename workload st)))
      = final_state (cs_init_excel filename workload st)"
  proof (cases "cs_init_excel filename workload st")
    case (Ok u st1)
    then show ?thesis using cs_init_excel_existing [OF cs_init_excel_creates [OF Ok]] by simp
  next
    case (Raised e st1)
    then have "st1 = st" by (auto simp: cs_init_excel_def split: if_splits sum.splits)
    then show ?thesis using Raised by simp
  qed
  have cv: "final_state (cv_init_excel filename workload (final_state (cv_init_excel filename workload st)))
      = final_state (cv_init_excel filename workload st)"
  proof (cases "cv_init_excel filename workload st")
    case (Ok u st1)
    then show ?thesis using cv_init_excel_existing [OF cv_init_excel_creates [OF Ok]] by simp
  next
    case (Raised e st1)
    then have "st1 = st" by (auto simp: cv_init_excel_def split: if_splits sum.splits)
    then show ?thesis using Raised by simp
  qed
  show ?thesis using cs cv cs_init_excel_existing cv_init_excel_existing by blast
qed

theorem init_excel_idempotent_witness:
  "files (cs_start ''instances'') ''report.xlsx'' \<noteq> None \<and>
   cs_init_excel ''report.xlsx'' ''instances'' (cs_start ''instances'') = Ok () (cs_start ''instances'') \<and>
   cv_init_excel ''report.xlsx'' ''instances'' (cs_start ''instances'') = Ok () (cs_start ''instances'') \<and>
   sheet_of (cs_start ''instances'') ''report.xlsx'' ''InstanceSummary'' =
     Some [plain_row [CStr ''Region'', CStr ''Compartment ID'', CStr ''Instance Count'',
                      CStr ''Total Size (GB)'', CStr ''Total Size (TB)'']]"
proof -
  have h: "files (cs_start ''instances'') ''report.xlsx'' \<noteq> None"
    by (simp add: cs_start_def cs_init_excel_def initial_state_def cs_get_sheet_info_def save_def)
  have s: "sheet_of (cs_start ''instances'') ''report.xlsx'' ''InstanceSummary'' =
     Some [plain_row [CStr ''Region'', CStr ''Compartment ID'', CStr ''Instance Count'',
                      CStr ''Total Size (GB)'', CStr ''Total Size (TB)'']]"
    by code_simp
  show ?thesis
    using h s init_excel_idempotent [of "cs_start ''instances''" "''report.xlsx''" "''instances''"]
    by simp
qed

subsection \<open>C9: the kubeconfig file\<close>

text \<open>
  C9. For every OKE cluster processed, the kubeconfig file written for it is removed after
  the cluster's inventory step on every path: whatever \<^verbatim>\<open>create-kubeconfig\<close> and the two
  \<^verbatim>\<open>kubectl\<close> queries answer, the step leaves on disk what was there before, without the
  cluster's kubeconfig file. A whole run therefore leaves no file that was not there
  before it.
\<close>

theorem kubeconfig_removed:
  "tmpfiles (snd (cv_cluster_inventory env region profile cluster ci st)) =
     tmpfiles st - {kubeconfig_file (cl_id cluster)} \<and>
   tmpfiles (final_state (cv_get_oke_cluster_info env filename regions compartments st))
     \<subseteq> tmpfiles st"
  using cluster_inventory_tmpfiles oke_run_tmpfiles by blast

theorem kubeconfig_removed_witness:
  "tmpfiles (snd (cv_cluster_inventory demo_cloud ''r1'' ''DEFAULT''
       \<lparr>cl_id = ''k1'', cl_name = ''prod'', cl_kubernetes_version = ''v1.29'',
        cl_lifecycle_state = ''ACTIVE''\<rparr>
       (new_cluster_info ''r1''
          \<lparr>cl_id = ''k1'', cl_name = ''prod'', cl_kubernetes_version = ''v1.29'',
           cl_lifecycle_state = ''ACTIVE''\<rparr>)
       (cv_start ''oke_clusters''))) = {} \<and>
   tmpfiles (final_state (cv_get_oke_cluster_info demo_cloud ''report.xlsx'' [] []
       (cv_start ''oke_clusters''))) = {}"
proof -
  have e: "tmpfiles (cv_start ''oke_clusters'') = {}"
    by (simp add: cv_start_def cv_init_excel_def initial_state_def cv_get_sheet_info_def save_def)
  show ?thesis
    using kubeconfig_removed [of demo_cloud "''r1''" "''DEFAULT''"
        "\<lparr>cl_id = ''k1'', cl_name = ''prod'', cl_kubernetes_version = ''v1.29'',
          cl_lifecycle_state = ''ACTIVE''\<rparr>"
        "new_cluster_info ''r1''
          \<lparr>cl_id = ''k1'', cl_name = ''prod'', cl_kubernetes_version = ''v1.29'',
           cl_lifecycle_state = ''ACTIVE''\<rparr>"
        "cv_start ''oke_clusters''" "''report.xlsx''" "[]" "[]"]
    by (simp add: e)
qed

subsection \<open>C7: terminal resources\<close>

lemma live_listing_fields [simp]:
  "create_kubeconfig (live_listing env) = create_kubeconfig env"
  "kubectl_get_pvc (live_listing env) = kubectl_get_pvc env"
  "kubectl_get_nodes (live_listing env) = kubectl_get_nodes env"
  "list_region_subscriptions (live_listing env) = list_region_subscriptions env"
  "list_compartments (live_listing env) = list_compartments env"
  by (simp_all add: live_listing_def)

lemma live_listing_cluster_info:
  "cluster_info_of (live_listing env) region profile c = cluster_info_of env region profile c"
  by (simp add: cluster_info_of_def read_nodes_def
      split: kubeconfig_result.splits sum.splits prod.splits option.splits)

lemma live_listing_cluster_step:
  "cv_cluster_step (live_listing env) region = cv_cluster_step env region"
proof -
  have "cv_cluster_step (live_listing env) region (s, l, st) c =
      cv_cluster_step env region (s, l, st) c" for s l st c
    by (simp add: cv_cluster_step_eq live_listing_cluster_info)
  then show ?thesis by (simp add: fun_eq_iff)
qed

lemma live_listing_oke_compartment:
  "cv_oke_compartment (live_listing env) filename region = cv_oke_compartment env filename region"
proof -
  have "cv_oke_compartment (live_listing env) filename region c s st =
      cv_oke_compartment env filename region c s st" for c s st
  proof (cases "list_clusters env region c")
    case (Inl e)
    then show ?thesis by (simp add: cv_oke_compartment_def live_listing_def)
  next
    case (Inr clusters)
    have l: "list_clusters (live_listing env) region c = Inr (filter live_cluster clusters)"
      using Inr by (simp add: live_listing_def)
    show ?thesis
      by (simp add: cv_oke_compartment_def l Inr live_listing_cluster_step cluster_loop_eq)
  qed
  then show ?thesis by (simp add: fun_eq_iff)
qed

lemma live_listing_defaults:
  "default_regions (live_listing env) = default_regions env"
  "default_compartments (live_listing env) = default_compartments env"
  by (simp_all add: fun_eq_iff default_regions_def default_compartments_def
      cong: option.case_cong)

lemma live_listing_oke_run:
  "cv_get_oke_cluster_info (live_listing env) = cv_get_oke_cluster_info env"
proof -
  have r: "cv_oke_region (live_listing env) = cv_oke_region env"
    by (simp add: fun_eq_iff cv_oke_region_def live_listing_oke_compartment)
  show ?thesis
    by (simp add: fun_eq_iff cv_get_oke_cluster_info_def live_listing_defaults r
        cong: sum.case_cong)
qed

lemma list_all_live_states:
  "list_all (\<lambda>r. ii_state r \<noteq> ''TERMINATED'')
     (map (cs_instance_info_of env region compartment) (filter live_instance instances))"
  "list_all (\<lambda>r. ii_state r \<noteq> ''TERMINATED'')
     (map (cv_instance_info_of env region compartment) (filter live_instance instances))"
  by (simp_all add: list_all_iff cs_instance_info_of_def cv_instance_info_of_def
      live_instance_def Let_def)

subsection \<open>C5: a secondary lookup that fails\<close>

lemma block_volume_sum:
  "foldl (\<lambda>total_size volume_id.
            case get_volume env region volume_id of
              Inl e \<Rightarrow> total_size
            | Inr volume_info \<Rightarrow> total_size + vol_size_in_gbs volume_info) a vols =
     a + sum_list (map (\<lambda>v. case get_volume env region v of
                               Inl e \<Rightarrow> 0 | Inr volume_info \<Rightarrow> vol_size_in_gbs volume_info) vols)"
  by (induction vols arbitrary: a) (simp_all split: sum.splits)

text \<open>
  C5, as the code has it. A volume lookup that fails for an instance degrades that
  volume's size to zero and the instance keeps its detail record and its place in the
  count: the loop over the instances of a scope appends one record for every instance
  that is not terminated, whatever the volume lookups answer; a failed listing of the
  attachments or a failed read of the boot volume gives size 0, and a block volume that
  cannot be read adds 0 to the size. A bucket whose stats cannot be fetched is skipped:
  the iteration leaves the summary, the list of detail records and the counters as they
  were.
\<close>

theorem secondary_lookup_failures:
  "(get_bucket env region namespace b = Inl e \<longrightarrow>
      bucket_step env region namespace compartment acc b = acc) \<and>
   length (fst (snd (foldl (cs_instance_step env region compartment) (s, [], st) instances)))
     = length (filter live_instance instances) \<and>
   is_instance_count (fst (foldl (cs_instance_step env region compartment) (s, [], st) instances))
     = is_instance_count s + int (length (filter live_instance instances)) \<and>
   (list_boot_volume_attachments env region iid ad cid = Inl e1 \<longrightarrow>
      cs_get_boot_volume_size env region iid ad cid = 0) \<and>
   (list_boot_volume_attachments env region iid ad cid = Inr (v # vs) \<longrightarrow>
      get_boot_volume env region v = Inl e2 \<longrightarrow>
      cs_get_boot_volume_size env region iid ad cid = 0) \<and>
   (list_volume_attachments env region iid ad cid = Inl e3 \<longrightarrow>
      cs_get_block_volume_count_and_size env region iid ad cid = (0, 0)) \<and>
   (list_volume_attachments env region iid ad cid = Inr vols \<longrightarrow>
      snd (cs_get_block_volume_count_and_size env region iid ad cid) =
        sum_list (map (\<lambda>v. case get_volume env region v of
                              Inl e \<Rightarrow> 0 | Inr volume_info \<Rightarrow> vol_size_in_gbs volume_info) vols)) \<and>
   ii_sizeGB (cs_instance_info_of env region compartment i) =
     cs_get_boot_volume_size env region (inst_id i) (inst_availability_domain i)
       (inst_compartment_id i) +
     snd (cs_get_block_volume_count_and_size env region (inst_id i) (inst_availability_domain i)
       (inst_compartment_id i))"
proof -
  have a: "get_bucket env region namespace b = Inl e \<longrightarrow>
      bucket_step env region namespace compartment acc b = acc"
    by (cases acc) (simp add: bucket_step_def)
  have b: "length (fst (snd (foldl (cs_instance_step env region compartment) (s, [], st) instances)))
     = length (filter live_instance instances)"
    by (simp add: cs_instance_loop_eq)
  have c: "is_instance_count (fst (foldl (cs_instance_step env region compartment) (s, [], st) instances))
     = is_instance_count s + int (length (filter live_instance instances))"
    by (simp add: cs_instance_loop_eq add_instances_def)
  have d: "list_boot_volume_attachments env region iid ad cid = Inl e1 \<longrightarrow>
      cs_get_boot_volume_size env region iid ad cid = 0"
    by (simp add: cs_get_boot_volume_size_def)
  have e: "list_boot_volume_attachments env region iid ad cid = Inr (v # vs) \<longrightarrow>
      get_boot_volume env region v = Inl e2 \<longrightarrow>
      cs_get_boot_volume_size env region iid ad cid = 0"
    by (simp add: cs_get_boot_volume_size_def)
  have f: "list_volume_attachments env region iid ad cid = Inl e3 \<longrightarrow>
      cs_get_block_volume_count_and_size env region iid ad cid = (0, 0)"
    by (simp add: cs_get_block_volume_count_and_size_def)
  have g: "list_volume_attachments env region iid ad cid = Inr vols \<longrightarrow>
      snd (cs_get_block_volume_count_and_size env region iid ad cid) =
        sum_list (map (\<lambda>v. case get_volume env region v of
                              Inl e \<Rightarrow> 0 | Inr volume_info \<Rightarrow> vol_size_in_gbs volume_info) vols)"
    by (simp add: cs_get_block_volume_count_and_size_def block_volume_sum)
  have h: "ii_sizeGB (cs_instance_info_of env region compartment i) =
     cs_get_boot_volume_size env region (inst_id i) (inst_availability_domain i)
       (inst_compartment_id i) +
     snd (cs_get_block_volume_count_and_size env region (inst_id i) (inst_availability_domain i)
       (inst_compartment_id i))"
    by (simp add: cs_instance_info_of_def Let_def)
  from a b c d e f g h show ?thesis by blast
qed

theorem secondary_lookup_failures_witness:
  "get_bucket demo_cloud ''r1'' ''ns'' ''b3'' = Inl ServiceError \<and>
   bucket_step demo_cloud ''r1'' ''ns'' ''c1''
     (new_bucket_summary None None None, [], cs_start ''object_storage'') ''b3'' =
     (new_bucket_summary None None None, [], cs_start ''object_storage'') \<and>
   list_volume_attachments demo_cloud ''r1'' ''i2'' ''AD-1'' ''c1'' = Inr [''vol-1''] \<and>
   snd (cs_get_block_volume_count_and_size demo_cloud ''r1'' ''i2'' ''AD-1'' ''c1'') = 0"
proof -
  have h1: "get_bucket demo_cloud ''r1'' ''ns'' ''b3'' = Inl ServiceError"
    by (simp add: demo_cloud_def)
  have h2: "list_volume_attachments demo_cloud ''r1'' ''i2'' ''AD-1'' ''c1'' = Inr [''vol-1'']"
    by (simp add: demo_cloud_def)
  have h3: "get_volume demo_cloud ''r1'' ''vol-1'' = Inl ServiceError"
    by (simp add: demo_cloud_def)
  note t = secondary_lookup_failures [of demo_cloud "''r1''" "''ns''" "''b3''" ServiceError
      "''c1''" "(new_bucket_summary None None None, [], cs_start ''object_storage'')"
      _ _ _ "''i2''" "''AD-1''" "''c1''" _ _ _ _ _ "[''vol-1'']"]
  have b: "bucket_step demo_cloud ''r1'' ''ns'' ''c1''
     (new_bucket_summary None None None, [], cs_start ''object_storage'') ''b3'' =
     (new_bucket_summary None None None, [], cs_start ''object_storage'')"
    using t h1 by blast
  have v: "snd (cs_get_block_volume_count_and_size demo_cloud ''r1'' ''i2'' ''AD-1'' ''c1'') =
      sum_list (map (\<lambda>v. case get_volume demo_cloud ''r1'' v of
                              Inl e \<Rightarrow> 0 | Inr volume_info \<Rightarrow> vol_size_in_gbs volume_info) [''vol-1''])"
    using t h2 by blast
  have v0: "snd (cs_get_block_volume_count_and_size demo_cloud ''r1'' ''i2'' ''AD-1'' ''c1'') = 0"
    using v h3 by simp
  show ?thesis using h1 b h2 v0 by blast
qed

theorem bucket_stats_failure_counterexample:
  "list_buckets demo_cloud ''r1'' ''ns'' ''c1'' = Inr [''b1'', ''b2'', ''b3'', ''b4'', ''b5''] \<and>
   get_bucket demo_cloud ''r1'' ''ns'' ''b3'' = Inl ServiceError \<and>
   sheet_of (final_state (cs_get_object_storage_info demo_cloud ''report.xlsx'' [] []
       (cs_start ''object_storage''))) ''report.xlsx'' ''ObjectStorageInfo'' =
     Some
      [\<lparr>cells =
          [CStr ''Namespace'', CStr ''Compartment ID'', CStr ''Bucket Name'',
           CStr ''Region'', CStr ''Storage Tier'', CStr ''Object Count'',
           CStr ''Size (GB)'', CStr ''Size (TB)'', CStr ''Defined Tags'',
           CStr ''Freeform Tags''],
          bold = True, fill = True\<rparr>,
       plain_row
          [CStr ''ns'', CStr ''c1'', CStr ''b1'', CStr ''r1'', CStr ''Standard'', CInt 7,
           CDec 60000, CDec 59, CStr ''{}'', CStr ''{}''],
       plain_row
          [CStr ''ns'', CStr ''c1'', CStr ''b2'', CStr ''r1'', CStr ''Standard'', CInt 7,
           CDec 60000, CDec 59, CStr ''{}'', CStr ''{}''],
       plain_row
          [CStr ''ns'', CStr ''c1'', CStr ''b4'', CStr ''r1'', CStr ''Standard'', CInt 7,
           CDec 60000, CDec 59, CStr ''{}'', CStr ''{}''],
       plain_row
          [CStr ''ns'', CStr ''c1'', CStr ''b5'', CStr ''r1'', CStr ''Standard'', CInt 7,
           CDec 60000, CDec 59, CStr ''{}'', CStr ''{}'']] \<and>
   sheet_of (final_state (cs_get_object_storage_info demo_cloud ''report.xlsx'' [] []
       (cs_start ''object_storage''))) ''report.xlsx'' ''ObjectStorageSummary'' =
     Some
      [\<lparr>cells =
          [CStr ''Namespace'', CStr ''Region'', CStr ''Compartment ID'',
           CStr ''Bucket Count'', CStr ''Total Size (GB)'', CStr ''Total Size (TB)''],
          bold = True, fill = True\<rparr>,
       plain_row [CStr ''ns'', CStr ''r1'', CStr ''c1'', CInt 4, CDec 240000, CDec 236],
       plain_row [CStr ''Grand Total'', CStr [], CInt 4, CDec 240000, CDec 236]]"
  by code_simp

subsection \<open>C6: a listing that fails\<close>

text \<open>
  C6 at a failing input. The instances of compartment \<open>c2\<close> cannot be listed:
  \<^verbatim>\<open>get_instance_info\<close> of both files raises the provider's error at that compartment.
  In \<^verbatim>\<open>oci_cs.py\<close> the summary sheet holds the header and the row of \<open>c1\<close> and no grand
  total; in \<^verbatim>\<open>CVOracleCloudSizingScript.py\<close> it holds the header only. The sibling
  \<^verbatim>\<open>get_oke_cluster_info\<close>, whose clusters of \<open>c2\<close> cannot be listed either, skips the
  compartment and completes.
\<close>

theorem list_instances_failure_aborts:
  "(case cs_get_instance_info demo_cloud ''report.xlsx'' [] [] (cs_start ''instances'') of
      Ok u st \<Rightarrow> None
    | Raised e st \<Rightarrow> Some (e, sheet_of st ''report.xlsx'' ''InstanceSummary'')) =
     Some (ServiceError,
       Some [plain_row [CStr ''Region'', CStr ''Compartment ID'', CStr ''Instance Count'',
                        CStr ''Total Size (GB)'', CStr ''Total Size (TB)''],
             plain_row [CStr ''r1'', CStr ''c1'', CInt 2, CInt 1200, CDec 118]]) \<and>
   (case cv_get_instance_info demo_cloud ''report.xlsx'' [] [] (cv_start ''instances'') of
      Ok u st \<Rightarrow> None
    | Raised e st \<Rightarrow> Some (e, sheet_of st ''report.xlsx'' ''Instance Summary'')) =
     Some (ServiceError,
       Some [plain_row [CStr ''Region'', CStr ''Instance Count'', CStr ''Total Size (GB)'',
                        CStr ''Total Size (TB)'']]) \<and>
   (case cv_get_oke_cluster_info demo_cloud ''report.xlsx'' [] [] (cv_start ''oke_clusters'') of
      Ok u st \<Rightarrow> map_option length (sheet_of st ''report.xlsx'' ''OKE Cluster Summary'')
    | Raised e st \<Rightarrow> None) = Some 3"
  by code_simp

subsection \<open>C1: the TB fields\<close>

lemma round_half_even_zero [simp]: "round_half_even 0 1024 = 0"
  by (simp add: round_half_even_def)

lemma round2_dec_quot_zero [simp]: "round2_dec_quot 0 d = 0"
  by (simp add: round2_dec_quot_def binary64_def float_div_def round2_float_def shifted_def
      round_half_even_def)

lemma bucket_info_tb:
  "oi_sizeTB (bucket_info_of region namespace compartment b stats) =
     round2_dec_quot (oi_sizeGB (bucket_info_of region namespace compartment b stats)) 1024"
  by (simp add: bucket_info_of_def Let_def)

lemma bucket_records_tb:
  "list_all (\<lambda>r. oi_sizeTB r = round2_dec_quot (oi_sizeGB r) 1024)
     (bucket_records env region namespace compartment buckets)"
  by (induction buckets)
    (simp_all add: bucket_records_def bucket_info_tb split: sum.splits)

subsection \<open>Loops whose local variables change by a relation\<close>

lemma for_each_rel:
  fixes G :: "'d \<Rightarrow> state \<Rightarrow> state"
  assumes run: "for_each body xs b st = Ok b' st'"
    and step: "\<And>x b st b' st'. x \<in> set xs \<Longrightarrow> body x b st = Ok b' st' \<Longrightarrow>
                 \<exists>d. R d b b' \<and> st' = G d st"
    and dz: "\<And>b. R dz b b" "\<And>st. G dz st = st"
    and join: "\<And>d1 d2 b b1 b2. R d1 b b1 \<Longrightarrow> R d2 b1 b2 \<Longrightarrow> R (join d1 d2) b b2"
      "\<And>d1 d2 st. G d2 (G d1 st) = G (join d1 d2) st"
  shows "\<exists>d. R d b b' \<and> st' = G d st"
  using run step
proof (induction xs arbitrary: b st)
  case Nil
  then have "R dz b b' \<and> st' = G dz st" using dz by simp
  then show ?case by blast
next
  case (Cons x xs)
  from Cons.prems(1) obtain b1 st1 where
    first: "body x b st = Ok b1 st1" and rest: "for_each body xs b1 st1 = Ok b' st'"
    by (auto split: outcome.splits)
  from Cons.prems(2) [OF _ first] obtain d1 where
    d1: "R d1 b b1" "st1 = G d1 st" by auto
  have "\<exists>d. R d b1 b' \<and> st' = G d st1"
  proof (rule Cons.IH [OF rest])
    fix y c s c' s'
    assume "y \<in> set xs" "body y c s = Ok c' s'"
    then show "\<exists>d. R d c c' \<and> s' = G d s"
      using Cons.prems(2) [of y c s c' s'] by simp
  qed
  then obtain d2 where d2: "R d2 b1 b'" "st' = G d2 st1" by auto
  have "R (join d1 d2) b b' \<and> st' = G (join d1 d2) st"
    using d1 d2 join(1) [OF d1(1) d2(1)] join(2) by simp
  then show ?case by blast
qed

lemma for_each_region_rel:
  fixes G :: "'d \<Rightarrow> state \<Rightarrow> state"
  assumes run: "for_each body rs b st = Ok b' st'"
    and step: "\<And>r b st b' st'. r \<in> set rs \<Longrightarrow> body r b st = Ok b' st' \<Longrightarrow>
                 \<exists>d. R d b b' \<and> st' = G d (set_region r st)"
    and dz: "\<And>b. R dz b b" "\<And>st. G dz st = st"
    and join: "\<And>d1 d2 b b1 b2. R d1 b b1 \<Longrightarrow> R d2 b1 b2 \<Longrightarrow> R (join d1 d2) b b2"
      "\<And>d1 d2 st. G d2 (G d1 st) = G (join d1 d2) st"
    and comm: "\<And>d r st. set_region r (G d st) = G d (set_region r st)"
  shows "\<exists>d. R d b b' \<and> st' = G d (after_regions rs st)"
  using run step
proof (induction rs arbitrary: b st)
  case Nil
  then have "R dz b b' \<and> st' = G dz (after_regions [] st)" using dz by simp
  then show ?case by blast
next
  case (Cons r rs)
  from Cons.prems(1) obtain b1 st1 where
    first: "body r b st = Ok b1 st1" and rest: "for_each body rs b1 st1 = Ok b' st'"
    by (auto split: outcome.splits)
  from Cons.prems(2) [OF _ first] obtain d1 where
    d1: "R d1 b b1" "st1 = G d1 (set_region r st)" by auto
  have "\<exists>d. R d b1 b' \<and> st' = G d (after_regions rs st1)"
  proof (rule Cons.IH [OF rest])
    fix y c s c' s'
    assume "y \<in> set rs" "body y c s = Ok c' s'"
    then show "\<exists>d. R d c c' \<and> s' = G d (set_region y s)"
      using Cons.prems(2) [of y c s c' s'] by simp
  qed
  then obtain d2 where d2: "R d2 b1 b'" "st' = G d2 (after_regions rs st1)" by auto
  have move: "after_regions rs (G d1 (set_region r st)) = G d1 (after_regions (r # rs) st)"
    using comm [of "last rs" d1 "set_region r st"]
    by (simp add: after_regions_def)
  have "R (join d1 d2) b b' \<and> st' = G (join d1 d2) (after_regions (r # rs) st)"
    using d1 d2 join(1) [OF d1(1) d2(1)] join(2) move by simp
  then show ?case by blast
qed

subsection \<open>Object storage in \<^verbatim>\<open>oci_cs.py\<close>\<close>

lemma cs_bucket_report_Nil [simp]: "cs_bucket_report filename [] st = st"
  by (simp add: cs_bucket_report_def)

lemma cs_bucket_report_append:
  "cs_bucket_report filename d2 (cs_bucket_report filename d1 st) =
     cs_bucket_report filename (d1 @ d2) st"
proof -
  have ne: "''ObjectStorageInfo'' \<noteq> ''ObjectStorageSummary''" by simp
  show ?thesis
    unfolding cs_bucket_report_def
    by (simp add: append_rows_swap [OF ne])
qed

lemma cs_bucket_report_region:
  "set_region r (cs_bucket_report filename d st) = cs_bucket_report filename d (set_region r st)"
  by (simp add: cs_bucket_report_def)

lemma bucket_scope_new:
  "bucket_scope
     (add_buckets recs \<lparr>os_region = a, os_namespace = b, os_compartment_id = c,
        os_bucket_count = 0, os_total_storage_GB = 0, os_total_storage_TB = 0\<rparr>) recs"
  by (simp add: bucket_scope_def add_buckets_def)

lemma cs_os_compartment_Ok:
  assumes "cs_os_compartment env filename region namespace compartment u st = Ok u' st'"
  shows "\<exists>scopes. list_all (\<lambda>scope. bucket_scope (fst scope) (snd scope)) scopes \<and>
           st' = cs_bucket_report filename scopes st"
proof (cases "list_buckets env region namespace compartment")
  case (Inl e)
  with assms have "st' = cs_bucket_report filename [] st"
    by (simp add: cs_os_compartment_def)
  then show ?thesis by (intro exI [of _ "[]"]) simp
next
  case (Inr buckets)
  show ?thesis
  proof (cases "buckets = []")
    case True
    with assms Inr have "st' = cs_bucket_report filename [] st"
      by (simp add: cs_os_compartment_def)
    then show ?thesis by (intro exI [of _ "[]"]) simp
  next
    case False
    define s0 where "s0 = \<lparr>os_region = Some region, os_namespace = Some namespace,
             os_compartment_id = Some compartment, os_bucket_count = 0,
             os_total_storage_GB = 0, os_total_storage_TB = 0\<rparr>"
    define recs where "recs = bucket_records env region namespace compartment buckets"
    from assms Inr False have run:
      "and_then (cs_dump_info filename ''object_storage'' (map Bucket recs) (count_buckets recs st))
         (\<lambda>_. cs_dump_summary filename ''object_storage'' (BucketSum (add_buckets recs s0)))
       = Ok u' st'"
      by (simp add: cs_os_compartment_def bucket_loop_eq s0_def recs_def)
    then obtain u1 st1 where
      a: "cs_dump_info filename ''object_storage'' (map Bucket recs) (count_buckets recs st) = Ok u1 st1"
      and b: "cs_dump_summary filename ''object_storage'' (BucketSum (add_buckets recs s0)) st1 = Ok u' st'"
      by (auto simp: and_then_Ok)
    have "st' = cs_bucket_report filename [(add_buckets recs s0, recs)] st"
      using cs_dump_info_buckets [OF a] cs_dump_summary_buckets [OF b]
      by (simp add: cs_bucket_report_def comp_def)
    moreover have "bucket_scope (add_buckets recs s0) recs"
      unfolding s0_def by (rule bucket_scope_new)
    ultimately show ?thesis
      by (intro exI [of _ "[(add_buckets recs s0, recs)]"]) simp
  qed
qed

lemma cs_os_region_Ok:
  assumes "cs_os_region env filename compartments region u st = Ok u' st'"
  shows "\<exists>scopes. list_all (\<lambda>scope. bucket_scope (fst scope) (snd scope)) scopes \<and>
           st' = cs_bucket_report filename scopes (set_region region st)"
proof (cases "get_namespace env region")
  case (Inl e)
  with assms have "st' = cs_bucket_report filename [] (set_region region st)"
    by (simp add: cs_os_region_def)
  then show ?thesis by (intro exI [of _ "[]"]) simp
next
  case (Inr namespace)
  with assms have run:
    "for_each (cs_os_compartment env filename region namespace) compartments ()
       (set_region region st) = Ok u' st'"
    by (simp add: cs_os_region_def)
  show ?thesis
    by (rule for_each_rel [OF run, where dz = "[]" and join = "(@)"
          and R = "\<lambda>d b b'. list_all (\<lambda>scope. bucket_scope (fst scope) (snd scope)) d"
          and G = "cs_bucket_report filename"])
      (auto dest: cs_os_compartment_Ok simp: cs_bucket_report_append)
qed

lemma cs_os_regions_Ok:
  assumes "for_each (cs_os_region env filename compartments) regions u st = Ok u' st'"
  shows "\<exists>scopes. list_all (\<lambda>scope. bucket_scope (fst scope) (snd scope)) scopes \<and>
           st' = cs_bucket_report filename scopes (after_regions regions st)"
  by (rule for_each_region_rel [OF assms, where dz = "[]" and join = "(@)"
        and R = "\<lambda>d b b'. list_all (\<lambda>scope. bucket_scope (fst scope) (snd scope)) d"
        and G = "cs_bucket_report filename"])
    (auto dest: cs_os_region_Ok simp: cs_bucket_report_append cs_bucket_report_region)


subsection \<open>Instances in \<^verbatim>\<open>oci_cs.py\<close>\<close>

lemma cs_instance_report_Nil [simp]: "cs_instance_report filename [] st = st"
  by (simp add: cs_instance_report_def)

lemma cs_instance_report_append:
  "cs_instance_report filename d2 (cs_instance_report filename d1 st) =
     cs_instance_report filename (d1 @ d2) st"
proof -
  have ne: "''InstanceInfo'' \<noteq> ''InstanceSummary''" by simp
  show ?thesis
    unfolding cs_instance_report_def
    by (simp add: append_rows_swap [OF ne])
qed

lemma cs_instance_report_region:
  "set_region r (cs_instance_report filename d st) =
     cs_instance_report filename d (set_region r st)"
  by (simp add: cs_instance_report_def)

lemma instance_scope_new:
  "instance_scope
     (add_instances recs \<lparr>is_region = a, is_compartment_id = c, is_instance_count = 0,
        is_total_sizeGB = 0, is_total_sizeTB = 0\<rparr>) recs"
  by (simp add: instance_scope_def add_instances_def)

lemma cs_instance_compartment_Ok:
  assumes "cs_instance_compartment env filename region compartment u st = Ok u' st'"
  shows "\<exists>scopes. list_all (\<lambda>scope. instance_scope (fst scope) (snd scope)) scopes \<and>
           st' = cs_instance_report filename scopes st"
proof (cases "list_instances env region compartment")
  case (Inl e)
  with assms show ?thesis by (simp add: cs_instance_compartment_def)
next
  case (Inr instances)
  show ?thesis
  proof (cases "instances = []")
    case True
    with assms Inr have "st' = cs_instance_report filename [] st"
      by (simp add: cs_instance_compartment_def)
    then show ?thesis by (intro exI [of _ "[]"]) simp
  next
    case False
    define s0 where "s0 = \<lparr>is_region = Some region, is_compartment_id = Some compartment,
             is_instance_count = 0, is_total_sizeGB = 0, is_total_sizeTB = 0\<rparr>"
    define recs where
      "recs = map (cs_instance_info_of env region compartment) (filter live_instance instances)"
    from assms Inr False have run:
      "and_then (cs_dump_info filename ''instances'' (map Instance recs) (count_instances recs st))
         (\<lambda>_. cs_dump_summary filename ''instances'' (InstanceSum (add_instances recs s0)))
       = Ok u' st'"
      by (simp add: cs_instance_compartment_def cs_instance_loop_eq s0_def recs_def)
    then obtain u1 st1 where
      a: "cs_dump_info filename ''instances'' (map Instance recs) (count_instances recs st) = Ok u1 st1"
      and b: "cs_dump_summary filename ''instances'' (InstanceSum (add_instances recs s0)) st1 = Ok u' st'"
      by (auto simp: and_then_Ok)
    have "st' = cs_instance_report filename [(add_instances recs s0, recs)] st"
      using cs_dump_info_instances [OF a] cs_dump_summary_instances [OF b]
      by (simp add: cs_instance_report_def comp_def)
    moreover have "instance_scope (add_instances recs s0) recs"
      unfolding s0_def by (rule instance_scope_new)
    ultimately show ?thesis
      by (intro exI [of _ "[(add_instances recs s0, recs)]"]) simp
  qed
qed

lemma cs_instance_region_Ok:
  assumes "cs_instance_region env filename compartments region u st = Ok u' st'"
  shows "\<exists>scopes. list_all (\<lambda>scope. instance_scope (fst scope) (snd scope)) scopes \<and>
           st' = cs_instance_report filename scopes (set_region region st)"
proof -
  from assms have run:
    "for_each (cs_instance_compartment env filename region) compartments ()
       (set_region region st) = Ok u' st'"
    by (simp add: cs_instance_region_def)
  show ?thesis
    by (rule for_each_rel [OF run, where dz = "[]" and join = "(@)"
          and R = "\<lambda>d b b'. list_all (\<lambda>scope. instance_scope (fst scope) (snd scope)) d"
          and G = "cs_instance_report filename"])
      (auto dest: cs_instance_compartment_Ok simp: cs_instance_report_append)
qed

lemma cs_instance_regions_Ok:
  assumes "for_each (cs_instance_region env filename compartments) regions u st = Ok u' st'"
  shows "\<exists>scopes. list_all (\<lambda>scope. instance_scope (fst scope) (snd scope)) scopes \<and>
           st' = cs_instance_report filename scopes (after_regions regions st)"
  by (rule for_each_region_rel [OF assms, where dz = "[]" and join = "(@)"
        and R = "\<lambda>d b b'. list_all (\<lambda>scope. instance_scope (fst scope) (snd scope)) d"
        and G = "cs_instance_report filename"])
    (auto dest: cs_instance_region_Ok simp: cs_instance_report_append cs_instance_report_region)

subsection \<open>Object storage in \<^verbatim>\<open>CVOracleCloudSizingScript.py\<close>\<close>

lemma cv_bucket_detail_Nil [simp]: "cv_bucket_detail filename [] st = st"
  by (simp add: cv_bucket_detail_def)

lemma cv_bucket_detail_append:
  "cv_bucket_detail filename r2 (cv_bucket_detail filename r1 st) =
     cv_bucket_detail filename (r1 @ r2) st"
  by (simp add: cv_bucket_detail_def)

lemma cv_bucket_detail_region:
  "set_region r (cv_bucket_detail filename d st) = cv_bucket_detail filename d (set_region r st)"
  by (simp add: cv_bucket_detail_def)

lemma cv_os_compartment_Ok:
  assumes "cv_os_compartment env filename region namespace compartment s st = Ok s' st'"
  shows "\<exists>recs. s' = add_buckets recs s \<and> st' = cv_bucket_detail filename recs st"
proof (cases "list_buckets env region namespace compartment")
  case (Inl e)
  with assms have "s' = add_buckets [] s \<and> st' = cv_bucket_detail filename [] st"
    by (simp add: cv_os_compartment_def)
  then show ?thesis by blast
next
  case (Inr buckets)
  show ?thesis
  proof (cases "buckets = []")
    case True
    with assms Inr have "s' = add_buckets [] s \<and> st' = cv_bucket_detail filename [] st"
      by (simp add: cv_os_compartment_def)
    then show ?thesis by blast
  next
    case False
    define recs where "recs = bucket_records env region namespace compartment buckets"
    from assms Inr False have run:
      "and_then (cv_dump_info filename ''object_storage'' (map Bucket recs) (count_buckets recs st))
         (\<lambda>_. Ok (add_buckets recs s)) = Ok s' st'"
      by (simp add: cv_os_compartment_def bucket_loop_eq recs_def)
    then obtain u1 where
      a: "cv_dump_info filename ''object_storage'' (map Bucket recs) (count_buckets recs st) = Ok u1 st'"
      and b: "s' = add_buckets recs s"
      by (auto simp: and_then_Ok)
    have "st' = cv_bucket_detail filename recs st"
      using cv_dump_info_buckets [OF a] by (simp add: cv_bucket_detail_def comp_def)
    with b show ?thesis by blast
  qed
qed

lemma cv_os_region_Ok:
  assumes "cv_os_region env filename compartments region l st = Ok l' st'"
  shows "\<exists>scopes. (list_all (\<lambda>scope. bucket_scope (fst scope) (snd scope)) scopes \<and>
            l' = l @ map fst scopes) \<and>
           st' = cv_bucket_detail filename (concat (map snd scopes)) (set_region region st)"
proof (cases "get_namespace env region")
  case (Inl e)
  with assms have "(list_all (\<lambda>scope. bucket_scope (fst scope) (snd scope)) [] \<and>
            l' = l @ map fst []) \<and>
           st' = cv_bucket_detail filename (concat (map snd [])) (set_region region st)"
    by (simp add: cv_os_region_def)
  then show ?thesis by blast
next
  case (Inr namespace)
  define s0 where "s0 = \<lparr>os_region = Some region, os_namespace = None, os_compartment_id = None,
             os_bucket_count = 0, os_total_storage_GB = 0, os_total_storage_TB = 0\<rparr>"
  from assms Inr obtain s' where run:
    "for_each (cv_os_compartment env filename region namespace) compartments s0
       (set_region region st) = Ok s' st'" and l': "l' = l @ [s']"
    by (auto simp: cv_os_region_def and_then_Ok s0_def)
  have "\<exists>recs. s' = add_buckets recs s0 \<and>
          st' = cv_bucket_detail filename recs (set_region region st)"
    by (rule for_each_rel [OF run, where dz = "[]" and join = "(@)"
          and R = "\<lambda>d b b'. b' = add_buckets d b"
          and G = "cv_bucket_detail filename"])
      (auto dest: cv_os_compartment_Ok simp: cv_bucket_detail_append)
  then obtain recs where recs: "s' = add_buckets recs s0"
    "st' = cv_bucket_detail filename recs (set_region region st)" by blast
  have "bucket_scope s' recs" unfolding recs(1) s0_def by (rule bucket_scope_new)
  with recs l' have "(list_all (\<lambda>scope. bucket_scope (fst scope) (snd scope)) [(s', recs)] \<and>
            l' = l @ map fst [(s', recs)]) \<and>
           st' = cv_bucket_detail filename (concat (map snd [(s', recs)])) (set_region region st)"
    by simp
  then show ?thesis by blast
qed

lemma cv_os_regions_Ok:
  assumes "for_each (cv_os_region env filename compartments) regions l st = Ok l' st'"
  shows "\<exists>scopes. (list_all (\<lambda>scope. bucket_scope (fst scope) (snd scope)) scopes \<and>
            l' = l @ map fst scopes) \<and>
           st' = cv_bucket_detail filename (concat (map snd scopes)) (after_regions regions st)"
  by (rule for_each_region_rel [OF assms, where dz = "[]" and join = "(@)"
        and R = "\<lambda>d b b'. list_all (\<lambda>scope. bucket_scope (fst scope) (snd scope)) d \<and>
                   b' = b @ map fst d"
        and G = "\<lambda>d. cv_bucket_detail filename (concat (map snd d))"])
    (auto dest: cv_os_region_Ok simp: cv_bucket_detail_append cv_bucket_detail_region)

subsection \<open>Instances in \<^verbatim>\<open>CVOracleCloudSizingScript.py\<close>\<close>

lemma cv_instance_detail_Nil [simp]: "cv_instance_detail filename [] st = st"
  by (simp add: cv_instance_detail_def)

lemma cv_instance_detail_append:
  "cv_instance_detail filename r2 (cv_instance_detail filename r1 st) =
     cv_instance_detail filename (r1 @ r2) st"
  by (simp add: cv_instance_detail_def)

lemma cv_instance_detail_region:
  "set_region r (cv_instance_detail filename d st) =
     cv_instance_detail filename d (set_region r st)"
  by (simp add: cv_instance_detail_def)

lemma add_instances_region_Nil:
  "\<exists>reg. s = add_instances [] (s\<lparr>is_region := reg\<rparr>)"
  by (rule exI [of _ "is_region s"]) simp

lemma add_instances_region_join:
  "add_instances d2 ((add_instances d1 (s\<lparr>is_region := r1\<rparr>))\<lparr>is_region := r2\<rparr>) =
     add_instances (d1 @ d2) (s\<lparr>is_region := r2\<rparr>)"
  by (simp add: add_instances_def)

lemma cv_instance_compartment_Ok:
  assumes "cv_instance_compartment env filename region compartment s st = Ok s' st'"
  shows "\<exists>recs. (\<exists>reg. s' = add_instances recs (s\<lparr>is_region := reg\<rparr>)) \<and>
           st' = cv_instance_detail filename recs st"
proof (cases "list_instances env region compartment")
  case (Inl e)
  with assms show ?thesis by (simp add: cv_instance_compartment_def)
next
  case (Inr instances)
  show ?thesis
  proof (cases "instances = []")
    case True
    with assms Inr have "s' = add_instances [] (s\<lparr>is_region := Some region\<rparr>) \<and>
        st' = cv_instance_detail filename [] st"
      by (simp add: cv_instance_compartment_def)
    then show ?thesis by blast
  next
    case False
    define recs where
      "recs = map (cv_instance_info_of env region compartment) (filter live_instance instances)"
    from assms Inr False have run:
      "and_then (cv_dump_info filename ''instances'' (map Instance recs) (count_instances recs st))
         (\<lambda>_. Ok (add_instances recs (s\<lparr>is_region := Some region\<rparr>))) = Ok s' st'"
      by (simp add: cv_instance_compartment_def cv_instance_loop_eq recs_def)
    then obtain u1 where
      a: "cv_dump_info filename ''instances'' (map Instance recs) (count_instances recs st) = Ok u1 st'"
      and b: "s' = add_instances recs (s\<lparr>is_region := Some region\<rparr>)"
      by (auto simp: and_then_Ok)
    have "st' = cv_instance_detail filename recs st"
      using cv_dump_info_instances [OF a] by (simp add: cv_instance_detail_def comp_def)
    with b show ?thesis by blast
  qed
qed

lemma cv_instance_region_Ok:
  assumes "cv_instance_region env filename compartments region l st = Ok l' st'"
  shows "\<exists>scopes. (list_all (\<lambda>scope. instance_scope (fst scope) (snd scope)) scopes \<and>
            l' = l @ map fst scopes) \<and>
           st' = cv_instance_detail filename (concat (map snd scopes)) (set_region region st)"
proof -
  define s0 where "s0 = \<lparr>is_region = None, is_compartment_id = None, is_instance_count = 0,
           is_total_sizeGB = 0, is_total_sizeTB = 0\<rparr>"
  from assms obtain s' where run:
    "for_each (cv_instance_compartment env filename region) compartments s0
       (set_region region st) = Ok s' st'" and l': "l' = l @ [s']"
    by (auto simp: cv_instance_region_def and_then_Ok s0_def)
  have "\<exists>recs. (\<exists>reg. s' = add_instances recs (s0\<lparr>is_region := reg\<rparr>)) \<and>
          st' = cv_instance_detail filename recs (set_region region st)"
  proof (rule for_each_rel [OF run, where dz = "[]" and join = "(@)"
          and R = "\<lambda>d b b'. \<exists>reg. b' = add_instances d (b\<lparr>is_region := reg\<rparr>)"
          and G = "cv_instance_detail filename"])
    fix x b s b' s'
    assume "cv_instance_compartment env filename region x b s = Ok b' s'"
    then show "\<exists>d. (\<exists>reg. b' = add_instances d (b\<lparr>is_region := reg\<rparr>)) \<and>
        s' = cv_instance_detail filename d s"
      by (rule cv_instance_compartment_Ok)
  next
    fix b :: InstanceSummary
    show "\<exists>reg. b = add_instances [] (b\<lparr>is_region := reg\<rparr>)"
      by (rule add_instances_region_Nil)
  next
    fix d1 d2 and b b1 b2 :: InstanceSummary
    assume "\<exists>reg. b1 = add_instances d1 (b\<lparr>is_region := reg\<rparr>)"
      and "\<exists>reg. b2 = add_instances d2 (b1\<lparr>is_region := reg\<rparr>)"
    then show "\<exists>reg. b2 = add_instances (d1 @ d2) (b\<lparr>is_region := reg\<rparr>)"
      using add_instances_region_join by blast
  qed (simp_all add: cv_instance_detail_append)
  then obtain recs reg where recs: "s' = add_instances recs (s0\<lparr>is_region := reg\<rparr>)"
    "st' = cv_instance_detail filename recs (set_region region st)" by blast
  have "instance_scope s' recs"
    unfolding recs(1) s0_def by (simp add: instance_scope_def add_instances_def)
  with recs l' have "(list_all (\<lambda>scope. instance_scope (fst scope) (snd scope)) [(s', recs)] \<and>
            l' = l @ map fst [(s', recs)]) \<and>
           st' = cv_instance_detail filename (concat (map snd [(s', recs)])) (set_region region st)"
    by simp
  then show ?thesis by blast
qed

lemma cv_instance_regions_Ok:
  assumes "for_each (cv_instance_region env filename compartments) regions l st = Ok l' st'"
  shows "\<exists>scopes. (list_all (\<lambda>scope. instance_scope (fst scope) (snd scope)) scopes \<and>
            l' = l @ map fst scopes) \<and>
           st' = cv_instance_detail filename (concat (map snd scopes)) (after_regions regions st)"
  by (rule for_each_region_rel [OF assms, where dz = "[]" and join = "(@)"
        and R = "\<lambda>d b b'. list_all (\<lambda>scope. instance_scope (fst scope) (snd scope)) d \<and>
                   b' = b @ map fst d"
        and G = "\<lambda>d. cv_instance_detail filename (concat (map snd d))"])
    (auto dest: cv_instance_region_Ok simp: cv_instance_detail_append cv_instance_detail_region)

subsection \<open>OKE clusters\<close>

lemma cv_cluster_detail_Nil [simp]: "cv_cluster_detail filename [] {} st = st"
  by (simp add: cv_cluster_detail_def)

lemma cv_cluster_detail_append:
  "cv_cluster_detail filename r2 p2 (cv_cluster_detail filename r1 p1 st) =
     cv_cluster_detail filename (r1 @ r2) (p1 \<union> p2) st"
  by (simp add: cv_cluster_detail_def)

lemma cv_cluster_detail_region:
  "set_region r (cv_cluster_detail filename d p st) =
     cv_cluster_detail filename d p (set_region r st)"
  by (simp add: cv_cluster_detail_def)

lemma cluster_scope_new:
  "cluster_scope
     (add_clusters recs \<lparr>ks_region = a, ks_cluster_count = 0, ks_total_node_count = 0,
        ks_total_pvc_count = 0, ks_total_pvc_size_gb = 0, ks_total_pvc_size_tb = 0\<rparr>) recs"
  by (simp add: cluster_scope_def add_clusters_def)

lemma cv_oke_compartment_Ok:
  assumes "cv_oke_compartment env filename region compartment s st = Ok s' st'"
  shows "\<exists>d. s' = add_clusters (fst d) s \<and> st' = cv_cluster_detail filename (fst d) (snd d) st"
proof (cases "list_clusters env region compartment")
  case (Inl e)
  with assms have "s' = add_clusters (fst ([], {})) s \<and>
      st' = cv_cluster_detail filename (fst ([], {})) (snd ([], {})) st"
    by (simp add: cv_oke_compartment_def)
  then show ?thesis by blast
next
  case (Inr clusters)
  define recs where
    "recs = map (cluster_info_of env region (profile_of st)) (filter live_cluster clusters)"
  define paths where "paths = kubeconfig_file ` cl_id ` set (filter live_cluster clusters)"
  from assms Inr have run:
    "and_then (cv_dump_info filename ''oke_clusters'' (map Cluster recs)
                 (count_clusters recs (remove_tmpfiles paths st)))
       (\<lambda>_. Ok (add_clusters recs s)) = Ok s' st'"
    by (simp add: cv_oke_compartment_def cluster_loop_eq recs_def paths_def)
  then obtain u1 where
    a: "cv_dump_info filename ''oke_clusters'' (map Cluster recs)
          (count_clusters recs (remove_tmpfiles paths st)) = Ok u1 st'"
    and b: "s' = add_clusters recs s"
    by (auto simp: and_then_Ok)
  have "st' = cv_cluster_detail filename recs paths st"
    using cv_dump_info_clusters [OF a] by (simp add: cv_cluster_detail_def comp_def)
  with b have "s' = add_clusters (fst (recs, paths)) s \<and>
      st' = cv_cluster_detail filename (fst (recs, paths)) (snd (recs, paths)) st"
    by simp
  then show ?thesis by blast
qed

lemma cv_oke_region_Ok:
  assumes "cv_oke_region env filename compartments region l st = Ok l' st'"
  shows "\<exists>d. (list_all (\<lambda>scope. cluster_scope (fst scope) (snd scope)) (fst d) \<and>
            l' = l @ map fst (fst d)) \<and>
           st' = cv_cluster_detail filename (concat (map snd (fst d))) (snd d)
                   (set_region region st)"
proof -
  define s0 where "s0 = \<lparr>ks_region = Some region, ks_cluster_count = 0, ks_total_node_count = 0,
           ks_total_pvc_count = 0, ks_total_pvc_size_gb = 0, ks_total_pvc_size_tb = 0\<rparr>"
  from assms obtain s' where run:
    "for_each (cv_oke_compartment env filename region) compartments s0
       (set_region region st) = Ok s' st'" and l': "l' = l @ [s']"
    by (auto simp: cv_oke_region_def and_then_Ok s0_def)
  have "\<exists>d. s' = add_clusters (fst d) s0 \<and>
          st' = cv_cluster_detail filename (fst d) (snd d) (set_region region st)"
    by (rule for_each_rel [OF run, where dz = "([], {})"
          and join = "\<lambda>d1 d2. (fst d1 @ fst d2, snd d1 \<union> snd d2)"
          and R = "\<lambda>d b b'. b' = add_clusters (fst d) b"
          and G = "\<lambda>d. cv_cluster_detail filename (fst d) (snd d)"])
      (erule cv_oke_compartment_Ok, simp_all add: cv_cluster_detail_append)
  then obtain recs paths where recs: "s' = add_clusters recs s0"
    "st' = cv_cluster_detail filename recs paths (set_region region st)" by auto
  have "cluster_scope s' recs" unfolding recs(1) s0_def by (rule cluster_scope_new)
  with recs l' have
    "(list_all (\<lambda>scope. cluster_scope (fst scope) (snd scope)) (fst ([(s', recs)], paths)) \<and>
        l' = l @ map fst (fst ([(s', recs)], paths))) \<and>
     st' = cv_cluster_detail filename (concat (map snd (fst ([(s', recs)], paths))))
             (snd ([(s', recs)], paths)) (set_region region st)"
    by simp
  then show ?thesis by blast
qed

lemma cv_oke_regions_Ok:
  assumes "for_each (cv_oke_region env filename compartments) regions l st = Ok l' st'"
  shows "\<exists>d. (list_all (\<lambda>scope. cluster_scope (fst scope) (snd scope)) (fst d) \<and>
            l' = l @ map fst (fst d)) \<and>
           st' = cv_cluster_detail filename (concat (map snd (fst d))) (snd d)
                   (after_regions regions st)"
  by (rule for_each_region_rel [OF assms, where dz = "([], {})"
        and join = "\<lambda>d1 d2. (fst d1 @ fst d2, snd d1 \<union> snd d2)"
        and R = "\<lambda>d b b'. list_all (\<lambda>scope. cluster_scope (fst scope) (snd scope)) (fst d) \<and>
                   b' = b @ map fst (fst d)"
        and G = "\<lambda>d. cv_cluster_detail filename (concat (map snd (fst d))) (snd d)"])
    (erule cv_oke_region_Ok, simp_all add: cv_cluster_detail_append cv_cluster_detail_region)

subsection \<open>What a change of the state leaves alone\<close>

lemma sheet_of_counters [simp]:
  "sheet_of (count_instances recs st) f t = sheet_of st f t"
  "sheet_of (count_buckets brecs st) f t = sheet_of st f t"
  "sheet_of (count_clusters crecs st) f t = sheet_of st f t"
  "sheet_of (remove_tmpfiles K st) f t = sheet_of st f t"
  "sheet_of (set_region r st) f t = sheet_of st f t"
  "sheet_of (after_regions rs st) f t = sheet_of st f t"
  by (simp_all add: sheet_of_def count_instances_def count_buckets_def count_clusters_def
      remove_tmpfiles_def set_region_def after_regions_def)

lemma formatted_fields [simp]:
  "config (formatted filename st) = config st"
  "tmpfiles (formatted filename st) = tmpfiles st"
  "total_instances (formatted filename st) = total_instances st"
  "total_instance_sizeGB (formatted filename st) = total_instance_sizeGB st"
  "total_instance_sizeTB (formatted filename st) = total_instance_sizeTB st"
  "total_buckets (formatted filename st) = total_buckets st"
  "total_storageGB (formatted filename st) = total_storageGB st"
  "total_storageTB (formatted filename st) = total_storageTB st"
  "total_oke_clusters (formatted filename st) = total_oke_clusters st"
  "total_oke_node_count (formatted filename st) = total_oke_node_count st"
  "total_oke_pvc_count (formatted filename st) = total_oke_pvc_count st"
  "total_oke_pvc_size_gb (formatted filename st) = total_oke_pvc_size_gb st"
  "total_oke_pvc_size_tb (formatted filename st) = total_oke_pvc_size_tb st"
  by (simp_all add: formatted_def save_def split: option.splits)

lemma update_sheet_fields [simp]:
  "config (update_sheet filename title g st) = config st"
  "tmpfiles (update_sheet filename title g st) = tmpfiles st"
  "total_instances (update_sheet filename title g st) = total_instances st"
  "total_instance_sizeGB (update_sheet filename title g st) = total_instance_sizeGB st"
  "total_instance_sizeTB (update_sheet filename title g st) = total_instance_sizeTB st"
  "total_buckets (update_sheet filename title g st) = total_buckets st"
  "total_storageGB (update_sheet filename title g st) = total_storageGB st"
  "total_storageTB (update_sheet filename title g st) = total_storageTB st"
  "total_oke_clusters (update_sheet filename title g st) = total_oke_clusters st"
  "total_oke_node_count (update_sheet filename title g st) = total_oke_node_count st"
  "total_oke_pvc_count (update_sheet filename title g st) = total_oke_pvc_count st"
  "total_oke_pvc_size_gb (update_sheet filename title g st) = total_oke_pvc_size_gb st"
  "total_oke_pvc_size_tb (update_sheet filename title g st) = total_oke_pvc_size_tb st"
  by (simp_all add: update_sheet_def save_def split: option.splits)

lemma config_counters [simp]:
  "config (count_instances recs st) = config st"
  "config (count_buckets brecs st) = config st"
  "config (count_clusters crecs st) = config st"
  "config (remove_tmpfiles K st) = config st"
  by (simp_all add: count_instances_def count_buckets_def count_clusters_def remove_tmpfiles_def)

lemma config_after_regions:
  "rs \<noteq> [] \<Longrightarrow> config (after_regions rs st) = (config st)(''region'' \<mapsto> last rs)"
  by (simp add: after_regions_def set_region_def)

lemma totals_after_regions [simp]:
  "total_instances (after_regions rs st) = total_instances st"
  "total_instance_sizeGB (after_regions rs st) = total_instance_sizeGB st"
  "total_instance_sizeTB (after_regions rs st) = total_instance_sizeTB st"
  "total_buckets (after_regions rs st) = total_buckets st"
  "total_storageGB (after_regions rs st) = total_storageGB st"
  "total_storageTB (after_regions rs st) = total_storageTB st"
  "total_oke_clusters (after_regions rs st) = total_oke_clusters st"
  "total_oke_node_count (after_regions rs st) = total_oke_node_count st"
  "total_oke_pvc_count (after_regions rs st) = total_oke_pvc_count st"
  "total_oke_pvc_size_gb (after_regions rs st) = total_oke_pvc_size_gb st"
  "total_oke_pvc_size_tb (after_regions rs st) = total_oke_pvc_size_tb st"
  by (simp_all add: after_regions_def set_region_def)

lemma totals_count_instances [simp]:
  "total_instances (count_instances recs st) = total_instances st + int (length recs)"
  "total_instance_sizeGB (count_instances recs st) =
     total_instance_sizeGB st + sum_list (map ii_sizeGB recs)"
  "total_instance_sizeTB (count_instances recs st) =
     total_instance_sizeTB st + sum_list (map ii_sizeTB recs)"
  by (simp_all add: count_instances_def)

lemma totals_count_buckets [simp]:
  "total_buckets (count_buckets recs st) = total_buckets st + int (length recs)"
  "total_storageGB (count_buckets recs st) = total_storageGB st + sum_list (map oi_sizeGB recs)"
  "total_storageTB (count_buckets recs st) = total_storageTB st + sum_list (map oi_sizeTB recs)"
  by (simp_all add: count_buckets_def)

lemma totals_count_clusters [simp]:
  "total_oke_clusters (count_clusters recs st) = total_oke_clusters st + int (length recs)"
  "total_oke_node_count (count_clusters recs st) =
     total_oke_node_count st + sum_list (map ki_node_count recs)"
  "total_oke_pvc_count (count_clusters recs st) =
     total_oke_pvc_count st + sum_list (map ki_pvc_count recs)"
  "total_oke_pvc_size_gb (count_clusters recs st) =
     total_oke_pvc_size_gb st + sum_list (map ki_total_pvc_size_gb recs)"
  "total_oke_pvc_size_tb (count_clusters recs st) =
     total_oke_pvc_size_tb st + sum_list (map ki_total_pvc_size_tb recs)"
  by (simp_all add: count_clusters_def)

lemma totals_remove_tmpfiles [simp]:
  "total_oke_clusters (remove_tmpfiles K st) = total_oke_clusters st"
  "total_oke_node_count (remove_tmpfiles K st) = total_oke_node_count st"
  "total_oke_pvc_count (remove_tmpfiles K st) = total_oke_pvc_count st"
  "total_oke_pvc_size_gb (remove_tmpfiles K st) = total_oke_pvc_size_gb st"
  "total_oke_pvc_size_tb (remove_tmpfiles K st) = total_oke_pvc_size_tb st"
  by (simp_all add: remove_tmpfiles_def)

subsection \<open>The sums of the scopes\<close>

lemma instance_scope_sums:
  "list_all (\<lambda>scope. instance_scope (fst scope) (snd scope)) scopes \<Longrightarrow>
   int (length (concat (map snd scopes))) = sum_list (map (is_instance_count \<circ> fst) scopes) \<and>
   sum_list (map ii_sizeGB (concat (map snd scopes))) =
     sum_list (map (is_total_sizeGB \<circ> fst) scopes) \<and>
   sum_list (map ii_sizeTB (concat (map snd scopes))) =
     sum_list (map (is_total_sizeTB \<circ> fst) scopes)"
  by (induction scopes) (simp_all add: instance_scope_def)

lemma bucket_scope_sums:
  "list_all (\<lambda>scope. bucket_scope (fst scope) (snd scope)) scopes \<Longrightarrow>
   int (length (concat (map snd scopes))) = sum_list (map (os_bucket_count \<circ> fst) scopes) \<and>
   sum_list (map oi_sizeGB (concat (map snd scopes))) =
     sum_list (map (os_total_storage_GB \<circ> fst) scopes) \<and>
   sum_list (map oi_sizeTB (concat (map snd scopes))) =
     sum_list (map (os_total_storage_TB \<circ> fst) scopes)"
  by (induction scopes) (simp_all add: bucket_scope_def)

lemma cluster_scope_sums:
  "list_all (\<lambda>scope. cluster_scope (fst scope) (snd scope)) scopes \<Longrightarrow>
   int (length (concat (map snd scopes))) = sum_list (map (ks_cluster_count \<circ> fst) scopes) \<and>
   sum_list (map ki_node_count (concat (map snd scopes))) =
     sum_list (map (ks_total_node_count \<circ> fst) scopes) \<and>
   sum_list (map ki_pvc_count (concat (map snd scopes))) =
     sum_list (map (ks_total_pvc_count \<circ> fst) scopes) \<and>
   sum_list (map ki_total_pvc_size_gb (concat (map snd scopes))) =
     sum_list (map (ks_total_pvc_size_gb \<circ> fst) scopes) \<and>
   sum_list (map ki_total_pvc_size_tb (concat (map snd scopes))) =
     sum_list (map (ks_total_pvc_size_tb \<circ> fst) scopes)"
  by (induction scopes) (simp_all add: cluster_scope_def)

subsection \<open>Whole runs\<close>

lemma cs_object_storage_run:
  assumes "cs_get_object_storage_info env filename regions compartments st = Ok u st'"
  shows "\<exists>rs scopes st1. default_regions env regions st = Inr rs \<and>
           list_all (\<lambda>scope. bucket_scope (fst scope) (snd scope)) scopes \<and>
           st1 = cs_bucket_report filename scopes (after_regions rs st) \<and>
           st' = formatted filename
                   (append_rows filename ''ObjectStorageSummary''
                      [plain_row [CStr ''Grand Total'', CStr [], CInt (total_buckets st1),
                                  CDec (total_storageGB st1), CDec (total_storageTB st1)]] st1)"
proof -
  from assms obtain rs cs where rs: "default_regions env regions st = Inr rs"
    and cs: "default_compartments env compartments st = Inr cs"
    by (auto simp: cs_get_object_storage_info_def split: sum.splits)
  with assms obtain u1 st1 u2 st2 where
    loop: "for_each (cs_os_region env filename cs) rs () st = Ok u1 st1"
    and total: "cs_write_grand_total filename ''object_storage'' st1 = Ok u2 st2"
    and fmt: "format_workbook filename st2 = Ok u st'"
    by (auto simp: cs_get_object_storage_info_def and_then_Ok)
  from cs_os_regions_Ok [OF loop] obtain scopes where
    scopes: "list_all (\<lambda>scope. bucket_scope (fst scope) (snd scope)) scopes"
    and st1: "st1 = cs_bucket_report filename scopes (after_regions rs st)" by blast
  have row: "cs_grand_total_row ''object_storage'' st1 =
      Inr (''ObjectStorageSummary'',
           [CStr ''Grand Total'', CStr [], CInt (total_buckets st1),
            CDec (total_storageGB st1), CDec (total_storageTB st1)])"
    by (simp add: cs_grand_total_row_def)
  from cs_write_grand_total_Ok [OF total row] format_workbook_Ok [OF fmt]
  have "st' = formatted filename
                   (append_rows filename ''ObjectStorageSummary''
                      [plain_row [CStr ''Grand Total'', CStr [], CInt (total_buckets st1),
                                  CDec (total_storageGB st1), CDec (total_storageTB st1)]] st1)"
    by simp
  with rs scopes st1 show ?thesis by blast
qed

lemma cs_instance_run:
  assumes "cs_get_instance_info env filename regions compartments st = Ok u st'"
  shows "\<exists>rs scopes st1. default_regions env regions st = Inr rs \<and>
           list_all (\<lambda>scope. instance_scope (fst scope) (snd scope)) scopes \<and>
           st1 = cs_instance_report filename scopes (after_regions rs st) \<and>
           st' = formatted filename
                   (append_rows filename ''InstanceSummary''
                      [plain_row [CStr ''Grand Total'', CStr [], CInt (total_instances st1),
                                  CInt (total_instance_sizeGB st1),
                                  CDec (total_instance_sizeTB st1)]] st1)"
proof -
  from assms obtain rs cs where rs: "default_regions env regions st = Inr rs"
    and cs: "default_compartments env compartments st = Inr cs"
    by (auto simp: cs_get_instance_info_def split: sum.splits)
  with assms obtain u1 st1 u2 st2 where
    loop: "for_each (cs_instance_region env filename cs) rs () st = Ok u1 st1"
    and total: "cs_write_grand_total filename ''instances'' st1 = Ok u2 st2"
    and fmt: "format_workbook filename st2 = Ok u st'"
    by (auto simp: cs_get_instance_info_def and_then_Ok)
  from cs_instance_regions_Ok [OF loop] obtain scopes where
    scopes: "list_all (\<lambda>scope. instance_scope (fst scope) (snd scope)) scopes"
    and st1: "st1 = cs_instance_report filename scopes (after_regions rs st)" by blast
  have row: "cs_grand_total_row ''instances'' st1 =
      Inr (''InstanceSummary'',
           [CStr ''Grand Total'', CStr [], CInt (total_instances st1),
            CInt (total_instance_sizeGB st1), CDec (total_instance_sizeTB st1)])"
    by (simp add: cs_grand_total_row_def)
  from cs_write_grand_total_Ok [OF total row] format_workbook_Ok [OF fmt]
  have "st' = formatted filename
                   (append_rows filename ''InstanceSummary''
                      [plain_row [CStr ''Grand Total'', CStr [], CInt (total_instances st1),
                                  CInt (total_instance_sizeGB st1),
                                  CDec (total_instance_sizeTB st1)]] st1)"
    by simp
  with rs scopes st1 show ?thesis by blast
qed

lemma cv_object_storage_run:
  assumes "cv_get_object_storage_info env filename regions compartments st = Ok u st'"
  shows "\<exists>rs scopes st1. default_regions env regions st = Inr rs \<and>
           list_all (\<lambda>scope. bucket_scope (fst scope) (snd scope)) scopes \<and>
           st1 = cv_bucket_detail filename (concat (map snd scopes)) (after_regions rs st) \<and>
           st' = formatted filename
                   (append_rows filename ''Object Storage Summary''
                      (map (plain_row \<circ> cv_bucket_summary_row) (map fst scopes))
                      (update_sheet filename ''Object Storage Summary''
                         (\<lambda>sh. set_row_bold
                            (sh @ [plain_row [CStr ''Total Buckets'', CInt (total_buckets st1),
                                     CDec (total_storageGB st1), CDec (total_storageTB st1)]]) 2)
                         st1))"
proof -
  from assms obtain rs cs where rs: "default_regions env regions st = Inr rs"
    and cs: "default_compartments env compartments st = Inr cs"
    by (auto simp: cv_get_object_storage_info_def split: sum.splits)
  with assms obtain l st1 u2 st2 u3 st3 where
    loop: "for_each (cv_os_region env filename cs) rs [] st = Ok l st1"
    and total: "cv_write_grand_total filename ''object_storage'' st1 = Ok u2 st2"
    and summ: "cv_dump_summary filename ''object_storage'' (map BucketSum l) st2 = Ok u3 st3"
    and fmt: "format_workbook filename st3 = Ok u st'"
    by (auto simp: cv_get_object_storage_info_def and_then_Ok)
  from cv_os_regions_Ok [OF loop] obtain scopes where
    scopes: "list_all (\<lambda>scope. bucket_scope (fst scope) (snd scope)) scopes"
    and l: "l = map fst scopes"
    and st1: "st1 = cv_bucket_detail filename (concat (map snd scopes)) (after_regions rs st)"
    by auto
  have row: "cv_grand_total_row ''object_storage'' st1 =
      Inr (''Object Storage Summary'',
           [CStr ''Total Buckets'', CInt (total_buckets st1),
            CDec (total_storageGB st1), CDec (total_storageTB st1)])"
    by (simp add: cv_grand_total_row_def)
  from cv_write_grand_total_Ok [OF total row] cv_dump_summary_buckets [OF summ]
    format_workbook_Ok [OF fmt] l
  have "st' = formatted filename
                   (append_rows filename ''Object Storage Summary''
                      (map (plain_row \<circ> cv_bucket_summary_row) (map fst scopes))
                      (update_sheet filename ''Object Storage Summary''
                         (\<lambda>sh. set_row_bold
                            (sh @ [plain_row [CStr ''Total Buckets'', CInt (total_buckets st1),
                                     CDec (total_storageGB st1), CDec (total_storageTB st1)]]) 2)
                         st1))"
    by simp
  with rs scopes st1 show ?thesis by blast
qed

lemma cv_instance_run:
  assumes "cv_get_instance_info env filename regions compartments st = Ok u st'"
  shows "\<exists>rs scopes st1. default_regions env regions st = Inr rs \<and>
           list_all (\<lambda>scope. instance_scope (fst scope) (snd scope)) scopes \<and>
           st1 = cv_instance_detail filename (concat (map snd scopes)) (after_regions rs st) \<and>
           st' = formatted filename
                   (append_rows filename ''Instance Summary''
                      (map (plain_row \<circ> cv_instance_summary_row) (map fst scopes))
                      (update_sheet filename ''Instance Summary''
                         (\<lambda>sh. set_row_bold
                            (sh @ [plain_row [CStr ''Total Instances'', CInt (total_instances st1),
                                     CInt (total_instance_sizeGB st1),
                                     CDec (total_instance_sizeTB st1)]]) 2)
                         st1))"
proof -
  from assms obtain rs cs where rs: "default_regions env regions st = Inr rs"
    and cs: "default_compartments env compartments st = Inr cs"
    by (auto simp: cv_get_instance_info_def split: sum.splits)
  with assms obtain l st1 u2 st2 u3 st3 where
    loop: "for_each (cv_instance_region env filename cs) rs [] st = Ok l st1"
    and total: "cv_write_grand_total filename ''instances'' st1 = Ok u2 st2"
    and summ: "cv_dump_summary filename ''instances'' (map InstanceSum l) st2 = Ok u3 st3"
    and fmt: "format_workbook filename st3 = Ok u st'"
    by (auto simp: cv_get_instance_info_def and_then_Ok)
  from cv_instance_regions_Ok [OF loop] obtain scopes where
    scopes: "list_all (\<lambda>scope. instance_scope (fst scope) (snd scope)) scopes"
    and l: "l = map fst scopes"
    and st1: "st1 = cv_instance_detail filename (concat (map snd scopes)) (after_regions rs st)"
    by auto
  have row: "cv_grand_total_row ''instances'' st1 =
      Inr (''Instance Summary'',
           [CStr ''Total Instances'', CInt (total_instances st1),
            CInt (total_instance_sizeGB st1), CDec (total_instance_sizeTB st1)])"
    by (simp add: cv_grand_total_row_def)
  from cv_write_grand_total_Ok [OF total row] cv_dump_summary_instances [OF summ]
    format_workbook_Ok [OF fmt] l
  have "st' = formatted filename
                   (append_rows filename ''Instance Summary''
                      (map (plain_row \<circ> cv_instance_summary_row) (map fst scopes))
                      (update_sheet filename ''Instance Summary''
                         (\<lambda>sh. set_row_bold
                            (sh @ [plain_row [CStr ''Total Instances'', CInt (total_instances st1),
                                     CInt (total_instance_sizeGB st1),
                                     CDec (total_instance_sizeTB st1)]]) 2)
                         st1))"
    by simp
  with rs scopes st1 show ?thesis by blast
qed

lemma cv_oke_run:
  assumes "cv_get_oke_cluster_info env filename regions compartments st = Ok u st'"
  shows "\<exists>rs scopes paths st1. default_regions env regions st = Inr rs \<and>
           list_all (\<lambda>scope. cluster_scope (fst scope) (snd scope)) scopes \<and>
           st1 = cv_cluster_detail filename (concat (map snd scopes)) paths (after_regions rs st) \<and>
           st' = formatted filename
                   (append_rows filename ''OKE Cluster Summary''
                      (map (plain_row \<circ> cluster_summary_row) (map fst scopes))
                      (update_sheet filename ''OKE Cluster Summary''
                         (\<lambda>sh. set_row_bold
                            (sh @ [plain_row [CStr ''Total OKE Clusters'',
                                     CInt (total_oke_clusters st1),
                                     CInt (total_oke_node_count st1),
                                     CInt (total_oke_pvc_count st1),
                                     CInt (total_oke_pvc_size_gb st1),
                                     CDec (total_oke_pvc_size_tb st1)]]) 2)
                         st1))"
proof -
  from assms obtain rs cs where rs: "default_regions env regions st = Inr rs"
    and cs: "default_compartments env compartments st = Inr cs"
    by (auto simp: cv_get_oke_cluster_info_def split: sum.splits)
  with assms obtain l st1 u2 st2 u3 st3 where
    loop: "for_each (cv_oke_region env filename cs) rs [] st = Ok l st1"
    and total: "cv_write_grand_total filename ''oke_clusters'' st1 = Ok u2 st2"
    and summ: "cv_dump_summary filename ''oke_clusters'' (map ClusterSum l) st2 = Ok u3 st3"
    and fmt: "format_workbook filename st3 = Ok u st'"
    by (auto simp: cv_get_oke_cluster_info_def and_then_Ok)
  from cv_oke_regions_Ok [OF loop] obtain scopes paths where
    scopes: "list_all (\<lambda>scope. cluster_scope (fst scope) (snd scope)) scopes"
    and l: "l = map fst scopes"
    and st1: "st1 = cv_cluster_detail filename (concat (map snd scopes)) paths
                      (after_regions rs st)"
    by auto
  have row: "cv_grand_total_row ''oke_clusters'' st1 =
      Inr (''OKE Cluster Summary'',
           [CStr ''Total OKE Clusters'', CInt (total_oke_clusters st1),
            CInt (total_oke_node_count st1), CInt (total_oke_pvc_count st1),
            CInt (total_oke_pvc_size_gb st1), CDec (total_oke_pvc_size_tb st1)])"
    by (simp add: cv_grand_total_row_def)
  from cv_write_grand_total_Ok [OF total row] cv_dump_summary_clusters [OF summ]
    format_workbook_Ok [OF fmt] l
  have "st' = formatted filename
                   (append_rows filename ''OKE Cluster Summary''
                      (map (plain_row \<circ> cluster_summary_row) (map fst scopes))
                      (update_sheet filename ''OKE Cluster Summary''
                         (\<lambda>sh. set_row_bold
                            (sh @ [plain_row [CStr ''Total OKE Clusters'',
                                     CInt (total_oke_clusters st1),
                                     CInt (total_oke_node_count st1),
                                     CInt (total_oke_pvc_count st1),
                                     CInt (total_oke_pvc_size_gb st1),
                                     CDec (total_oke_pvc_size_tb st1)]]) 2)
                         st1))"
    by simp
  with rs scopes st1 show ?thesis by blast
qed


subsection \<open>The report of a run\<close>

lemma cs_object_storage_report:
  assumes "cs_get_object_storage_info env filename regions compartments st = Ok u st'"
  shows "\<exists>scopes.
      list_all (\<lambda>scope. bucket_scope (fst scope) (snd scope)) scopes \<and>
      total_buckets st' = total_buckets st + sum_list (map (os_bucket_count \<circ> fst) scopes) \<and>
      total_storageGB st' =
        total_storageGB st + sum_list (map (os_total_storage_GB \<circ> fst) scopes) \<and>
      total_storageTB st' =
        total_storageTB st + sum_list (map (os_total_storage_TB \<circ> fst) scopes) \<and>
      sheet_of st' filename ''ObjectStorageInfo'' =
        map_option
          (\<lambda>sh. set_row_fill (set_row_bold
             (sh @ map (\<lambda>r. plain_row (bucket_row r)) (concat (map snd scopes))) 1) 1)
          (sheet_of st filename ''ObjectStorageInfo'') \<and>
      sheet_of st' filename ''ObjectStorageSummary'' =
        map_option
          (\<lambda>sh. set_row_fill (set_row_bold
             (sh @ map (\<lambda>scope. plain_row (cs_bucket_summary_row (fst scope))) scopes @
                [plain_row [CStr ''Grand Total'', CStr [], CInt (total_buckets st'),
                            CDec (total_storageGB st'), CDec (total_storageTB st')]]) 1) 1)
          (sheet_of st filename ''ObjectStorageSummary'')"
proof -
  from cs_object_storage_run [OF assms] obtain rs scopes st1 where
    scopes: "list_all (\<lambda>scope. bucket_scope (fst scope) (snd scope)) scopes"
    and st1: "st1 = cs_bucket_report filename scopes (after_regions rs st)"
    and st': "st' = formatted filename
                   (append_rows filename ''ObjectStorageSummary''
                      [plain_row [CStr ''Grand Total'', CStr [], CInt (total_buckets st1),
                                  CDec (total_storageGB st1), CDec (total_storageTB st1)]] st1)"
    by blast
  note sums = bucket_scope_sums [OF scopes]
  have same: "total_buckets st1 = total_buckets st'" "total_storageGB st1 = total_storageGB st'"
    "total_storageTB st1 = total_storageTB st'"
    by (simp_all add: st')
  have t: "total_buckets st' = total_buckets st + sum_list (map (os_bucket_count \<circ> fst) scopes)"
    "total_storageGB st' =
        total_storageGB st + sum_list (map (os_total_storage_GB \<circ> fst) scopes)"
    "total_storageTB st' =
        total_storageTB st + sum_list (map (os_total_storage_TB \<circ> fst) scopes)"
    using sums by (simp_all add: st' st1 cs_bucket_report_def)
  have i: "sheet_of st' filename ''ObjectStorageInfo'' =
        map_option
          (\<lambda>sh. set_row_fill (set_row_bold
             (sh @ map (\<lambda>r. plain_row (bucket_row r)) (concat (map snd scopes))) 1) 1)
          (sheet_of st filename ''ObjectStorageInfo'')"
    by (cases "sheet_of st filename ''ObjectStorageInfo''")
      (simp_all add: st' st1 cs_bucket_report_def sheet_of_formatted sheet_of_append_rows)
  define gt where "gt = plain_row [CStr ''Grand Total'', CStr [], CInt (total_buckets st1),
                            CDec (total_storageGB st1), CDec (total_storageTB st1)]"
  have st'': "st' = formatted filename (append_rows filename ''ObjectStorageSummary'' [gt] st1)"
    using st' by (simp add: gt_def)
  have s: "sheet_of st' filename ''ObjectStorageSummary'' =
        map_option
          (\<lambda>sh. set_row_fill (set_row_bold
             (sh @ map (\<lambda>scope. plain_row (cs_bucket_summary_row (fst scope))) scopes @ [gt]) 1) 1)
          (sheet_of st filename ''ObjectStorageSummary'')"
    by (cases "sheet_of st filename ''ObjectStorageSummary''")
      (simp_all add: st'' st1 cs_bucket_report_def sheet_of_formatted sheet_of_append_rows)
  from scopes t i s [unfolded gt_def same] show ?thesis by blast
qed


lemma cs_instance_report_of_run:
  assumes "cs_get_instance_info env filename regions compartments st = Ok u st'"
  shows "\<exists>scopes.
      list_all (\<lambda>scope. instance_scope (fst scope) (snd scope)) scopes \<and>
      total_instances st' = total_instances st + sum_list (map (is_instance_count \<circ> fst) scopes) \<and>
      total_instance_sizeGB st' = total_instance_sizeGB st + sum_list (map (is_total_sizeGB \<circ> fst) scopes) \<and>
      total_instance_sizeTB st' = total_instance_sizeTB st + sum_list (map (is_total_sizeTB \<circ> fst) scopes) \<and>
      sheet_of st' filename ''InstanceInfo'' =
        map_option
          (\<lambda>sh. set_row_fill (set_row_bold
             (sh @ map (\<lambda>r. plain_row (cs_instance_row r)) (concat (map snd scopes))) 1) 1)
          (sheet_of st filename ''InstanceInfo'') \<and>
      sheet_of st' filename ''InstanceSummary'' =
        map_option
          (\<lambda>sh. set_row_fill (set_row_bold
             (sh @ map (\<lambda>scope. plain_row (cs_instance_summary_row (fst scope))) scopes @
                [plain_row [CStr ''Grand Total'', CStr [], CInt (total_instances st'),
                            CInt (total_instance_sizeGB st'), CDec (total_instance_sizeTB st')]]) 1) 1)
          (sheet_of st filename ''InstanceSummary'')"
proof -
  from cs_instance_run [OF assms] obtain rs scopes st1 where
    scopes: "list_all (\<lambda>scope. instance_scope (fst scope) (snd scope)) scopes"
    and st1: "st1 = cs_instance_report filename scopes (after_regions rs st)"
    and st': "st' = formatted filename
                   (append_rows filename ''InstanceSummary''
                      [plain_row [CStr ''Grand Total'', CStr [], CInt (total_instances st1),
                            CInt (total_instance_sizeGB st1), CDec (total_instance_sizeTB st1)]] st1)"
    by blast
  note sums = instance_scope_sums [OF scopes]
  have same: "total_instances st1 = total_instances st'" "total_instance_sizeGB st1 = total_instance_sizeGB st'" "total_instance_sizeTB st1 = total_instance_sizeTB st'"
    by (simp_all add: st')
  have t:
    "total_instances st' = total_instances st + sum_list (map (is_instance_count \<circ> fst) scopes)"
    "total_instance_sizeGB st' = total_instance_sizeGB st + sum_list (map (is_total_sizeGB \<circ> fst) scopes)"
    "total_instance_sizeTB st' = total_instance_sizeTB st + sum_list (map (is_total_sizeTB \<circ> fst) scopes)"
    using sums by (simp_all add: st' st1 cs_instance_report_def)
  have i: "sheet_of st' filename ''InstanceInfo'' =
        map_option
          (\<lambda>sh. set_row_fill (set_row_bold
             (sh @ map (\<lambda>r. plain_row (cs_instance_row r)) (concat (map snd scopes))) 1) 1)
          (sheet_of st filename ''InstanceInfo'')"
    by (cases "sheet_of st filename ''InstanceInfo''")
      (simp_all add: st' st1 cs_instance_report_def sheet_of_formatted sheet_of_append_rows)
  define gt where "gt = plain_row [CStr ''Grand Total'', CStr [], CInt (total_instances st1),
                            CInt (total_instance_sizeGB st1), CDec (total_instance_sizeTB st1)]"
  have st'': "st' = formatted filename (append_rows filename ''InstanceSummary'' [gt] st1)"
    using st' by (simp add: gt_def)
  have s: "sheet_of st' filename ''InstanceSummary'' =
        map_option
          (\<lambda>sh. set_row_fill (set_row_bold
             (sh @ map (\<lambda>scope. plain_row (cs_instance_summary_row (fst scope))) scopes @ [gt]) 1) 1)
          (sheet_of st filename ''InstanceSummary'')"
    by (cases "sheet_of st filename ''InstanceSummary''")
      (simp_all add: st'' st1 cs_instance_report_def sheet_of_formatted sheet_of_append_rows)
  from scopes t i s [unfolded gt_def same] show ?thesis by blast
qed

lemma cv_object_storage_report:
  assumes "cv_get_object_storage_info env filename regions compartments st = Ok u st'"
  shows "\<exists>scopes.
      list_all (\<lambda>scope. bucket_scope (fst scope) (snd scope)) scopes \<and>
      total_buckets st' = total_buckets st + sum_list (map (os_bucket_count \<circ> fst) scopes) \<and>
      total_storageGB st' = total_storageGB st + sum_list (map (os_total_storage_GB \<circ> fst) scopes) \<and>
      total_storageTB st' = total_storageTB st + sum_list (map (os_total_storage_TB \<circ> fst) scopes) \<and>
      sheet_of st' filename ''Object Storage Info'' =
        map_option
          (\<lambda>sh. set_row_fill (set_row_bold
             (sh @ map (\<lambda>r. plain_row (bucket_row r)) (concat (map snd scopes))) 1) 1)
          (sheet_of st filename ''Object Storage Info'') \<and>
      sheet_of st' filename ''Object Storage Summary'' =
        map_option
          (\<lambda>sh. set_row_fill (set_row_bold
             (set_row_bold
                (sh @ [plain_row [CStr ''Total Buckets'', CInt (total_buckets st'),
                            CDec (total_storageGB st'), CDec (total_storageTB st')]]) 2 @
              map (\<lambda>scope. plain_row (cv_bucket_summary_row (fst scope))) scopes) 1) 1)
          (sheet_of st filename ''Object Storage Summary'')"
proof -
  from cv_object_storage_run [OF assms] obtain rs scopes st1 where
    scopes: "list_all (\<lambda>scope. bucket_scope (fst scope) (snd scope)) scopes"
    and st1: "st1 = cv_bucket_detail filename (concat (map snd scopes)) (after_regions rs st)"
    and st': "st' = formatted filename
                   (append_rows filename ''Object Storage Summary''
                      (map (plain_row \<circ> cv_bucket_summary_row) (map fst scopes))
                      (update_sheet filename ''Object Storage Summary''
                         (\<lambda>sh. set_row_bold
                            (sh @ [plain_row [CStr ''Total Buckets'', CInt (total_buckets st1),
                            CDec (total_storageGB st1), CDec (total_storageTB st1)]]) 2)
                         st1))"
    by blast
  note sums = bucket_scope_sums [OF scopes]
  have same: "total_buckets st1 = total_buckets st'" "total_storageGB st1 = total_storageGB st'" "total_storageTB st1 = total_storageTB st'"
    by (simp_all add: st')
  have t:
    "total_buckets st' = total_buckets st + sum_list (map (os_bucket_count \<circ> fst) scopes)"
    "total_storageGB st' = total_storageGB st + sum_list (map (os_total_storage_GB \<circ> fst) scopes)"
    "total_storageTB st' = total_storageTB st + sum_list (map (os_total_storage_TB \<circ> fst) scopes)"
    using sums by (simp_all add: st' st1 cv_bucket_detail_def)
  have i: "sheet_of st' filename ''Object Storage Info'' =
        map_option
          (\<lambda>sh. set_row_fill (set_row_bold
             (sh @ map (\<lambda>r. plain_row (bucket_row r)) (concat (map snd scopes))) 1) 1)
          (sheet_of st filename ''Object Storage Info'')"
    by (cases "sheet_of st filename ''Object Storage Info''")
      (simp_all add: st' st1 cv_bucket_detail_def sheet_of_formatted sheet_of_append_rows
        sheet_of_update_sheet)
  define gt where "gt = plain_row [CStr ''Total Buckets'', CInt (total_buckets st1),
                            CDec (total_storageGB st1), CDec (total_storageTB st1)]"
  have st'': "st' = formatted filename
                   (append_rows filename ''Object Storage Summary''
                      (map (plain_row \<circ> cv_bucket_summary_row) (map fst scopes))
                      (update_sheet filename ''Object Storage Summary''
                         (\<lambda>sh. set_row_bold (sh @ [gt]) 2) st1))"
    using st' by (simp add: gt_def)
  have s: "sheet_of st' filename ''Object Storage Summary'' =
        map_option
          (\<lambda>sh. set_row_fill (set_row_bold
             (set_row_bold (sh @ [gt]) 2 @
              map (\<lambda>scope. plain_row (cv_bucket_summary_row (fst scope))) scopes) 1) 1)
          (sheet_of st filename ''Object Storage Summary'')"
    by (cases "sheet_of st filename ''Object Storage Summary''")
      (simp_all add: st'' st1 cv_bucket_detail_def sheet_of_formatted sheet_of_append_rows
        sheet_of_update_sheet comp_def)
  from scopes t i s [unfolded gt_def same] show ?thesis by blast
qed

lemma cv_instance_report:
  assumes "cv_get_instance_info env filename regions compartments st = Ok u st'"
  shows "\<exists>scopes.
      list_all (\<lambda>scope. instance_scope (fst scope) (snd scope)) scopes \<and>
      total_instances st' = total_instances st + sum_list (map (is_instance_count \<circ> fst) scopes) \<and>
      total_instance_sizeGB st' = total_instance_sizeGB st + sum_list (map (is_total_sizeGB \<circ> fst) scopes) \<and>
      total_instance_sizeTB st' = total_instance_sizeTB st + sum_list (map (is_total_sizeTB \<circ> fst) scopes) \<and>
      sheet_of st' filename ''Instance Info'' =
        map_option
          (\<lambda>sh. set_row_fill (set_row_bold
             (sh @ map (\<lambda>r. plain_row (cv_instance_row r)) (concat (map snd scopes))) 1) 1)
          (sheet_of st filename ''Instance Info'') \<and>
      sheet_of st' filename ''Instance Summary'' =
        map_option
          (\<lambda>sh. set_row_fill (set_row_bold
             (set_row_bold
                (sh @ [plain_row [CStr ''Total Instances'', CInt (total_instances st'),
                            CInt (total_instance_sizeGB st'), CDec (total_instance_sizeTB st')]]) 2 @
              map (\<lambda>scope. plain_row (cv_instance_summary_row (fst scope))) scopes) 1) 1)
          (sheet_of st filename ''Instance Summary'')"
proof -
  from cv_instance_run [OF assms] obtain rs scopes st1 where
    scopes: "list_all (\<lambda>scope. instance_scope (fst scope) (snd scope)) scopes"
    and st1: "st1 = cv_instance_detail filename (concat (map snd scopes)) (after_regions rs st)"
    and st': "st' = formatted filename
                   (append_rows filename ''Instance Summary''
                      (map (plain_row \<circ> cv_instance_summary_row) (map fst scopes))
                      (update_sheet filename ''Instance Summary''
                         (\<lambda>sh. set_row_bold
                            (sh @ [plain_row [CStr ''Total Instances'', CInt (total_instances st1),
                            CInt (total_instance_sizeGB st1), CDec (total_instance_sizeTB st1)]]) 2)
                         st1))"
    by blast
  note sums = instance_scope_sums [OF scopes]
  have same: "total_instances st1 = total_instances st'" "total_instance_sizeGB st1 = total_instance_sizeGB st'" "total_instance_sizeTB st1 = total_instance_sizeTB st'"
    by (simp_all add: st')
  have t:
    "total_instances st' = total_instances st + sum_list (map (is_instance_count \<circ> fst) scopes)"
    "total_instance_sizeGB st' = total_instance_sizeGB st + sum_list (map (is_total_sizeGB \<circ> fst) scopes)"
    "total_instance_sizeTB st' = total_instance_sizeTB st + sum_list (map (is_total_sizeTB \<circ> fst) scopes)"
    using sums by (simp_all add: st' st1 cv_instance_detail_def)
  have i: "sheet_of st' filename ''Instance Info'' =
        map_option
          (\<lambda>sh. set_row_fill (set_row_bold
             (sh @ map (\<lambda>r. plain_row (cv_instance_row r)) (concat (map snd scopes))) 1) 1)
          (sheet_of st filename ''Instance Info'')"
    by (cases "sheet_of st filename ''Instance Info''")
      (simp_all add: st' st1 cv_instance_detail_def sheet_of_formatted sheet_of_append_rows
        sheet_of_update_sheet)
  define gt where "gt = plain_row [CStr ''Total Instances'', CInt (total_instances st1),
                            CInt (total_instance_sizeGB st1), CDec (total_instance_sizeTB st1)]"
  have st'': "st' = formatted filename
                   (append_rows filename ''Instance Summary''
                      (map (plain_row \<circ> cv_instance_summary_row) (map fst scopes))
                      (update_sheet filename ''Instance Summary''
                         (\<lambda>sh. set_row_bold (sh @ [gt]) 2) st1))"
    using st' by (simp add: gt_def)
  have s: "sheet_of st' filename ''Instance Summary'' =
        map_option
          (\<lambda>sh. set_row_fill (set_row_bold
             (set_row_bold (sh @ [gt]) 2 @
              map (\<lambda>scope. plain_row (cv_instance_summary_row (fst scope))) scopes) 1) 1)
          (sheet_of st filename ''Instance Summary'')"
    by (cases "sheet_of st filename ''Instance Summary''")
      (simp_all add: st'' st1 cv_instance_detail_def sheet_of_formatted sheet_of_append_rows
        sheet_of_update_sheet comp_def)
  from scopes t i s [unfolded gt_def same] show ?thesis by blast
qed

lemma cv_oke_report:
  assumes "cv_get_oke_cluster_info env filename regions compartments st = Ok u st'"
  shows "\<exists>scopes.
      list_all (\<lambda>scope. cluster_scope (fst scope) (snd scope)) scopes \<and>
      total_oke_clusters st' = total_oke_clusters st + sum_list (map (ks_cluster_count \<circ> fst) scopes) \<and>
      total_oke_node_count st' = total_oke_node_count st + sum_list (map (ks_total_node_count \<circ> fst) scopes) \<and>
      total_oke_pvc_count st' = total_oke_pvc_count st + sum_list (map (ks_total_pvc_count \<circ> fst) scopes) \<and>
      total_oke_pvc_size_gb st' = total_oke_pvc_size_gb st + sum_list (map (ks_total_pvc_size_gb \<circ> fst) scopes) \<and>
      total_oke_pvc_size_tb st' = total_oke_pvc_size_tb st + sum_list (map (ks_total_pvc_size_tb \<circ> fst) scopes) \<and>
      sheet_of st' filename ''OKE Cluster Info'' =
        map_option
          (\<lambda>sh. set_row_fill (set_row_bold
             (sh @ map (\<lambda>r. plain_row (cluster_row r)) (concat (map snd scopes))) 1) 1)
          (sheet_of st filename ''OKE Cluster Info'') \<and>
      sheet_of st' filename ''OKE Cluster Summary'' =
        map_option
          (\<lambda>sh. set_row_fill (set_row_bold
             (set_row_bold
                (sh @ [plain_row [CStr ''Total OKE Clusters'', CInt (total_oke_clusters st'),
                            CInt (total_oke_node_count st'), CInt (total_oke_pvc_count st'),
                            CInt (total_oke_pvc_size_gb st'), CDec (total_oke_pvc_size_tb st')]]) 2 @
              map (\<lambda>scope. plain_row (cluster_summary_row (fst scope))) scopes) 1) 1)
          (sheet_of st filename ''OKE Cluster Summary'')"
proof -
  from cv_oke_run [OF assms] obtain rs scopes paths st1 where
    scopes: "list_all (\<lambda>scope. cluster_scope (fst scope) (snd scope)) scopes"
    and st1: "st1 = cv_cluster_detail filename (concat (map snd scopes)) paths (after_regions rs st)"
    and st': "st' = formatted filename
                   (append_rows filename ''OKE Cluster Summary''
                      (map (plain_row \<circ> cluster_summary_row) (map fst scopes))
                      (update_sheet filename ''OKE Cluster Summary''
                         (\<lambda>sh. set_row_bold
                            (sh @ [plain_row [CStr ''Total OKE Clusters'', CInt (total_oke_clusters st1),
                            CInt (total_oke_node_count st1), CInt (total_oke_pvc_count st1),
                            CInt (total_oke_pvc_size_gb st1), CDec (total_oke_pvc_size_tb st1)]]) 2)
                         st1))"
    by blast
  note sums = cluster_scope_sums [OF scopes]
  have same: "total_oke_clusters st1 = total_oke_clusters st'" "total_oke_node_count st1 = total_oke_node_count st'" "total_oke_pvc_count st1 = total_oke_pvc_count st'" "total_oke_pvc_size_gb st1 = total_oke_pvc_size_gb st'" "total_oke_pvc_size_tb st1 = total_oke_pvc_size_tb st'"
    by (simp_all add: st')
  have t:
    "total_oke_clusters st' = total_oke_clusters st + sum_list (map (ks_cluster_count \<circ> fst) scopes)"
    "total_oke_node_count st' = total_oke_node_count st + sum_list (map (ks_total_node_count \<circ> fst) scopes)"
    "total_oke_pvc_count st' = total_oke_pvc_count st + sum_list (map (ks_total_pvc_count \<circ> fst) scopes)"
    "total_oke_pvc_size_gb st' = total_oke_pvc_size_gb st + sum_list (map (ks_total_pvc_size_gb \<circ> fst) scopes)"
    "total_oke_pvc_size_tb st' = total_oke_pvc_size_tb st + sum_list (map (ks_total_pvc_size_tb \<circ> fst) scopes)"
    using sums by (simp_all add: st' st1 cv_cluster_detail_def)
  have i: "sheet_of st' filename ''OKE Cluster Info'' =
        map_option
          (\<lambda>sh. set_row_fill (set_row_bold
             (sh @ map (\<lambda>r. plain_row (cluster_row r)) (concat (map snd scopes))) 1) 1)
          (sheet_of st filename ''OKE Cluster Info'')"
    by (cases "sheet_of st filename ''OKE Cluster Info''")
      (simp_all add: st' st1 cv_cluster_detail_def sheet_of_formatted sheet_of_append_rows
        sheet_of_update_sheet)
  define gt where "gt = plain_row [CStr ''Total OKE Clusters'', CInt (total_oke_clusters st1),
                            CInt (total_oke_node_count st1), CInt (total_oke_pvc_count st1),
                            CInt (total_oke_pvc_size_gb st1), CDec (total_oke_pvc_size_tb st1)]"
  have st'': "st' = formatted filename
                   (append_rows filename ''OKE Cluster Summary''
                      (map (plain_row \<circ> cluster_summary_row) (map fst scopes))
                      (update_sheet filename ''OKE Cluster Summary''
                         (\<lambda>sh. set_row_bold (sh @ [gt]) 2) st1))"
    using st' by (simp add: gt_def)
  have s: "sheet_of st' filename ''OKE Cluster Summary'' =
        map_option
          (\<lambda>sh. set_row_fill (set_row_bold
             (set_row_bold (sh @ [gt]) 2 @
              map (\<lambda>scope. plain_row (cluster_summary_row (fst scope))) scopes) 1) 1)
          (sheet_of st filename ''OKE Cluster Summary'')"
    by (cases "sheet_of st filename ''OKE Cluster Summary''")
      (simp_all add: st'' st1 cv_cluster_detail_def sheet_of_formatted sheet_of_append_rows
        sheet_of_update_sheet comp_def)
  from scopes t i s [unfolded gt_def same] show ?thesis by blast
qed

subsection \<open>The configuration after a run\<close>

lemma cs_object_storage_config:
  assumes "cs_get_object_storage_info env filename regions compartments st = Ok u st'"
    and "default_regions env regions st = Inr rs"
  shows "config st' = config (after_regions rs st)"
  using cs_object_storage_run [OF assms(1)] assms(2)
  by (auto simp: cs_bucket_report_def)

lemma cs_instance_config:
  assumes "cs_get_instance_info env filename regions compartments st = Ok u st'"
    and "default_regions env regions st = Inr rs"
  shows "config st' = config (after_regions rs st)"
  using cs_instance_run [OF assms(1)] assms(2)
  by (auto simp: cs_instance_report_def)

lemma cv_object_storage_config:
  assumes "cv_get_object_storage_info env filename regions compartments st = Ok u st'"
    and "default_regions env regions st = Inr rs"
  shows "config st' = config (after_regions rs st)"
  using cv_object_storage_run [OF assms(1)] assms(2)
  by (auto simp: cv_bucket_detail_def)

lemma cv_instance_config:
  assumes "cv_get_instance_info env filename regions compartments st = Ok u st'"
    and "default_regions env regions st = Inr rs"
  shows "config st' = config (after_regions rs st)"
  using cv_instance_run [OF assms(1)] assms(2)
  by (auto simp: cv_instance_detail_def)

lemma cv_oke_config:
  assumes "cv_get_oke_cluster_info env filename regions compartments st = Ok u st'"
    and "default_regions env regions st = Inr rs"
  shows "config st' = config (after_regions rs st)"
  using cv_oke_run [OF assms(1)] assms(2)
  by (auto simp: cv_cluster_detail_def)

subsection \<open>DB systems\<close>

lemma db_counters_kept [simp]:
  "total_db_systems (append_rows filename title rows st) = total_db_systems st"
  "total_db_system_sizeGB (append_rows filename title rows st) = total_db_system_sizeGB st"
  "total_db_system_sizeTB (append_rows filename title rows st) = total_db_system_sizeTB st"
  "total_db_systems (formatted filename st) = total_db_systems st"
  "total_db_system_sizeGB (formatted filename st) = total_db_system_sizeGB st"
  "total_db_system_sizeTB (formatted filename st) = total_db_system_sizeTB st"
  "total_db_systems (update_sheet filename title g st) = total_db_systems st"
  "total_db_system_sizeGB (update_sheet filename title g st) = total_db_system_sizeGB st"
  "total_db_system_sizeTB (update_sheet filename title g st) = total_db_system_sizeTB st"
  "total_db_systems (after_regions rs st) = total_db_systems st"
  "total_db_system_sizeGB (after_regions rs st) = total_db_system_sizeGB st"
  "total_db_system_sizeTB (after_regions rs st) = total_db_system_sizeTB st"
  by (simp_all add: append_rows_def formatted_def update_sheet_def save_def after_regions_def
      set_region_def split: option.splits)

lemma count_db_systems_append_rows [simp]:
  "count_db_systems recs (append_rows filename title rows st) =
     append_rows filename title rows (count_db_systems recs st)"
  by (simp add: append_rows_def save_def count_db_systems_def split: option.splits)

lemma count_db_systems_append [simp]:
  "count_db_systems r2 (count_db_systems r1 st) = count_db_systems (r1 @ r2) st"
  by (simp add: count_db_systems_def)

lemma count_db_systems_Nil [simp]: "count_db_systems [] st = st"
  by (simp add: count_db_systems_def)

lemma add_db_systems_append [simp]:
  "add_db_systems r2 (add_db_systems r1 s) = add_db_systems (r1 @ r2) s"
  by (simp add: add_db_systems_def)

lemma add_db_systems_Nil [simp]: "add_db_systems [] s = s"
  by (simp add: add_db_systems_def)

lemma count_db_systems_kept [simp]:
  "set_region r (count_db_systems recs st) = count_db_systems recs (set_region r st)"
  "sheet_of (count_db_systems recs st) f t = sheet_of st f t"
  "config (count_db_systems recs st) = config st"
  by (simp_all add: set_region_def count_db_systems_def sheet_of_def)

lemma totals_count_db_systems [simp]:
  "total_db_systems (count_db_systems recs st) = total_db_systems st + int (length recs)"
  "total_db_system_sizeGB (count_db_systems recs st) =
     total_db_system_sizeGB st + sum_list (map di_data_storage_size_gb recs)"
  "total_db_system_sizeTB (count_db_systems recs st) =
     total_db_system_sizeTB st + sum_list (map di_data_storage_size_tb recs)"
  by (simp_all add: count_db_systems_def)

lemma cv_db_step_eq:
  "cv_db_step region compartment db (s, l) st =
     (if live_db_system db then
        (case db_data_storage_size_in_gbs db of
           None \<Rightarrow> Raised TypeError st
         | Some gb \<Rightarrow>
             Ok (add_db_systems [db_info_of region compartment db gb] s,
                 l @ [db_info_of region compartment db gb])
                (count_db_systems [db_info_of region compartment db gb] st))
      else Ok (s, l) st)"
  by (simp add: cv_db_step_def live_db_system_def add_db_systems_def add_db_system_def
      count_db_systems_def count_db_system_def Let_def split: option.splits)

lemma db_records_Cons:
  "db_records region compartment (db # dbs) =
     (if live_db_system db then
        (case db_data_storage_size_in_gbs db of
           None \<Rightarrow> []
         | Some gb \<Rightarrow> [db_info_of region compartment db gb])
      else []) @ db_records region compartment dbs"
  by (simp add: db_records_def)

lemma db_records_Nil [simp]: "db_records region compartment [] = []"
  by (simp add: db_records_def)

lemma db_loop:
  "for_each (cv_db_step region compartment) dbs (s, l) st = Ok acc st' \<Longrightarrow>
   acc = (add_db_systems (db_records region compartment dbs) s,
          l @ db_records region compartment dbs) \<and>
   st' = count_db_systems (db_records region compartment dbs) st"
proof (induction dbs arbitrary: s l st)
  case Nil
  then show ?case by auto
next
  case (Cons db dbs)
  show ?case
  proof (cases "live_db_system db")
    case False
    with Cons.prems have "for_each (cv_db_step region compartment) dbs (s, l) st = Ok acc st'"
      by (simp add: cv_db_step_eq)
    from Cons.IH [OF this] False show ?thesis by (simp add: db_records_Cons)
  next
    case True
    show ?thesis
    proof (cases "db_data_storage_size_in_gbs db")
      case None
      with True Cons.prems show ?thesis by (simp add: cv_db_step_eq)
    next
      case (Some gb)
      with True Cons.prems have
        "for_each (cv_db_step region compartment) dbs
           (add_db_systems [db_info_of region compartment db gb] s,
            l @ [db_info_of region compartment db gb])
           (count_db_systems [db_info_of region compartment db gb] st) = Ok acc st'"
        by (simp add: cv_db_step_eq)
      from Cons.IH [OF this] True Some show ?thesis by (simp add: db_records_Cons)
    qed
  qed
qed

lemma db_loop_filter:
  "for_each (cv_db_step region compartment) dbs acc st =
     for_each (cv_db_step region compartment) (filter live_db_system dbs) acc st"
proof (induction dbs arbitrary: acc st)
  case Nil
  then show ?case by simp
next
  case (Cons db dbs)
  obtain s l where acc: "acc = (s, l)" by (cases acc)
  show ?case
    using Cons.IH
    by (cases "live_db_system db")
      (simp_all add: acc cv_db_step_eq split: option.splits outcome.splits)
qed

lemma db_records_props:
  "list_all (\<lambda>r. di_lifecycle_state r \<noteq> ''TERMINATED'' \<and>
                di_data_storage_size_tb r = round2_quot (di_data_storage_size_gb r) 1024)
     (db_records region compartment dbs)"
  by (induction dbs)
    (simp_all add: db_records_Cons db_info_of_def live_db_system_def split: option.splits)

lemma cv_rows_of_dbs:
  "collect (map (cv_info_row ''db_systems'' \<circ> DBSystem) l) = Inr (map db_system_row l)"
  by (induction l) (simp_all add: cv_info_row_def)

lemma cv_dump_info_dbs:
  "cv_dump_info filename ''db_systems'' (map DBSystem l) st = Ok u st' \<Longrightarrow>
   st' = append_rows filename ''DB System Info'' (map (plain_row \<circ> db_system_row) l) st"
  by (auto simp: cv_dump_info_def cv_get_sheet_info_def load_workbook_def wb_getitem_def
      cv_rows_of_dbs append_rows_def foldl_sheet_append split: option.splits)

lemma cv_summary_rows_of_dbs:
  "collect (map (cv_summary_row ''db_systems'' \<circ> DBSum) l) = Inr (map db_summary_row l)"
  by (induction l) (simp_all add: cv_summary_row_def)

lemma cv_dump_summary_dbs:
  "cv_dump_summary filename ''db_systems'' (map DBSum l) st = Ok u st' \<Longrightarrow>
   st' = append_rows filename ''DB System Summary'' (map (plain_row \<circ> db_summary_row) l) st"
  by (auto simp: cv_dump_summary_def cv_get_sheet_info_def load_workbook_def wb_getitem_def
      cv_summary_rows_of_dbs append_rows_def foldl_sheet_append split: option.splits)

lemma cv_db_detail_Nil [simp]: "cv_db_detail filename [] st = st"
  by (simp add: cv_db_detail_def)

lemma cv_db_detail_append:
  "cv_db_detail filename r2 (cv_db_detail filename r1 st) = cv_db_detail filename (r1 @ r2) st"
  by (simp add: cv_db_detail_def)

lemma cv_db_detail_region:
  "set_region r (cv_db_detail filename d st) = cv_db_detail filename d (set_region r st)"
  by (simp add: cv_db_detail_def)

lemma db_scope_new:
  "db_scope
     (add_db_systems recs \<lparr>ds_region = a, ds_db_system_count = 0, ds_total_storage_gb = 0,
        ds_total_storage_tb = 0\<rparr>) recs"
  by (simp add: db_scope_def add_db_systems_def)

lemma cv_db_compartment_Ok:
  assumes "cv_db_compartment env filename region compartment s st = Ok s' st'"
  shows "\<exists>recs. s' = add_db_systems recs s \<and> st' = cv_db_detail filename recs st"
proof (cases "list_db_systems env region compartment")
  case (Inl e)
  with assms have "s' = add_db_systems [] s \<and> st' = cv_db_detail filename [] st"
    by (simp add: cv_db_compartment_def)
  then show ?thesis by blast
next
  case (Inr dbs)
  show ?thesis
  proof (cases "dbs = []")
    case True
    with assms Inr have "s' = add_db_systems [] s \<and> st' = cv_db_detail filename [] st"
      by (simp add: cv_db_compartment_def)
    then show ?thesis by blast
  next
    case False
    define recs where "recs = db_records region compartment dbs"
    from assms Inr False obtain acc st1 u1 where
      loop: "for_each (cv_db_step region compartment) dbs (s, []) st = Ok acc st1"
      and dump: "cv_dump_info filename ''db_systems'' (map DBSystem (snd acc)) st1 = Ok u1 st'"
      and s': "s' = fst acc"
      by (auto simp: cv_db_compartment_def and_then_Ok)
    from db_loop [OF loop] have acc: "acc = (add_db_systems recs s, recs)"
      and st1: "st1 = count_db_systems recs st"
      by (simp_all add: recs_def)
    have "st' = cv_db_detail filename recs st"
      using cv_dump_info_dbs [OF dump] by (simp add: acc st1 cv_db_detail_def comp_def)
    with s' acc show ?thesis by auto
  qed
qed

lemma cv_db_region_Ok:
  assumes "cv_db_region env filename compartments region l st = Ok l' st'"
  shows "\<exists>scopes. (list_all (\<lambda>scope. db_scope (fst scope) (snd scope)) scopes \<and>
            l' = l @ map fst scopes) \<and>
           st' = cv_db_detail filename (concat (map snd scopes)) (set_region region st)"
proof -
  define s0 where "s0 = \<lparr>ds_region = Some region, ds_db_system_count = 0,
           ds_total_storage_gb = 0, ds_total_storage_tb = 0\<rparr>"
  from assms obtain s' where run:
    "for_each (cv_db_compartment env filename region) compartments s0
       (set_region region st) = Ok s' st'" and l': "l' = l @ [s']"
    by (auto simp: cv_db_region_def and_then_Ok s0_def)
  have "\<exists>recs. s' = add_db_systems recs s0 \<and>
          st' = cv_db_detail filename recs (set_region region st)"
    by (rule for_each_rel [OF run, where dz = "[]" and join = "(@)"
          and R = "\<lambda>d b b'. b' = add_db_systems d b"
          and G = "cv_db_detail filename"])
      (auto dest: cv_db_compartment_Ok simp: cv_db_detail_append)
  then obtain recs where recs: "s' = add_db_systems recs s0"
    "st' = cv_db_detail filename recs (set_region region st)" by blast
  have "db_scope s' recs" unfolding recs(1) s0_def by (rule db_scope_new)
  with recs l' have "(list_all (\<lambda>scope. db_scope (fst scope) (snd scope)) [(s', recs)] \<and>
            l' = l @ map fst [(s', recs)]) \<and>
           st' = cv_db_detail filename (concat (map snd [(s', recs)])) (set_region region st)"
    by simp
  then show ?thesis by blast
qed

lemma cv_db_regions_Ok:
  assumes "for_each (cv_db_region env filename compartments) regions l st = Ok l' st'"
  shows "\<exists>scopes. (list_all (\<lambda>scope. db_scope (fst scope) (snd scope)) scopes \<and>
            l' = l @ map fst scopes) \<and>
           st' = cv_db_detail filename (concat (map snd scopes)) (after_regions regions st)"
  by (rule for_each_region_rel [OF assms, where dz = "[]" and join = "(@)"
        and R = "\<lambda>d b b'. list_all (\<lambda>scope. db_scope (fst scope) (snd scope)) d \<and>
                   b' = b @ map fst d"
        and G = "\<lambda>d. cv_db_detail filename (concat (map snd d))"])
    (auto dest: cv_db_region_Ok simp: cv_db_detail_append cv_db_detail_region)

lemma db_scope_sums:
  "list_all (\<lambda>scope. db_scope (fst scope) (snd scope)) scopes \<Longrightarrow>
   int (length (concat (map snd scopes))) = sum_list (map (ds_db_system_count \<circ> fst) scopes) \<and>
   sum_list (map di_data_storage_size_gb (concat (map snd scopes))) =
     sum_list (map (ds_total_storage_gb \<circ> fst) scopes) \<and>
   sum_list (map di_data_storage_size_tb (concat (map snd scopes))) =
     sum_list (map (ds_total_storage_tb \<circ> fst) scopes)"
  by (induction scopes) (simp_all add: db_scope_def)

lemma cv_db_run:
  assumes "cv_get_database_info env filename regions compartments st = Ok u st'"
  shows "\<exists>rs scopes st1. default_regions env regions st = Inr rs \<and>
           list_all (\<lambda>scope. db_scope (fst scope) (snd scope)) scopes \<and>
           st1 = cv_db_detail filename (concat (map snd scopes)) (after_regions rs st) \<and>
           st' = formatted filename
                   (append_rows filename ''DB System Summary''
                      (map (plain_row \<circ> db_summary_row) (map fst scopes))
                      (update_sheet filename ''DB System Summary''
                         (\<lambda>sh. set_row_bold
                            (sh @ [plain_row [CStr ''Total DB Systems'', CInt (total_db_systems st1),
                                     CInt (total_db_system_sizeGB st1),
                                     CDec (total_db_system_sizeTB st1)]]) 2)
                         st1))"
proof -
  from assms obtain rs cs where rs: "default_regions env regions st = Inr rs"
    and cs: "default_compartments env compartments st = Inr cs"
    by (auto simp: cv_get_database_info_def split: sum.splits)
  with assms obtain l st1 u2 st2 u3 st3 where
    loop: "for_each (cv_db_region env filename cs) rs [] st = Ok l st1"
    and total: "cv_write_grand_total filename ''db_systems'' st1 = Ok u2 st2"
    and summ: "cv_dump_summary filename ''db_systems'' (map DBSum l) st2 = Ok u3 st3"
    and fmt: "format_workbook filename st3 = Ok u st'"
    by (auto simp: cv_get_database_info_def and_then_Ok)
  from cv_db_regions_Ok [OF loop] obtain scopes where
    scopes: "list_all (\<lambda>scope. db_scope (fst scope) (snd scope)) scopes"
    and l: "l = map fst scopes"
    and st1: "st1 = cv_db_detail filename (concat (map snd scopes)) (after_regions rs st)"
    by auto
  have row: "cv_grand_total_row ''db_systems'' st1 =
      Inr (''DB System Summary'',
           [CStr ''Total DB Systems'', CInt (total_db_systems st1),
            CInt (total_db_system_sizeGB st1), CDec (total_db_system_sizeTB st1)])"
    by (simp add: cv_grand_total_row_def)
  from cv_write_grand_total_Ok [OF total row] cv_dump_summary_dbs [OF summ]
    format_workbook_Ok [OF fmt] l
  have "st' = formatted filename
                   (append_rows filename ''DB System Summary''
                      (map (plain_row \<circ> db_summary_row) (map fst scopes))
                      (update_sheet filename ''DB System Summary''
                         (\<lambda>sh. set_row_bold
                            (sh @ [plain_row [CStr ''Total DB Systems'', CInt (total_db_systems st1),
                                     CInt (total_db_system_sizeGB st1),
                                     CDec (total_db_system_sizeTB st1)]]) 2)
                         st1))"
    by simp
  with rs scopes st1 show ?thesis by blast
qed

lemma cv_db_report:
  assumes "cv_get_database_info env filename regions compartments st = Ok u st'"
  shows "\<exists>scopes.
      list_all (\<lambda>scope. db_scope (fst scope) (snd scope)) scopes \<and>
      total_db_systems st' = total_db_systems st + sum_list (map (ds_db_system_count \<circ> fst) scopes) \<and>
      total_db_system_sizeGB st' = total_db_system_sizeGB st + sum_list (map (ds_total_storage_gb \<circ> fst) scopes) \<and>
      total_db_system_sizeTB st' = total_db_system_sizeTB st + sum_list (map (ds_total_storage_tb \<circ> fst) scopes) \<and>
      sheet_of st' filename ''DB System Info'' =
        map_option
          (\<lambda>sh. set_row_fill (set_row_bold
             (sh @ map (\<lambda>r. plain_row (db_system_row r)) (concat (map snd scopes))) 1) 1)
          (sheet_of st filename ''DB System Info'') \<and>
      sheet_of st' filename ''DB System Summary'' =
        map_option
          (\<lambda>sh. set_row_fill (set_row_bold
             (set_row_bold
                (sh @ [plain_row [CStr ''Total DB Systems'', CInt (total_db_systems st'),
                            CInt (total_db_system_sizeGB st'), CDec (total_db_system_sizeTB st')]]) 2 @
              map (\<lambda>scope. plain_row (db_summary_row (fst scope))) scopes) 1) 1)
          (sheet_of st filename ''DB System Summary'')"
proof -
  from cv_db_run [OF assms] obtain rs scopes st1 where
    scopes: "list_all (\<lambda>scope. db_scope (fst scope) (snd scope)) scopes"
    and st1: "st1 = cv_db_detail filename (concat (map snd scopes)) (after_regions rs st)"
    and st': "st' = formatted filename
                   (append_rows filename ''DB System Summary''
                      (map (plain_row \<circ> db_summary_row) (map fst scopes))
                      (update_sheet filename ''DB System Summary''
                         (\<lambda>sh. set_row_bold
                            (sh @ [plain_row [CStr ''Total DB Systems'', CInt (total_db_systems st1),
                            CInt (total_db_system_sizeGB st1), CDec (total_db_system_sizeTB st1)]]) 2)
                         st1))"
    by blast
  note sums = db_scope_sums [OF scopes]
  have same: "total_db_systems st1 = total_db_systems st'" "total_db_system_sizeGB st1 = total_db_system_sizeGB st'" "total_db_system_sizeTB st1 = total_db_system_sizeTB st'"
    by (simp_all add: st')
  have t:
    "total_db_systems st' = total_db_systems st + sum_list (map (ds_db_system_count \<circ> fst) scopes)"
    "total_db_system_sizeGB st' = total_db_system_sizeGB st + sum_list (map (ds_total_storage_gb \<circ> fst) scopes)"
    "total_db_system_sizeTB st' = total_db_system_sizeTB st + sum_list (map (ds_total_storage_tb \<circ> fst) scopes)"
    using sums by (simp_all add: st' st1 cv_db_detail_def)
  have i: "sheet_of st' filename ''DB System Info'' =
        map_option
          (\<lambda>sh. set_row_fill (set_row_bold
             (sh @ map (\<lambda>r. plain_row (db_system_row r)) (concat (map snd scopes))) 1) 1)
          (sheet_of st filename ''DB System Info'')"
    by (cases "sheet_of st filename ''DB System Info''")
      (simp_all add: st' st1 cv_db_detail_def sheet_of_formatted sheet_of_append_rows
        sheet_of_update_sheet)
  define gt where "gt = plain_row [CStr ''Total DB Systems'', CInt (total_db_systems st1),
                            CInt (total_db_system_sizeGB st1), CDec (total_db_system_sizeTB st1)]"
  have st'': "st' = formatted filename
                   (append_rows filename ''DB System Summary''
                      (map (plain_row \<circ> db_summary_row) (map fst scopes))
                      (update_sheet filename ''DB System Summary''
                         (\<lambda>sh. set_row_bold (sh @ [gt]) 2) st1))"
    using st' by (simp add: gt_def)
  have s: "sheet_of st' filename ''DB System Summary'' =
        map_option
          (\<lambda>sh. set_row_fill (set_row_bold
             (set_row_bold (sh @ [gt]) 2 @
              map (\<lambda>scope. plain_row (db_summary_row (fst scope))) scopes) 1) 1)
          (sheet_of st filename ''DB System Summary'')"
    by (cases "sheet_of st filename ''DB System Summary''")
      (simp_all add: st'' st1 cv_db_detail_def sheet_of_formatted sheet_of_append_rows
        sheet_of_update_sheet comp_def)
  from scopes t i s [unfolded gt_def same] show ?thesis by blast
qed

lemma cv_db_config:
  assumes "cv_get_database_info env filename regions compartments st = Ok u st'"
    and "default_regions env regions st = Inr rs"
  shows "config st' = config (after_regions rs st)"
  using cv_db_run [OF assms(1)] assms(2)
  by (auto simp: cv_db_detail_def)

subsection \<open>DB systems on the provider without its terminal resources\<close>

lemma for_each_Ok_mono:
  assumes "for_each body xs b st = Ok b' st'"
    and "\<And>x b st b' st'. body x b st = Ok b' st' \<Longrightarrow> body2 x b st = Ok b' st'"
  shows "for_each body2 xs b st = Ok b' st'"
  using assms(1)
proof (induction xs arbitrary: b st)
  case Nil
  then show ?case by simp
next
  case (Cons x xs)
  from Cons.prems obtain b1 st1 where
    first: "body x b st = Ok b1 st1" and rest: "for_each body xs b1 st1 = Ok b' st'"
    by (auto split: outcome.splits)
  from assms(2) [OF first] Cons.IH [OF rest] show ?case by simp
qed

lemma live_listing_db_compartment:
  assumes "cv_db_compartment env filename region c s st = Ok s' st'"
  shows "cv_db_compartment (live_listing env) filename region c s st = Ok s' st'"
proof (cases "list_db_systems env region c")
  case (Inl e)
  with assms show ?thesis by (simp add: cv_db_compartment_def live_listing_def)
next
  case (Inr dbs)
  have l: "list_db_systems (live_listing env) region c = Inr (filter live_db_system dbs)"
    using Inr by (simp add: live_listing_def)
  show ?thesis
  proof (cases "dbs = []")
    case True
    with assms Inr l show ?thesis by (simp add: cv_db_compartment_def)
  next
    case False
    from assms Inr False obtain acc st1 u1 where
      loop: "for_each (cv_db_step region c) dbs (s, []) st = Ok acc st1"
      and dump: "cv_dump_info filename ''db_systems'' (map DBSystem (snd acc)) st1 = Ok u1 st'"
      and s': "s' = fst acc"
      by (auto simp: cv_db_compartment_def and_then_Ok)
    show ?thesis
    proof (cases "filter live_db_system dbs = []")
      case True
      then have "db_records region c dbs = []" by (simp add: db_records_def)
      with db_loop [OF loop] have acc: "acc = (s, [])" and st1: "st1 = st" by simp_all
      from cv_dump_info_dbs [OF dump] have "st' = st" by (simp add: acc st1)
      with s' acc True l show ?thesis by (simp add: cv_db_compartment_def)
    next
      case False
      with loop dump s' l show ?thesis
        by (simp add: cv_db_compartment_def db_loop_filter [of region c dbs] and_then_Ok)
    qed
  qed
qed

lemma live_listing_db_run:
  assumes "cv_get_database_info env filename regions compartments st = Ok u st'"
  shows "cv_get_database_info (live_listing env) filename regions compartments st = Ok u st'"
proof -
  have region: "cv_db_region (live_listing env) filename cs r l s = Ok l' s'"
    if "cv_db_region env filename cs r l s = Ok l' s'" for cs r l s l' s'
  proof -
    from that obtain b where
      loop: "for_each (cv_db_compartment env filename r) cs
          \<lparr>ds_region = Some r, ds_db_system_count = 0, ds_total_storage_gb = 0,
           ds_total_storage_tb = 0\<rparr> (set_region r s) = Ok b s'"
      and l': "l' = l @ [b]"
      by (auto simp: cv_db_region_def and_then_Ok)
    from for_each_Ok_mono [OF loop, where ?body2.0 = "cv_db_compartment (live_listing env) filename r"]
      live_listing_db_compartment l'
    show ?thesis by (simp add: cv_db_region_def)
  qed
  from assms obtain rs cs where rs: "default_regions env regions st = Inr rs"
    and cs: "default_compartments env compartments st = Inr cs"
    by (auto simp: cv_get_database_info_def split: sum.splits)
  with assms obtain l st1 where
    loop: "for_each (cv_db_region env filename cs) rs [] st = Ok l st1"
    and rest: "and_then (cv_write_grand_total filename ''db_systems'' st1)
                 (\<lambda>_ st2.
                    and_then
                      (cv_dump_summary filename ''db_systems'' (map DBSum l) st2)
                      (\<lambda>_. format_workbook filename)) = Ok u st'"
    by (auto simp: cv_get_database_info_def and_then_Ok)
  from for_each_Ok_mono [OF loop, where ?body2.0 = "cv_db_region (live_listing env) filename cs"]
    region
  have "for_each (cv_db_region (live_listing env) filename cs) rs [] st = Ok l st1" by blast
  with rest rs cs show ?thesis
    by (simp add: cv_get_database_info_def live_listing_defaults)
qed

subsection \<open>Runs of the small tenancy\<close>

lemma outcome_Ok_final:
  fixes x :: "unit outcome"
  shows "(case x of Ok a s \<Rightarrow> True | Raised e s \<Rightarrow> False) \<Longrightarrow> x = Ok () (final_state x)"
  by (cases x) simp_all

lemma outcome_Ok_ex:
  "(case x of Ok a s \<Rightarrow> True | Raised e s \<Rightarrow> False) \<Longrightarrow> \<exists>a s. x = Ok a s"
  by (cases x) simp_all

lemma demo_runs:
  "cs_get_object_storage_info demo_cloud ''report.xlsx'' [] [] (cs_start ''object_storage'') =
     Ok () (final_state (cs_get_object_storage_info demo_cloud ''report.xlsx'' [] []
       (cs_start ''object_storage'')))"
  "cs_get_instance_info demo_cloud ''report.xlsx'' [] [''c1''] (cs_start ''instances'') =
     Ok () (final_state (cs_get_instance_info demo_cloud ''report.xlsx'' [] [''c1'']
       (cs_start ''instances'')))"
  "cv_get_object_storage_info demo_cloud ''report.xlsx'' [] [] (cv_start ''object_storage'') =
     Ok () (final_state (cv_get_object_storage_info demo_cloud ''report.xlsx'' [] []
       (cv_start ''object_storage'')))"
  "cv_get_instance_info demo_cloud ''report.xlsx'' [] [''c1''] (cv_start ''instances'') =
     Ok () (final_state (cv_get_instance_info demo_cloud ''report.xlsx'' [] [''c1'']
       (cv_start ''instances'')))"
  "cv_get_oke_cluster_info demo_cloud ''report.xlsx'' [] [] (cv_start ''oke_clusters'') =
     Ok () (final_state (cv_get_oke_cluster_info demo_cloud ''report.xlsx'' [] []
       (cv_start ''oke_clusters'')))"
  "cv_get_database_info demo_cloud ''report.xlsx'' [] [] (cv_start ''db_systems'') =
     Ok () (final_state (cv_get_database_info demo_cloud ''report.xlsx'' [] []
       (cv_start ''db_systems'')))"
  by (rule outcome_Ok_final, code_simp)+

lemma demo_regions:
  "default_regions demo_cloud [] (cs_start ''object_storage'') = Inr [''r1'']"
  "default_regions demo_cloud [] (cs_start ''instances'') = Inr [''r1'']"
  "default_regions demo_cloud [] (cv_start ''object_storage'') = Inr [''r1'']"
  "default_regions demo_cloud [] (cv_start ''instances'') = Inr [''r1'']"
  "default_regions demo_cloud [] (cv_start ''oke_clusters'') = Inr [''r1'']"
  "default_regions demo_cloud [] (cv_start ''db_systems'') = Inr [''r1'']"
  by code_simp+

subsection \<open>Instances on the provider without its terminal resources\<close>

lemma live_listing_volume_fields [simp]:
  "list_boot_volume_attachments (live_listing env) = list_boot_volume_attachments env"
  "get_boot_volume (live_listing env) = get_boot_volume env"
  "list_volume_attachments (live_listing env) = list_volume_attachments env"
  "get_volume (live_listing env) = get_volume env"
  by (simp_all add: live_listing_def)

lemma live_listing_volume_info:
  "cv_get_boot_volume_info (live_listing env) = cv_get_boot_volume_info env"
  "cv_get_block_volume_info (live_listing env) = cv_get_block_volume_info env"
  by (simp_all add: fun_eq_iff cv_get_boot_volume_info_def cv_get_block_volume_info_def
      cong: sum.case_cong list.case_cong)

lemma live_listing_instance_info:
  "cv_instance_info_of (live_listing env) region compartment i =
     cv_instance_info_of env region compartment i"
  by (simp add: cv_instance_info_of_def live_listing_volume_info)

lemma live_listing_instance_compartment:
  assumes "cv_instance_compartment env filename region c s st = Ok s' st'"
  shows "cv_instance_compartment (live_listing env) filename region c s st = Ok s' st'"
proof (cases "list_instances env region c")
  case (Inl e)
  with assms show ?thesis by (simp add: cv_instance_compartment_def)
next
  case (Inr instances)
  have l: "list_instances (live_listing env) region c = Inr (filter live_instance instances)"
    using Inr by (simp add: live_listing_def)
  define recs where
    "recs = map (cv_instance_info_of env region c) (filter live_instance instances)"
  have recs': "map (cv_instance_info_of (live_listing env) region c)
      (filter live_instance instances) = recs"
    by (simp add: recs_def live_listing_instance_info)
  show ?thesis
  proof (cases "instances = []")
    case True
    with assms Inr l show ?thesis by (simp add: cv_instance_compartment_def)
  next
    case False
    from assms Inr False obtain u1 where
      dump: "cv_dump_info filename ''instances'' (map Instance recs)
               (count_instances recs st) = Ok u1 st'"
      and s': "s' = add_instances recs (s\<lparr>is_region := Some region\<rparr>)"
      by (auto simp: cv_instance_compartment_def cv_instance_loop_eq and_then_Ok recs_def)
    show ?thesis
    proof (cases "filter live_instance instances = []")
      case True
      then have "recs = []" by (simp add: recs_def)
      with cv_dump_info_instances [OF dump] s' have "st' = st"
        "s' = s\<lparr>is_region := Some region\<rparr>" by simp_all
      with True l show ?thesis by (simp add: cv_instance_compartment_def)
    next
      case False
      with dump s' l show ?thesis
        by (simp add: cv_instance_compartment_def cv_instance_loop_eq recs' and_then_Ok
            recs_def [symmetric])
    qed
  qed
qed

lemma live_listing_instance_run:
  assumes "cv_get_instance_info env filename regions compartments st = Ok u st'"
  shows "cv_get_instance_info (live_listing env) filename regions compartments st = Ok u st'"
proof -
  have region: "cv_instance_region (live_listing env) filename cs r l s = Ok l' s'"
    if "cv_instance_region env filename cs r l s = Ok l' s'" for cs r l s l' s'
  proof -
    from that obtain b where
      loop: "for_each (cv_instance_compartment env filename r) cs
          \<lparr>is_region = None, is_compartment_id = None, is_instance_count = 0,
           is_total_sizeGB = 0, is_total_sizeTB = 0\<rparr> (set_region r s) = Ok b s'"
      and l': "l' = l @ [b]"
      by (auto simp: cv_instance_region_def and_then_Ok)
    from for_each_Ok_mono [OF loop,
        where ?body2.0 = "cv_instance_compartment (live_listing env) filename r"]
      live_listing_instance_compartment l'
    show ?thesis by (simp add: cv_instance_region_def)
  qed
  from assms obtain rs cs where rs: "default_regions env regions st = Inr rs"
    and cs: "default_compartments env compartments st = Inr cs"
    by (auto simp: cv_get_instance_info_def split: sum.splits)
  with assms obtain l st1 where
    loop: "for_each (cv_instance_region env filename cs) rs [] st = Ok l st1"
    and rest: "and_then (cv_write_grand_total filename ''instances'' st1)
                 (\<lambda>_ st2.
                    and_then
                      (cv_dump_summary filename ''instances'' (map InstanceSum l) st2)
                      (\<lambda>_. format_workbook filename)) = Ok u st'"
    by (auto simp: cv_get_instance_info_def and_then_Ok)
  from for_each_Ok_mono [OF loop,
      where ?body2.0 = "cv_instance_region (live_listing env) filename cs"] region
  have "for_each (cv_instance_region (live_listing env) filename cs) rs [] st = Ok l st1"
    by blast
  with rest rs cs show ?thesis
    by (simp add: cv_get_instance_info_def live_listing_defaults)
qed

subsection \<open>C7: terminal resources, in every workload\<close>

text \<open>
  C7. A resource in its terminal lifecycle state (\<^verbatim>\<open>TERMINATED\<close> for an instance or a
  DB system, \<^verbatim>\<open>DELETED\<close> for a cluster) is filtered out before aggregation: the loop
  over the resources of a scope leaves the same summary, the same list of detail records
  (the rows of the detail sheet) and the same global counters as on the listing without
  the terminal resources, and raises when it raises there; no detail record has the
  terminal state; a whole run over the clusters gives the same outcome as on the provider
  without its deleted clusters; and a whole run over the DB systems, or over the
  instances in \<^verbatim>\<open>CVOracleCloudSizingScript.py\<close>, that returns leaves the state it leaves
  on the provider without its terminated resources. Buckets have no lifecycle state.
\<close>

theorem terminal_resources_excluded:
  "foldl (cs_instance_step env region compartment) (s, l, st) instances =
     foldl (cs_instance_step env region compartment) (s, l, st) (filter live_instance instances) \<and>
   foldl (cv_instance_step env region compartment) (s, l, st) instances =
     foldl (cv_instance_step env region compartment) (s, l, st) (filter live_instance instances) \<and>
   foldl (cv_cluster_step env region) (ks, kl, st) clusters =
     foldl (cv_cluster_step env region) (ks, kl, st) (filter live_cluster clusters) \<and>
   list_all (\<lambda>r. ii_state r \<noteq> ''TERMINATED'')
     (fst (snd (foldl (cs_instance_step env region compartment) (s, [], st) instances))) \<and>
   list_all (\<lambda>r. ii_state r \<noteq> ''TERMINATED'')
     (fst (snd (foldl (cv_instance_step env region compartment) (s, [], st) instances))) \<and>
   cv_get_oke_cluster_info (live_listing env) filename regions compartments st =
     cv_get_oke_cluster_info env filename regions compartments st \<and>
   for_each (cv_db_step region compartment) db_systems (ds, dl) st =
     for_each (cv_db_step region compartment) (filter live_db_system db_systems) (ds, dl) st \<and>
   (for_each (cv_db_step region compartment) db_systems (ds, []) st = Ok acc st' \<longrightarrow>
      list_all (\<lambda>r. di_lifecycle_state r \<noteq> ''TERMINATED'') (snd acc)) \<and>
   (cv_get_database_info env filename regions compartments st = Ok u st' \<longrightarrow>
      cv_get_database_info (live_listing env) filename regions compartments st = Ok u st') \<and>
   (cv_get_instance_info env filename regions compartments st = Ok u st' \<longrightarrow>
      cv_get_instance_info (live_listing env) filename regions compartments st = Ok u st')"
proof -
  have a: "foldl (cs_instance_step env region compartment) (s, l, st) instances =
     foldl (cs_instance_step env region compartment) (s, l, st) (filter live_instance instances)"
    by (simp only: cs_instance_loop_eq filter_filter conj_absorb)
  have b: "foldl (cv_instance_step env region compartment) (s, l, st) instances =
     foldl (cv_instance_step env region compartment) (s, l, st) (filter live_instance instances)"
    by (simp only: cv_instance_loop_eq filter_filter conj_absorb)
  have c: "foldl (cv_cluster_step env region) (ks, kl, st) clusters =
     foldl (cv_cluster_step env region) (ks, kl, st) (filter live_cluster clusters)"
    by (simp only: cluster_loop_eq filter_filter conj_absorb)
  have d: "list_all (\<lambda>r. ii_state r \<noteq> ''TERMINATED'')
     (fst (snd (foldl (cs_instance_step env region compartment) (s, [], st) instances)))"
    using list_all_live_states(1) [of env region compartment instances]
    by (simp only: cs_instance_loop_eq fst_conv snd_conv append_Nil)
  have e: "list_all (\<lambda>r. ii_state r \<noteq> ''TERMINATED'')
     (fst (snd (foldl (cv_instance_step env region compartment) (s, [], st) instances)))"
    using list_all_live_states(2) [of env region compartment instances]
    by (simp only: cv_instance_loop_eq fst_conv snd_conv append_Nil)
  have f: "cv_get_oke_cluster_info (live_listing env) filename regions compartments st =
     cv_get_oke_cluster_info env filename regions compartments st"
    by (simp only: live_listing_oke_run)
  have g: "for_each (cv_db_step region compartment) db_systems (ds, dl) st =
     for_each (cv_db_step region compartment) (filter live_db_system db_systems) (ds, dl) st"
    by (rule db_loop_filter)
  have h: "for_each (cv_db_step region compartment) db_systems (ds, []) st = Ok acc st' \<longrightarrow>
      list_all (\<lambda>r. di_lifecycle_state r \<noteq> ''TERMINATED'') (snd acc)"
  proof
    assume "for_each (cv_db_step region compartment) db_systems (ds, []) st = Ok acc st'"
    from db_loop [OF this] have "snd acc = db_records region compartment db_systems" by simp
    then show "list_all (\<lambda>r. di_lifecycle_state r \<noteq> ''TERMINATED'') (snd acc)"
      using db_records_props [of region compartment db_systems] by (simp add: list_all_iff)
  qed
  have i: "cv_get_database_info env filename regions compartments st = Ok u st' \<longrightarrow>
      cv_get_database_info (live_listing env) filename regions compartments st = Ok u st'"
    by (rule impI) (rule live_listing_db_run)
  have j: "cv_get_instance_info env filename regions compartments st = Ok u st' \<longrightarrow>
      cv_get_instance_info (live_listing env) filename regions compartments st = Ok u st'"
    by (rule impI) (rule live_listing_instance_run)
  from a b c d e f g h i j show ?thesis by blast
qed


theorem terminal_resources_excluded_witness:
  "map ii_instance_id
     (fst (snd (foldl (cs_instance_step demo_cloud ''r1'' ''c1'')
        (new_instance_summary (Some ''r1'') (Some ''c1''), [], cs_start ''instances'')
        [demo_instance ''i1'' ''RUNNING'', demo_instance ''i0'' ''TERMINATED'',
         demo_instance ''i2'' ''STOPPED'']))) = [''i1'', ''i2''] \<and>
   foldl (cs_instance_step demo_cloud ''r1'' ''c1'')
        (new_instance_summary (Some ''r1'') (Some ''c1''), [], cs_start ''instances'')
        [demo_instance ''i1'' ''RUNNING'', demo_instance ''i0'' ''TERMINATED'',
         demo_instance ''i2'' ''STOPPED''] =
   foldl (cs_instance_step demo_cloud ''r1'' ''c1'')
        (new_instance_summary (Some ''r1'') (Some ''c1''), [], cs_start ''instances'')
        [demo_instance ''i1'' ''RUNNING'', demo_instance ''i2'' ''STOPPED''] \<and>
   (\<exists>acc st'. for_each (cv_db_step ''r1'' ''c1'')
        [demo_db_system ''d1'' ''AVAILABLE'', demo_db_system ''d0'' ''TERMINATED'']
        (new_db_summary (Some ''r1''), []) (cv_start ''db_systems'') = Ok acc st' \<and>
      list_all (\<lambda>r. di_lifecycle_state r \<noteq> ''TERMINATED'') (snd acc)) \<and>
   cv_get_database_info (live_listing demo_cloud) ''report.xlsx'' [] [] (cv_start ''db_systems'') =
     Ok () (final_state (cv_get_database_info demo_cloud ''report.xlsx'' [] []
       (cv_start ''db_systems''))) \<and>
   cv_get_instance_info (live_listing demo_cloud) ''report.xlsx'' [] [''c1'']
       (cv_start ''instances'') =
     Ok () (final_state (cv_get_instance_info demo_cloud ''report.xlsx'' [] [''c1'']
       (cv_start ''instances'')))"
proof -
  have f: "filter live_instance [demo_instance ''i1'' ''RUNNING'', demo_instance ''i0'' ''TERMINATED'',
         demo_instance ''i2'' ''STOPPED''] = [demo_instance ''i1'' ''RUNNING'', demo_instance ''i2'' ''STOPPED'']"
    by (simp add: live_instance_def demo_instance_def)
  have ids: "map ii_instance_id
     (fst (snd (foldl (cs_instance_step demo_cloud ''r1'' ''c1'')
        (new_instance_summary (Some ''r1'') (Some ''c1''), [], cs_start ''instances'')
        [demo_instance ''i1'' ''RUNNING'', demo_instance ''i0'' ''TERMINATED'',
         demo_instance ''i2'' ''STOPPED'']))) = [''i1'', ''i2'']"
    by code_simp
  note t = terminal_resources_excluded [of demo_cloud "''r1''" "''c1''"
        "new_instance_summary (Some ''r1'') (Some ''c1'')" "[]" "cs_start ''instances''"
        "[demo_instance ''i1'' ''RUNNING'', demo_instance ''i0'' ''TERMINATED'',
          demo_instance ''i2'' ''STOPPED'']", THEN conjunct1]
  have eq: "foldl (cs_instance_step demo_cloud ''r1'' ''c1'')
        (new_instance_summary (Some ''r1'') (Some ''c1''), [], cs_start ''instances'')
        [demo_instance ''i1'' ''RUNNING'', demo_instance ''i0'' ''TERMINATED'',
         demo_instance ''i2'' ''STOPPED''] =
      foldl (cs_instance_step demo_cloud ''r1'' ''c1'')
        (new_instance_summary (Some ''r1'') (Some ''c1''), [], cs_start ''instances'')
        [demo_instance ''i1'' ''RUNNING'', demo_instance ''i2'' ''STOPPED'']"
    using t by (simp only: f)
  have "\<exists>acc st'. for_each (cv_db_step ''r1'' ''c1'')
        [demo_db_system ''d1'' ''AVAILABLE'', demo_db_system ''d0'' ''TERMINATED'']
        (new_db_summary (Some ''r1''), []) (cv_start ''db_systems'') = Ok acc st'"
    by (rule outcome_Ok_ex) code_simp
  then obtain acc st' where loop: "for_each (cv_db_step ''r1'' ''c1'')
        [demo_db_system ''d1'' ''AVAILABLE'', demo_db_system ''d0'' ''TERMINATED'']
        (new_db_summary (Some ''r1''), []) (cv_start ''db_systems'') = Ok acc st'"
    by blast
  have "list_all (\<lambda>r. di_lifecycle_state r \<noteq> ''TERMINATED'') (snd acc)"
    using terminal_resources_excluded [THEN conjunct2, THEN conjunct2, THEN conjunct2,
        THEN conjunct2, THEN conjunct2, THEN conjunct2, THEN conjunct2, THEN conjunct1,
        THEN mp, OF loop] .
  with loop have db: "\<exists>acc st'. for_each (cv_db_step ''r1'' ''c1'')
        [demo_db_system ''d1'' ''AVAILABLE'', demo_db_system ''d0'' ''TERMINATED'']
        (new_db_summary (Some ''r1''), []) (cv_start ''db_systems'') = Ok acc st' \<and>
      list_all (\<lambda>r. di_lifecycle_state r \<noteq> ''TERMINATED'') (snd acc)"
    by blast
  have dbrun: "cv_get_database_info (live_listing demo_cloud) ''report.xlsx'' [] []
       (cv_start ''db_systems'') =
     Ok () (final_state (cv_get_database_info demo_cloud ''report.xlsx'' [] []
       (cv_start ''db_systems'')))"
    using terminal_resources_excluded [THEN conjunct2, THEN conjunct2, THEN conjunct2,
        THEN conjunct2, THEN conjunct2, THEN conjunct2, THEN conjunct2, THEN conjunct2,
        THEN conjunct1, THEN mp, OF demo_runs(6)] .
  have irun: "cv_get_instance_info (live_listing demo_cloud) ''report.xlsx'' [] [''c1'']
       (cv_start ''instances'') =
     Ok () (final_state (cv_get_instance_info demo_cloud ''report.xlsx'' [] [''c1'']
       (cv_start ''instances'')))"
    using terminal_resources_excluded [THEN conjunct2, THEN conjunct2, THEN conjunct2,
        THEN conjunct2, THEN conjunct2, THEN conjunct2, THEN conjunct2, THEN conjunct2,
        THEN conjunct2, THEN mp, OF demo_runs(4)] .
  from ids eq db dbrun irun show ?thesis by blast
qed

subsection \<open>C1: the TB fields, in every workload\<close>

lemma cluster_info_of_tb:
  "ki_total_pvc_size_tb (cluster_info_of env region profile c) =
     round2_quot (ki_total_pvc_size_gb (cluster_info_of env region profile c)) 1024"
  by (simp add: cluster_info_of_def read_pvcs_def read_nodes_def new_cluster_info_def Let_def
      round2_quot_def
      split: kubeconfig_result.splits sum.splits prod.splits option.splits)

text \<open>
  C1, as the code has it. The TB field of every detail record is \<^verbatim>\<open>round(GB / 1024, 2)\<close>
  of its own GB field: the float \<^verbatim>\<open>GB / 1024\<close> rounded to the nearest hundredth, a tie
  going to the even hundredth (Python's \<^verbatim>\<open>round\<close>). For an instance, a DB system and a
  cluster the GB field is an integer; for a bucket it is itself a float of two decimals,
  and the division and the rounding act on the binary64 number nearest to that decimal.
  The TB total of a scope summary, and the TB grand total, are the sums of the TB fields
  of the detail records: they are not derived from the GB total.
\<close>

theorem tb_fields_derivation:
  "list_all (\<lambda>r. ii_sizeTB r = round2_quot (ii_sizeGB r) 1024)
     (fst (snd (foldl (cv_instance_step env region compartment) (s, [], st) instances))) \<and>
   is_total_sizeTB (fst (foldl (cv_instance_step env region compartment) (s, [], st) instances)) =
     is_total_sizeTB s +
     sum_list (map ii_sizeTB
       (fst (snd (foldl (cv_instance_step env region compartment) (s, [], st) instances)))) \<and>
   total_instance_sizeTB
       (snd (snd (foldl (cv_instance_step env region compartment) (s, [], st) instances))) =
     total_instance_sizeTB st +
     sum_list (map ii_sizeTB
       (fst (snd (foldl (cv_instance_step env region compartment) (s, [], st) instances)))) \<and>
   list_all (\<lambda>r. oi_sizeTB r = round2_dec_quot (oi_sizeGB r) 1024)
     (fst (snd (foldl (bucket_step env region namespace compartment) (t, [], st) buckets))) \<and>
   os_total_storage_TB (fst (foldl (bucket_step env region namespace compartment) (t, [], st) buckets)) =
     os_total_storage_TB t +
     sum_list (map oi_sizeTB
       (fst (snd (foldl (bucket_step env region namespace compartment) (t, [], st) buckets)))) \<and>
   total_storageTB
       (snd (snd (foldl (bucket_step env region namespace compartment) (t, [], st) buckets))) =
     total_storageTB st +
     sum_list (map oi_sizeTB
       (fst (snd (foldl (bucket_step env region namespace compartment) (t, [], st) buckets)))) \<and>
   list_all (\<lambda>r. ii_sizeTB r = round2_quot (ii_sizeGB r) 1024)
     (fst (snd (foldl (cs_instance_step env region compartment) (s, [], st) instances))) \<and>
   is_total_sizeTB (fst (foldl (cs_instance_step env region compartment) (s, [], st) instances)) =
     is_total_sizeTB s +
     sum_list (map ii_sizeTB
       (fst (snd (foldl (cs_instance_step env region compartment) (s, [], st) instances)))) \<and>
   total_instance_sizeTB
       (snd (snd (foldl (cs_instance_step env region compartment) (s, [], st) instances))) =
     total_instance_sizeTB st +
     sum_list (map ii_sizeTB
       (fst (snd (foldl (cs_instance_step env region compartment) (s, [], st) instances)))) \<and>
   list_all (\<lambda>r. ki_total_pvc_size_tb r = round2_quot (ki_total_pvc_size_gb r) 1024)
     (fst (snd (foldl (cv_cluster_step env region) (k, [], st) clusters))) \<and>
   ks_total_pvc_size_tb (fst (foldl (cv_cluster_step env region) (k, [], st) clusters)) =
     ks_total_pvc_size_tb k +
     sum_list (map ki_total_pvc_size_tb
       (fst (snd (foldl (cv_cluster_step env region) (k, [], st) clusters)))) \<and>
   total_oke_pvc_size_tb
       (snd (snd (foldl (cv_cluster_step env region) (k, [], st) clusters))) =
     total_oke_pvc_size_tb st +
     sum_list (map ki_total_pvc_size_tb
       (fst (snd (foldl (cv_cluster_step env region) (k, [], st) clusters)))) \<and>
   (for_each (cv_db_step region compartment) db_systems (d, []) st = Ok acc st' \<longrightarrow>
      list_all (\<lambda>r. di_data_storage_size_tb r = round2_quot (di_data_storage_size_gb r) 1024)
        (snd acc) \<and>
      ds_total_storage_tb (fst acc) =
        ds_total_storage_tb d + sum_list (map di_data_storage_size_tb (snd acc)) \<and>
      total_db_system_sizeTB st' =
        total_db_system_sizeTB st + sum_list (map di_data_storage_size_tb (snd acc)))"
proof -
  have old: "list_all (\<lambda>r. ii_sizeTB r = round2_quot (ii_sizeGB r) 1024)
     (fst (snd (foldl (cv_instance_step env region compartment) (s, [], st) instances))) \<and>
   is_total_sizeTB (fst (foldl (cv_instance_step env region compartment) (s, [], st) instances)) =
     is_total_sizeTB s +
     sum_list (map ii_sizeTB
       (fst (snd (foldl (cv_instance_step env region compartment) (s, [], st) instances)))) \<and>
   total_instance_sizeTB
       (snd (snd (foldl (cv_instance_step env region compartment) (s, [], st) instances))) =
     total_instance_sizeTB st +
     sum_list (map ii_sizeTB
       (fst (snd (foldl (cv_instance_step env region compartment) (s, [], st) instances)))) \<and>
   list_all (\<lambda>r. oi_sizeTB r = round2_dec_quot (oi_sizeGB r) 1024)
     (fst (snd (foldl (bucket_step env region namespace compartment) (t, [], st) buckets))) \<and>
   os_total_storage_TB (fst (foldl (bucket_step env region namespace compartment) (t, [], st) buckets)) =
     os_total_storage_TB t +
     sum_list (map oi_sizeTB
       (fst (snd (foldl (bucket_step env region namespace compartment) (t, [], st) buckets)))) \<and>
   total_storageTB
       (snd (snd (foldl (bucket_step env region namespace compartment) (t, [], st) buckets))) =
     total_storageTB st +
     sum_list (map oi_sizeTB
       (fst (snd (foldl (bucket_step env region namespace compartment) (t, [], st) buckets))))"
  by (simp add: cv_instance_loop_eq bucket_loop_eq add_instances_def count_instances_def
      add_buckets_def count_buckets_def bucket_records_tb [unfolded list_all_iff] list_all_iff
      cv_instance_info_of_def Let_def)
  have cs: "list_all (\<lambda>r. ii_sizeTB r = round2_quot (ii_sizeGB r) 1024)
      (map (cs_instance_info_of env region compartment) (filter live_instance instances))"
    by (simp add: list_all_iff cs_instance_info_of_def Let_def)
  have kr: "list_all (\<lambda>r. ki_total_pvc_size_tb r = round2_quot (ki_total_pvc_size_gb r) 1024)
      (map (cluster_info_of env region p) (filter live_cluster clusters))" for p
    by (simp add: list_all_iff cluster_info_of_tb)
  have new1: "list_all (\<lambda>r. ii_sizeTB r = round2_quot (ii_sizeGB r) 1024)
     (fst (snd (foldl (cs_instance_step env region compartment) (s, [], st) instances))) \<and>
   is_total_sizeTB (fst (foldl (cs_instance_step env region compartment) (s, [], st) instances)) =
     is_total_sizeTB s +
     sum_list (map ii_sizeTB
       (fst (snd (foldl (cs_instance_step env region compartment) (s, [], st) instances)))) \<and>
   total_instance_sizeTB
       (snd (snd (foldl (cs_instance_step env region compartment) (s, [], st) instances))) =
     total_instance_sizeTB st +
     sum_list (map ii_sizeTB
       (fst (snd (foldl (cs_instance_step env region compartment) (s, [], st) instances))))"
    using cs by (simp add: cs_instance_loop_eq add_instances_def count_instances_def)
  have new2: "list_all (\<lambda>r. ki_total_pvc_size_tb r = round2_quot (ki_total_pvc_size_gb r) 1024)
     (fst (snd (foldl (cv_cluster_step env region) (k, [], st) clusters))) \<and>
   ks_total_pvc_size_tb (fst (foldl (cv_cluster_step env region) (k, [], st) clusters)) =
     ks_total_pvc_size_tb k +
     sum_list (map ki_total_pvc_size_tb
       (fst (snd (foldl (cv_cluster_step env region) (k, [], st) clusters)))) \<and>
   total_oke_pvc_size_tb
       (snd (snd (foldl (cv_cluster_step env region) (k, [], st) clusters))) =
     total_oke_pvc_size_tb st +
     sum_list (map ki_total_pvc_size_tb
       (fst (snd (foldl (cv_cluster_step env region) (k, [], st) clusters))))"
    using kr by (simp add: cluster_loop_eq add_clusters_def)
  have new3: "for_each (cv_db_step region compartment) db_systems (d, []) st = Ok acc st' \<longrightarrow>
      list_all (\<lambda>r. di_data_storage_size_tb r = round2_quot (di_data_storage_size_gb r) 1024)
        (snd acc) \<and>
      ds_total_storage_tb (fst acc) =
        ds_total_storage_tb d + sum_list (map di_data_storage_size_tb (snd acc)) \<and>
      total_db_system_sizeTB st' =
        total_db_system_sizeTB st + sum_list (map di_data_storage_size_tb (snd acc))"
  proof
    assume "for_each (cv_db_step region compartment) db_systems (d, []) st = Ok acc st'"
    from db_loop [OF this] db_records_props [of region compartment db_systems]
    show "list_all (\<lambda>r. di_data_storage_size_tb r = round2_quot (di_data_storage_size_gb r) 1024)
        (snd acc) \<and>
      ds_total_storage_tb (fst acc) =
        ds_total_storage_tb d + sum_list (map di_data_storage_size_tb (snd acc)) \<and>
      total_db_system_sizeTB st' =
        total_db_system_sizeTB st + sum_list (map di_data_storage_size_tb (snd acc))"
      by (simp add: add_db_systems_def list_all_iff)
  qed
  from old new1 new2 new3 show ?thesis by blast
qed

theorem tb_fields_derivation_witness:
  "map ii_sizeGB (fst (snd (foldl (cv_instance_step demo_cloud ''r1'' ''c1'')
       (new_instance_summary None None, [], cv_start ''instances'')
       [demo_instance ''i1'' ''RUNNING'', demo_instance ''i2'' ''STOPPED'']))) = [600, 600] \<and>
   map ii_sizeTB (fst (snd (foldl (cv_instance_step demo_cloud ''r1'' ''c1'')
       (new_instance_summary None None, [], cv_start ''instances'')
       [demo_instance ''i1'' ''RUNNING'', demo_instance ''i2'' ''STOPPED'']))) = [59, 59] \<and>
   is_total_sizeTB (fst (foldl (cv_instance_step demo_cloud ''r1'' ''c1'')
       (new_instance_summary None None, [], cv_start ''instances'')
       [demo_instance ''i1'' ''RUNNING'', demo_instance ''i2'' ''STOPPED''])) = 118 \<and>
   round2_dec_quot 512 1024 = 1 \<and> round2_dec_quot 1536 1024 = 1 \<and>
   round2_dec_quot 2560 1024 = 3 \<and>
   (\<exists>acc st'. for_each (cv_db_step ''r1'' ''c1'')
        [demo_db_system ''d1'' ''AVAILABLE'', demo_db_system ''d0'' ''TERMINATED'']
        (new_db_summary (Some ''r1''), []) (cv_start ''db_systems'') = Ok acc st' \<and>
      list_all (\<lambda>r. di_data_storage_size_tb r = round2_quot (di_data_storage_size_gb r) 1024)
        (snd acc) \<and>
      map di_data_storage_size_tb (snd acc) = [25])"
proof -
  have gb: "map ii_sizeGB (fst (snd (foldl (cv_instance_step demo_cloud ''r1'' ''c1'')
       (new_instance_summary None None, [], cv_start ''instances'')
       [demo_instance ''i1'' ''RUNNING'', demo_instance ''i2'' ''STOPPED'']))) = [600, 600]"
    by code_simp
  have tb: "map ii_sizeTB (fst (snd (foldl (cv_instance_step demo_cloud ''r1'' ''c1'')
       (new_instance_summary None None, [], cv_start ''instances'')
       [demo_instance ''i1'' ''RUNNING'', demo_instance ''i2'' ''STOPPED'']))) = [59, 59]"
    by code_simp
  have z: "is_total_sizeTB (new_instance_summary None None) = 0"
    by (simp add: new_instance_summary_def)
  note t = tb_fields_derivation [of demo_cloud "''r1''" "''c1''" "new_instance_summary None None"
      "cv_start ''instances''" "[demo_instance ''i1'' ''RUNNING'', demo_instance ''i2'' ''STOPPED'']",
      THEN conjunct2, THEN conjunct1]
  have "is_total_sizeTB (fst (foldl (cv_instance_step demo_cloud ''r1'' ''c1'')
       (new_instance_summary None None, [], cv_start ''instances'')
       [demo_instance ''i1'' ''RUNNING'', demo_instance ''i2'' ''STOPPED''])) = 118"
    using t by (simp only: tb z) simp
  then have first: "map ii_sizeGB (fst (snd (foldl (cv_instance_step demo_cloud ''r1'' ''c1'')
       (new_instance_summary None None, [], cv_start ''instances'')
       [demo_instance ''i1'' ''RUNNING'', demo_instance ''i2'' ''STOPPED'']))) = [600, 600] \<and>
   map ii_sizeTB (fst (snd (foldl (cv_instance_step demo_cloud ''r1'' ''c1'')
       (new_instance_summary None None, [], cv_start ''instances'')
       [demo_instance ''i1'' ''RUNNING'', demo_instance ''i2'' ''STOPPED'']))) = [59, 59] \<and>
   is_total_sizeTB (fst (foldl (cv_instance_step demo_cloud ''r1'' ''c1'')
       (new_instance_summary None None, [], cv_start ''instances'')
       [demo_instance ''i1'' ''RUNNING'', demo_instance ''i2'' ''STOPPED''])) = 118"
    using gb tb by blast
  have fl: "round2_dec_quot 512 1024 = 1 \<and> round2_dec_quot 1536 1024 = 1 \<and>
      round2_dec_quot 2560 1024 = 3"
    by code_simp
  have "\<exists>acc st'. for_each (cv_db_step ''r1'' ''c1'')
        [demo_db_system ''d1'' ''AVAILABLE'', demo_db_system ''d0'' ''TERMINATED'']
        (new_db_summary (Some ''r1''), []) (cv_start ''db_systems'') = Ok acc st'"
    by (rule outcome_Ok_ex) code_simp
  then obtain acc st' where loop: "for_each (cv_db_step ''r1'' ''c1'')
        [demo_db_system ''d1'' ''AVAILABLE'', demo_db_system ''d0'' ''TERMINATED'']
        (new_db_summary (Some ''r1''), []) (cv_start ''db_systems'') = Ok acc st'"
    by blast
  have rel: "list_all (\<lambda>r. di_data_storage_size_tb r = round2_quot (di_data_storage_size_gb r) 1024)
        (snd acc)"
    using tb_fields_derivation [THEN conjunct2, THEN conjunct2, THEN conjunct2,
        THEN conjunct2, THEN conjunct2, THEN conjunct2, THEN conjunct2, THEN conjunct2,
        THEN conjunct2, THEN conjunct2, THEN conjunct2, THEN conjunct2, THEN mp, OF loop,
        THEN conjunct1] .
  have "snd acc = db_records ''r1'' ''c1''
      [demo_db_system ''d1'' ''AVAILABLE'', demo_db_system ''d0'' ''TERMINATED'']"
    using db_loop [OF loop] by simp
  moreover have "map di_data_storage_size_tb (db_records ''r1'' ''c1''
      [demo_db_system ''d1'' ''AVAILABLE'', demo_db_system ''d0'' ''TERMINATED'']) = [25]"
    by code_simp
  ultimately have tbs: "map di_data_storage_size_tb (snd acc) = [25]" by simp
  have db: "\<exists>acc st'. for_each (cv_db_step ''r1'' ''c1'')
        [demo_db_system ''d1'' ''AVAILABLE'', demo_db_system ''d0'' ''TERMINATED'']
        (new_db_summary (Some ''r1''), []) (cv_start ''db_systems'') = Ok acc st' \<and>
      list_all (\<lambda>r. di_data_storage_size_tb r = round2_quot (di_data_storage_size_gb r) 1024)
        (snd acc) \<and>
      map di_data_storage_size_tb (snd acc) = [25]"
    by (rule exI [of _ acc], rule exI [of _ st']) (simp only: loop rel tbs simp_thms)
  from first fl db show ?thesis by (intro conjI) simp_all
qed



theorem tb_summary_counterexample:
  "sheet_of (final_state (cv_get_instance_info demo_cloud ''report.xlsx'' [] [''c1'']
       (cv_start ''instances''))) ''report.xlsx'' ''Instance Summary'' =
     Some
      [\<lparr>cells = [CStr ''Region'', CStr ''Instance Count'', CStr ''Total Size (GB)'',
                 CStr ''Total Size (TB)''],
          bold = True, fill = True\<rparr>,
       \<lparr>cells = [CStr ''Total Instances'', CInt 2, CInt 1200, CDec 118],
          bold = True, fill = False\<rparr>,
       plain_row [CStr ''r1'', CInt 2, CInt 1200, CDec 118]] \<and>
   spec_round2_half_up 1200 1024 = 117 \<and>
   ii_sizeGB (cv_instance_info_of demo_cloud ''r1'' ''c3'' (demo_instance ''i3'' ''RUNNING'')) = 128 \<and>
   ii_sizeTB (cv_instance_info_of demo_cloud ''r1'' ''c3'' (demo_instance ''i3'' ''RUNNING'')) = 12 \<and>
   spec_round2_half_up 128 1024 = 13"
  by code_simp

end
